theory Spec2Isabelle
  imports Main "HOL-Library.Sublist"
begin

section \<open>Python values and library functions used by the recipes\<close>

text \<open>
  The four recipes (\<^verbatim>\<open>vtk-h\<close>, \<^verbatim>\<open>ascent\<close>, \<^verbatim>\<open>babelflow\<close>, \<^verbatim>\<open>pmt\<close>) are straight-line Python:
  they read the process environment and the resolved build specification, write text to a
  file and call external tools. Python strings are modelled as \<^typ>\<open>string\<close>, exceptions
  as values of the type \<open>error\<close>, and everything outside the interpreter (environment
  variables, host name, working directory, files, the executable search path) as a record
  \<open>world\<close> that is passed in and returned.
\<close>

datatype error =
    KeyError string
  | RuntimeError string
  | OSError string
  | NameError string
  | ProcessError string

text \<open>\<^verbatim>\<open>sep.join(xs)\<close>\<close>

fun str_join :: "string \<Rightarrow> string list \<Rightarrow> string" where
  "str_join sep [] = []"
| "str_join sep [x] = x"
| "str_join sep (x # y # ys) = x @ sep @ str_join sep (y # ys)"

text \<open>
  \<^verbatim>\<open>s.count(sub)\<close>: the number of non-overlapping occurrences of \<open>sub\<close> in \<open>s\<close>, scanning
  from the left; for the empty \<open>sub\<close> Python answers \<open>len(s) + 1\<close>.
\<close>

function str_count :: "string \<Rightarrow> string \<Rightarrow> nat" where
  "str_count s sub =
     (if sub = [] then length s + 1
      else if s = [] then 0
      else if prefix sub s then 1 + str_count (drop (length sub) s) sub
      else str_count (tl s) sub)"
  by pat_completeness auto
termination
  by (relation "measure (\<lambda>(s, sub). length s)") auto

declare str_count.simps [simp del]

text \<open>\<^verbatim>\<open>s.split(sep)\<close> for a one-character separator.\<close>

function str_split :: "char \<Rightarrow> string \<Rightarrow> string list" where
  "str_split sep s =
     (case dropWhile (\<lambda>c. c \<noteq> sep) s of
        [] \<Rightarrow> [s]
      | _ # rest \<Rightarrow> takeWhile (\<lambda>c. c \<noteq> sep) s # str_split sep rest)"
  by pat_completeness auto
termination
proof (relation "measure (\<lambda>(sep, s). length s)")
  show "wf (measure (\<lambda>(sep, s). length s))" by simp
next
  fix sep :: char and s :: string and x rest
  assume "dropWhile (\<lambda>c. c \<noteq> sep) s = x # rest"
  then have "length (x # rest) \<le> length s"
    using length_dropWhile_le [of "\<lambda>c. c \<noteq> sep" s] by simp
  then show "((sep, rest), (sep, s)) \<in> measure (\<lambda>(sep, s). length s)" by simp
qed

declare str_split.simps [simp del]

subsection \<open>\<^verbatim>\<open>os.path\<close> (POSIX)\<close>

text \<open>\<^verbatim>\<open>os.path.isabs(p)\<close>: \<open>p\<close> starts with a slash.\<close>

definition isabs :: "string \<Rightarrow> bool" where
  "isabs p = prefix ''/'' p"

text \<open>\<^verbatim>\<open>os.path.join(a, b)\<close>; Spack's \<^verbatim>\<open>join_path\<close> is this function.\<close>

definition path_join :: "string \<Rightarrow> string \<Rightarrow> string" where
  "path_join a b =
     (if isabs b then b
      else if a = [] \<or> suffix ''/'' a then a @ b
      else a @ ''/'' @ b)"

text \<open>
  \<^verbatim>\<open>os.path.normpath(p)\<close>. POSIX keeps exactly two leading slashes apart from one and from
  three or more. The loop over the parts drops empty ones and \<^verbatim>\<open>.\<close>, and lets
  \<^verbatim>\<open>..\<close> remove the component before it.
\<close>

definition initial_slashes :: "string \<Rightarrow> nat" where
  "initial_slashes p =
     (if \<not> prefix ''/'' p then 0
      else if prefix ''//'' p \<and> \<not> prefix ''///'' p then 2
      else 1)"

fun norm_comps :: "nat \<Rightarrow> string list \<Rightarrow> string list \<Rightarrow> string list" where
  "norm_comps nsl new_comps [] = new_comps"
| "norm_comps nsl new_comps (part # parts) =
     (if part = [] \<or> part = ''.'' then norm_comps nsl new_comps parts
      else if part \<noteq> ''..'' \<or> (nsl = 0 \<and> new_comps = [])
                \<or> (new_comps \<noteq> [] \<and> last new_comps = ''..'')
        then norm_comps nsl (new_comps @ [part]) parts
      else if new_comps \<noteq> [] then norm_comps nsl (butlast new_comps) parts
      else norm_comps nsl new_comps parts)"

definition normpath :: "string \<Rightarrow> string" where
  "normpath p =
     (if p = [] then ''.''
      else
        let nsl = initial_slashes p;
            parts = norm_comps nsl [] (str_split (CHR ''/'') p);
            path = replicate nsl (CHR ''/'') @ str_join ''/'' parts
        in if path = [] then ''.'' else path)"

subsection \<open>The world outside the interpreter\<close>

text \<open>
  \<open>files\<close> holds the regular files, keyed by their absolute path. \<open>locate\<close> is the path
  resolution of the operating system: \<open>locate w d p\<close> is the key of the file that the path
  \<open>p\<close> leads to from the working directory \<open>d\<close>, and \<open>None\<close> when \<open>p\<close> cannot lead to a
  regular file (it is empty or ends in a slash, a directory on the way is missing, or a
  component before the last is a regular file). \<open>creatable\<close> says for which paths
  \<^verbatim>\<open>open(p, "w")\<close> succeeds (directory present and writable, and so on). \<open>which\<close> is
  Spack's search of the executable path. \<open>proc_ok\<close> says whether an external command
  exits with status zero, and \<open>trace\<close> records the external commands run so far.
\<close>

datatype command =
    Cmake "string list"
  | Make "string list"
  | InstallFile string string

record world =
  environ :: "string \<rightharpoonup> string"
  hostname :: string
  cwd :: string
  files :: "string \<rightharpoonup> string"
  locate :: "string \<Rightarrow> string \<Rightarrow> string option"
  creatable :: "string \<Rightarrow> bool"
  which :: "string \<rightharpoonup> string"
  proc_ok :: "command \<Rightarrow> bool"
  trace :: "command list"

text \<open>\<^verbatim>\<open>os.path.abspath(p)\<close>\<close>

definition abspath :: "world \<Rightarrow> string \<Rightarrow> string" where
  "abspath w p = normpath (if isabs p then p else path_join (cwd w) p)"

text \<open>
  \<^verbatim>\<open>os.path.isfile(p)\<close>: the operating system resolves the path, and the answer is yes
  when it leads to a regular file.
\<close>

definition isfile :: "world \<Rightarrow> string \<Rightarrow> bool" where
  "isfile w p =
     (case locate w (cwd w) p of
        None \<Rightarrow> False
      | Some k \<Rightarrow> files w k \<noteq> None)"

text \<open>
  \<^verbatim>\<open>open(p, "w")\<close> creates the file, or truncates it; the text written through the file
  object is in the file once the object is closed. The file is kept under the absolute
  path that \<^verbatim>\<open>os.path.abspath\<close> gives for its name.
\<close>

definition open_w :: "world \<Rightarrow> string \<Rightarrow> error + world" where
  "open_w w p =
     (if creatable w (abspath w p)
      then Inr (w\<lparr>files := (files w)(abspath w p \<mapsto> [])\<rparr>)
      else Inl (OSError p))"

definition close_w :: "world \<Rightarrow> string \<Rightarrow> string \<Rightarrow> world" where
  "close_w w p text = w\<lparr>files := (files w)(abspath w p \<mapsto> text)\<rparr>"

subsection \<open>The build specification\<close>

text \<open>
  What the recipes ask of Spack's \<^verbatim>\<open>Spec\<close>: \<^verbatim>\<open>"+cuda" in spec\<close> is \<open>has spec ''+cuda''\<close>;
  \<^verbatim>\<open>spec['mpi']\<close> looks a dependency up by name and raises \<^verbatim>\<open>KeyError\<close> when there is none;
  \<^verbatim>\<open>str(spec.architecture)\<close>, \<^verbatim>\<open>str(spec.compiler)\<close> and the lists of
  \<^verbatim>\<open>spec.compiler_flags\<close> (every flag name is a key of a concrete spec) are fields.
  \<open>dep\<close> is what a dependency's spec exposes: its install prefix, the path of its
  command, the MPI wrappers, and \<^verbatim>\<open>satisfies\<close>.
\<close>

record dep =
  dep_prefix :: string
  command_path :: string
  mpicc :: string
  mpicxx :: string
  mpifc :: string
  satisfies :: "string \<Rightarrow> bool"

record spec =
  has :: "string \<Rightarrow> bool"
  architecture :: string
  compiler :: string
  compiler_flags :: "string \<Rightarrow> string list"
  deps :: "string \<rightharpoonup> dep"

text \<open>\<^verbatim>\<open>self\<close>: the package object, with \<^verbatim>\<open>self.spec\<close> and \<^verbatim>\<open>self.compiler.fc\<close>.\<close>

record package =
  pkg_spec :: spec
  compiler_fc :: "string option"

subsection \<open>Writing to the open file\<close>

text \<open>
  A section of \<^verbatim>\<open>create_host_config\<close> is a \<open>block\<close>: the strings it passes to
  \<^verbatim>\<open>cfg.write\<close>, in order, and the exception that ended it, if one did. \<open>seq\<close> runs
  blocks one after the other and stops at the first exception.
\<close>

type_synonym block = "string list \<times> error option"

definition wr :: "string \<Rightarrow> block" where
  "wr s = ([s], None)"

definition raise :: "error \<Rightarrow> block" where
  "raise e = ([], Some e)"

fun seq :: "block list \<Rightarrow> block" where
  "seq [] = ([], None)"
| "seq ((ch, Some e) # bs) = (ch, Some e)"
| "seq ((ch, None) # bs) = (ch @ fst (seq bs), snd (seq bs))"

text \<open>\<^verbatim>\<open>spec[name]\<close>, bound for the rest of the block.\<close>

definition get_dep :: "spec \<Rightarrow> string \<Rightarrow> (dep \<Rightarrow> block) \<Rightarrow> block" where
  "get_dep sp n k = (case deps sp n of None \<Rightarrow> raise (KeyError n) | Some d \<Rightarrow> k d)"

section \<open>\<^verbatim>\<open>cmake_cache_entry\<close>\<close>

text \<open>
  \<^verbatim>\<open>vtk-h/package.py\<close>, lines 18-28: the type defaults to \<^verbatim>\<open>BOOL\<close> for the values
  \<^verbatim>\<open>ON\<close> and \<^verbatim>\<open>OFF\<close> and to \<^verbatim>\<open>PATH\<close> for every other value.
\<close>

definition vtkh_cmake_cache_entry :: "string \<Rightarrow> string \<Rightarrow> string option \<Rightarrow> string" where
  \<open>vtkh_cmake_cache_entry name val vtype =
     (let vt = (case vtype of
                  None \<Rightarrow> if val = ''ON'' \<or> val = ''OFF'' then ''BOOL'' else ''PATH''
                | Some t \<Rightarrow> t)
      in ''set('' @ name @ '' "'' @ val @ ''" CACHE '' @ vt @ '' "")\<newline>\<newline>'')\<close>

text \<open>\<^verbatim>\<open>ascent/package.py\<close>, lines 36-41: the type is always \<^verbatim>\<open>PATH\<close>.\<close>

definition ascent_cmake_cache_entry :: "string \<Rightarrow> string \<Rightarrow> string" where
  \<open>ascent_cmake_cache_entry name val =
     ''set('' @ name @ '' "'' @ val @ ''" CACHE PATH "")\<newline>\<newline>''\<close>

section \<open>The \<^verbatim>\<open>vtk-h\<close> recipe\<close>

subsection \<open>\<^verbatim>\<open>VtkH.create_host_config\<close>, the text written (lines 142-302)\<close>

text \<open>
  The sections of the method after \<^verbatim>\<open>open\<close>, in the order of the source. The
  parameters are the local variables computed before the file is opened.
\<close>

definition vtkh_header :: "spec \<Rightarrow> string \<Rightarrow> string \<Rightarrow> block" where
  "vtkh_header spec sys_type cmake_exe = seq [
     wr ''##################################\<newline>'',
     wr ''# spack generated host-config\<newline>'',
     wr ''##################################\<newline>'',
     wr (''# '' @ sys_type @ ''-'' @ compiler spec @ ''\<newline>''),
     wr ''##################################\<newline>\<newline>'',
     wr ''# cmake from spack \<newline>'',
     wr (''# cmake executable path: '' @ cmake_exe @ ''\<newline>\<newline>'')]"

definition vtkh_compilers :: "spec \<Rightarrow> string \<Rightarrow> string \<Rightarrow> block" where
  "vtkh_compilers spec c_compiler cpp_compiler = seq [
     wr ''#######\<newline>'',
     wr (''# using '' @ compiler spec @ '' compiler spec\<newline>''),
     wr ''#######\<newline>\<newline>'',
     wr ''# c compiler used by spack\<newline>'',
     wr (vtkh_cmake_cache_entry ''CMAKE_C_COMPILER'' c_compiler None),
     wr ''# cpp compiler used by spack\<newline>'',
     wr (vtkh_cmake_cache_entry ''CMAKE_CXX_COMPILER'' cpp_compiler None)]"

text \<open>Lines 164-172: shared or static libraries; a CUDA build is static.\<close>

definition vtkh_shared :: "spec \<Rightarrow> block" where
  "vtkh_shared spec =
     (if has spec ''+cuda'' then wr (vtkh_cmake_cache_entry ''BUILD_SHARED_LIBS'' ''OFF'' None)
      else if has spec ''+shared'' then wr (vtkh_cmake_cache_entry ''BUILD_SHARED_LIBS'' ''ON'' None)
      else wr (vtkh_cmake_cache_entry ''BUILD_SHARED_LIBS'' ''OFF'' None))"

text \<open>Lines 177-189: Spack's global compiler flags; an empty flag string writes nothing.\<close>

definition vtkh_flags :: "spec \<Rightarrow> block" where
  "vtkh_flags spec =
     (let cppflags0 = str_join '' '' (compiler_flags spec ''cppflags'');
          cppflags = (if cppflags0 \<noteq> [] then cppflags0 @ '' '' else cppflags0);
          cflags = cppflags @ str_join '' '' (compiler_flags spec ''cflags'');
          cxxflags = cppflags @ str_join '' '' (compiler_flags spec ''cxxflags'');
          fflags = str_join '' '' (compiler_flags spec ''fflags'')
      in seq [
        if cflags \<noteq> [] then wr (vtkh_cmake_cache_entry ''CMAKE_C_FLAGS'' cflags None) else seq [],
        if cxxflags \<noteq> [] then wr (vtkh_cmake_cache_entry ''CMAKE_CXX_FLAGS'' cxxflags None) else seq [],
        if fflags \<noteq> [] then wr (vtkh_cmake_cache_entry ''CMAKE_Fortran_FLAGS'' fflags None) else seq []])"

text \<open>Lines 194-211: tests, logging, contour tree.\<close>

definition vtkh_options :: "spec \<Rightarrow> block" where
  "vtkh_options spec = seq [
     if has spec ''+test''
     then seq [wr (vtkh_cmake_cache_entry ''ENABLE_TESTS'' ''OFF'' None),
               wr (vtkh_cmake_cache_entry ''BUILD_TESTING'' ''OFF'' None)]
     else seq [wr (vtkh_cmake_cache_entry ''ENABLE_TESTS'' ''ON'' None),
               wr (vtkh_cmake_cache_entry ''BUILD_TESTING'' ''ON'' None)],
     if has spec ''+logging'' then wr (vtkh_cmake_cache_entry ''ENABLE_LOGGING'' ''ON'' None)
     else wr (vtkh_cmake_cache_entry ''ENABLE_LOGGING'' ''OFF'' None),
     if has spec ''+contourtree''
     then wr (vtkh_cmake_cache_entry ''ENABLE_FILTER_CONTOUR_TREE'' ''ON'' None)
     else wr (vtkh_cmake_cache_entry ''ENABLE_FILTER_CONTOUR_TREE'' ''OFF'' None)]"

text \<open>Lines 218-229: OpenMP and VTK-m.\<close>

definition vtkh_core_deps :: "spec \<Rightarrow> block" where
  "vtkh_core_deps spec = seq [
     wr ''# enable openmp support\<newline>'',
     if has spec ''+openmp'' then wr (vtkh_cmake_cache_entry ''ENABLE_OPENMP'' ''ON'' None)
     else wr (vtkh_cmake_cache_entry ''ENABLE_OPENMP'' ''OFF'' None),
     wr ''# vtk-m support \<newline>'',
     wr ''# vtk-m from spack\<newline>'',
     get_dep spec ''vtk-m'' (\<lambda>vtkm. wr (vtkh_cmake_cache_entry ''VTKM_DIR'' (dep_prefix vtkm) None))]"

text \<open>Lines 239-250: serial, and logging again.\<close>

definition vtkh_serial_logging :: "spec \<Rightarrow> block" where
  "vtkh_serial_logging spec = seq [
     if has spec ''+serial'' then wr (vtkh_cmake_cache_entry ''ENABLE_SERIAL'' ''ON'' None)
     else wr (vtkh_cmake_cache_entry ''ENABLE_SERIAL'' ''OFF'' None),
     if has spec ''+logging'' then wr (vtkh_cmake_cache_entry ''ENABLE_LOGGING'' ''ON'' None)
     else wr (vtkh_cmake_cache_entry ''ENABLE_LOGGING'' ''OFF'' None)]"

text \<open>
  Lines 256-285: MPI. The three wrappers are read from \<^verbatim>\<open>spec['mpi']\<close> before anything
  is written; with the Cray wrapper \<^verbatim>\<open>CC\<close> as C++ compiler they are replaced.
\<close>

definition vtkh_mpi :: "package \<Rightarrow> spec \<Rightarrow> world \<Rightarrow> string \<Rightarrow> block" where
  "vtkh_mpi self spec w cpp_compiler = seq [
     wr ''# MPI Support\<newline>'',
     if has spec ''+mpi'' then
       get_dep spec ''mpi'' (\<lambda>mpi.
         let mpicc_path = (if cpp_compiler = ''CC'' then ''cc'' else mpicc mpi);
             mpicxx_path = (if cpp_compiler = ''CC'' then ''CC'' else mpicxx mpi);
             mpifc_path = (if cpp_compiler = ''CC'' then ''ftn'' else mpifc mpi);
             mpiexe_bin = path_join (path_join (dep_prefix mpi) ''bin'') ''mpiexec''
         in seq [
           wr (vtkh_cmake_cache_entry ''ENABLE_MPI'' ''ON'' None),
           wr (vtkh_cmake_cache_entry ''MPI_C_COMPILER'' mpicc_path None),
           wr (vtkh_cmake_cache_entry ''MPI_CXX_COMPILER'' mpicxx_path None),
           wr (vtkh_cmake_cache_entry ''MPI_Fortran_COMPILER'' mpifc_path None),
           if isfile w mpiexe_bin then
             get_dep (pkg_spec self) ''cmake'' (\<lambda>cm.
               if satisfies cm ''@3.10:''
               then wr (vtkh_cmake_cache_entry ''MPIEXEC_EXECUTABLE'' mpiexe_bin None)
               else wr (vtkh_cmake_cache_entry ''MPIEXEC'' mpiexe_bin None))
           else seq []])
     else wr (vtkh_cmake_cache_entry ''ENABLE_MPI'' ''OFF'' None)]"

text \<open>Lines 290-298: CUDA.\<close>

definition vtkh_cuda :: "spec \<Rightarrow> string \<Rightarrow> block" where
  "vtkh_cuda spec cpp_compiler = seq [
     wr ''# CUDA Support\<newline>'',
     if has spec ''+cuda''
     then seq [wr (vtkh_cmake_cache_entry ''ENABLE_CUDA'' ''ON'' None),
               wr (vtkh_cmake_cache_entry ''VTKm_ENABLE_CUDA:BOOL'' ''ON'' None),
               wr (vtkh_cmake_cache_entry ''CMAKE_CUDA_HOST_COMPILER'' cpp_compiler None)]
     else seq [wr (vtkh_cmake_cache_entry ''VTKm_ENABLE_CUDA:BOOL'' ''OFF'' None),
               wr (vtkh_cmake_cache_entry ''ENABLE_CUDA'' ''OFF'' None)]]"

text \<open>
  The closing comment, lines 300-302; lines 394-396 of the ascent recipe write the same
  three strings.
\<close>

definition footer :: block where
  "footer = seq [
     wr ''##################################\<newline>'',
     wr ''# end spack generated host-config\<newline>'',
     wr ''##################################\<newline>'']"

definition vtkh_cfg ::
  "package \<Rightarrow> spec \<Rightarrow> world \<Rightarrow> string \<Rightarrow> string \<Rightarrow> string \<Rightarrow> string \<Rightarrow> block" where
  "vtkh_cfg self spec w c_compiler cpp_compiler sys_type cmake_exe = seq [
     vtkh_header spec sys_type cmake_exe,
     vtkh_compilers spec c_compiler cpp_compiler,
     vtkh_shared spec,
     vtkh_flags spec,
     vtkh_options spec,
     vtkh_core_deps spec,
     vtkh_serial_logging spec,
     vtkh_mpi self spec w cpp_compiler,
     vtkh_cuda spec cpp_compiler,
     footer]"

subsection \<open>\<^verbatim>\<open>VtkH.create_host_config\<close> (lines 114-307)\<close>

text \<open>
  Lines 126-129 and 137-139: the system type is \<^verbatim>\<open>SYS_TYPE\<close> of the environment when it
  is set and the architecture of the spec otherwise; the file is named after the host,
  the system type and the compiler.
\<close>

definition get_sys_type :: "spec \<Rightarrow> world \<Rightarrow> string" where
  "get_sys_type spec w =
     (case environ w ''SYS_TYPE'' of
        Some t \<Rightarrow> t
      | None \<Rightarrow> architecture spec)"

definition vtkh_host_cfg_fname :: "spec \<Rightarrow> world \<Rightarrow> string" where
  "vtkh_host_cfg_fname spec w =
     hostname w @ ''-'' @ get_sys_type spec w @ ''-'' @ compiler spec @ ''-vtkh.cmake''"

text \<open>
  The result has three parts: the returned path, or the exception raised; the strings
  passed to \<^verbatim>\<open>cfg.write\<close>, in order; and the world the call leaves behind. An exception
  before \<^verbatim>\<open>open\<close> leaves the world as it was; one after it leaves the file with the text
  written until then (no output is cleaned up). The message sent to \<^verbatim>\<open>tty.info\<close> is not
  modelled.
\<close>

definition vtkh_create_host_config ::
  "package \<Rightarrow> spec \<Rightarrow> string \<Rightarrow> world \<Rightarrow> (error + string) \<times> string list \<times> world" where
  "vtkh_create_host_config self spec pfx w =
     (case environ w ''SPACK_CC'' of
        None \<Rightarrow> (Inl (KeyError ''SPACK_CC''), [], w)
      | Some c_compiler \<Rightarrow>
     (case environ w ''SPACK_CXX'' of
        None \<Rightarrow> (Inl (KeyError ''SPACK_CXX''), [], w)
      | Some cpp_compiler \<Rightarrow>
     (case deps spec ''cmake'' of
        None \<Rightarrow> (Inl (KeyError ''cmake''), [], w)
      | Some cm \<Rightarrow>
     let cmake_exe = command_path cm;
         host_cfg_fname = vtkh_host_cfg_fname spec w
     in
     (case open_w w host_cfg_fname of
        Inl e \<Rightarrow> (Inl e, [], w)
      | Inr w1 \<Rightarrow>
     let cfg = vtkh_cfg self spec w1 c_compiler cpp_compiler (get_sys_type spec w) cmake_exe;
         w2 = close_w w1 host_cfg_fname (concat (fst cfg))
     in
     (case snd cfg of
        Some e \<Rightarrow> (Inl e, fst cfg, w2)
      | None \<Rightarrow> (Inr (abspath w2 host_cfg_fname), fst cfg, w2))))))"

subsection \<open>\<^verbatim>\<open>VtkH.install\<close> (lines 85-112)\<close>

text \<open>
  The loop of lines 96-102 over \<^verbatim>\<open>std_cmake_args\<close>, the list of arguments Spack puts
  into the recipe's module.
\<close>

fun vtkh_filter_args :: "spec \<Rightarrow> string list \<Rightarrow> string list \<Rightarrow> string list" where
  "vtkh_filter_args spec cmake_args [] = cmake_args"
| "vtkh_filter_args spec cmake_args (arg # args) =
     (if str_count arg ''CMAKE_BUILD_TYPE'' = 0 then
        (if has spec ''+shared'' then vtkh_filter_args spec (cmake_args @ [arg]) args
         else if str_count arg ''RPATH'' = 0 then vtkh_filter_args spec (cmake_args @ [arg]) args
         else vtkh_filter_args spec cmake_args args)
      else vtkh_filter_args spec cmake_args args)"

definition vtkh_cmake_args :: "spec \<Rightarrow> string list \<Rightarrow> string \<Rightarrow> string list" where
  "vtkh_cmake_args spec std_cmake_args host_cfg_fname =
     vtkh_filter_args spec [] std_cmake_args
       @ [''-DCMAKE_BUILD_TYPE=Release''] @ [''-C'', host_cfg_fname, ''../src'']"

text \<open>
  Running an external command: it is recorded, and a non-zero exit status raises.
  \<^verbatim>\<open>install(src, dst)\<close>, Spack's file copy, is recorded in the same way.
\<close>

definition run_cmd :: "command \<Rightarrow> world \<Rightarrow> error option \<times> world" where
  "run_cmd c w =
     (let w' = w\<lparr>trace := trace w @ [c]\<rparr>
      in if proc_ok w c then (None, w') else (Some (ProcessError ''non-zero exit status''), w'))"

fun run_cmds :: "command list \<Rightarrow> world \<Rightarrow> error option \<times> world" where
  "run_cmds [] w = (None, w)"
| "run_cmds (c # cs) w =
     (case run_cmd c w of
        (None, w') \<Rightarrow> run_cmds cs w'
      | (Some e, w') \<Rightarrow> (Some e, w'))"

text \<open>
  \<^verbatim>\<open>with working_dir('spack-build', create=True)\<close> makes the directory, changes into it and
  changes back when the body ends; \<open>locate\<close> resolves paths with that directory in place.
  The \<^verbatim>\<open>print\<close> calls are not modelled.
\<close>

definition enter_dir :: "string \<Rightarrow> world \<Rightarrow> world" where
  "enter_dir d w = w\<lparr>cwd := abspath w d\<rparr>"

definition vtkh_install ::
  "package \<Rightarrow> spec \<Rightarrow> string \<Rightarrow> string list \<Rightarrow> world \<Rightarrow> error option \<times> world" where
  "vtkh_install self spec pfx std_cmake_args w =
     (case vtkh_create_host_config self spec pfx (enter_dir ''spack-build'' w) of
        (Inl e, ws, w1) \<Rightarrow> (Some e, w1\<lparr>cwd := cwd w\<rparr>)
      | (Inr host_cfg_fname, ws, w1) \<Rightarrow>
          (case run_cmds [Cmake (vtkh_cmake_args spec std_cmake_args host_cfg_fname),
                          Make [], Make [''install''],
                          InstallFile host_cfg_fname pfx] w1 of
             (r, w2) \<Rightarrow> (r, w2\<lparr>cwd := cwd w\<rparr>)))"

section \<open>The \<^verbatim>\<open>ascent\<close> recipe\<close>

subsection \<open>\<^verbatim>\<open>Ascent.create_host_config\<close>, the text written (lines 233-396)\<close>

definition ascent_header :: "spec \<Rightarrow> string \<Rightarrow> string \<Rightarrow> block" where
  "ascent_header spec sys_type cmake_exe = seq [
     wr ''##################################\<newline>'',
     wr ''# spack generated host-config\<newline>'',
     wr ''##################################\<newline>'',
     wr (''# '' @ sys_type @ ''-'' @ compiler spec @ ''\<newline>''),
     wr ''##################################\<newline>\<newline>'',
     wr ''# cmake from spack \<newline>'',
     wr (''# cmake executable path: '' @ cmake_exe @ ''\<newline>\<newline>'')]"

definition ascent_compilers :: "spec \<Rightarrow> string \<Rightarrow> string \<Rightarrow> block" where
  "ascent_compilers spec c_compiler cpp_compiler = seq [
     wr ''#######\<newline>'',
     wr (''# using '' @ compiler spec @ '' compiler spec\<newline>''),
     wr ''#######\<newline>\<newline>'',
     wr ''# c compiler used by spack\<newline>'',
     wr (ascent_cmake_cache_entry ''CMAKE_C_COMPILER'' c_compiler),
     wr ''# cpp compiler used by spack\<newline>'',
     wr (ascent_cmake_cache_entry ''CMAKE_CXX_COMPILER'' cpp_compiler)]"

text \<open>Lines 255-261: the Fortran compiler, when one was found.\<close>

definition ascent_fortran :: "string option \<Rightarrow> block" where
  "ascent_fortran f_compiler = seq [
     wr ''# fortran compiler used by spack\<newline>'',
     case f_compiler of
       Some f \<Rightarrow> seq [wr (ascent_cmake_cache_entry ''ENABLE_FORTRAN'' ''ON''),
                      wr (ascent_cmake_cache_entry ''CMAKE_Fortran_COMPILER'' f)]
     | None \<Rightarrow> seq [wr ''# no fortran compiler found\<newline>\<newline>'',
                    wr (ascent_cmake_cache_entry ''ENABLE_FORTRAN'' ''OFF'')]]"

text \<open>Lines 263-278: shared or static libraries, and Conduit.\<close>

definition ascent_shared :: "spec \<Rightarrow> block" where
  "ascent_shared spec =
     (if has spec ''+shared'' then wr (ascent_cmake_cache_entry ''BUILD_SHARED_LIBS'' ''ON'')
      else wr (ascent_cmake_cache_entry ''BUILD_SHARED_LIBS'' ''OFF''))"

definition ascent_conduit :: "spec \<Rightarrow> block" where
  "ascent_conduit spec = seq [
     wr ''# conduit from spack \<newline>'',
     get_dep spec ''conduit'' (\<lambda>conduit.
       wr (ascent_cmake_cache_entry ''CONDUIT_DIR'' (dep_prefix conduit)))]"

text \<open>
  Lines 288-311: Python and the documentation. \<^verbatim>\<open>if py_site_pkgs_dir:\<close> holds for a
  string that is not empty.
\<close>

definition ascent_python :: "spec \<Rightarrow> string option \<Rightarrow> block" where
  "ascent_python spec py_site_pkgs_dir = seq [
     wr ''# Python Support\<newline>'',
     if has spec ''+python'' then seq [
       wr ''# Enable python module builds\<newline>'',
       wr (ascent_cmake_cache_entry ''ENABLE_PYTHON'' ''ON''),
       wr ''# python from spack \<newline>'',
       get_dep spec ''python'' (\<lambda>python.
         wr (ascent_cmake_cache_entry ''PYTHON_EXECUTABLE'' (command_path python))),
       case py_site_pkgs_dir of
         None \<Rightarrow> seq []
       | Some d \<Rightarrow>
           if d \<noteq> [] then wr (ascent_cmake_cache_entry ''PYTHON_MODULE_INSTALL_PREFIX'' d)
           else seq []]
     else wr (ascent_cmake_cache_entry ''ENABLE_PYTHON'' ''OFF''),
     if has spec ''+doc'' \<and> has spec ''+python'' then seq [
       wr (ascent_cmake_cache_entry ''ENABLE_DOCS'' ''ON''),
       wr ''# sphinx from spack \<newline>'',
       get_dep spec ''py-sphinx'' (\<lambda>sphinx.
         wr (ascent_cmake_cache_entry ''SPHINX_EXECUTABLE''
               (path_join (path_join (dep_prefix sphinx) ''bin'') ''sphinx-build'')))]
     else wr (ascent_cmake_cache_entry ''ENABLE_DOCS'' ''OFF'')]"

text \<open>Lines 317-337: MPI. \<^verbatim>\<open>ENABLE_MPI\<close> is written before \<^verbatim>\<open>spec['mpi']\<close> is read.\<close>

definition ascent_mpi :: "package \<Rightarrow> spec \<Rightarrow> world \<Rightarrow> block" where
  "ascent_mpi self spec w = seq [
     wr ''# MPI Support\<newline>'',
     if has spec ''+mpi'' then seq [
       wr (ascent_cmake_cache_entry ''ENABLE_MPI'' ''ON''),
       get_dep spec ''mpi'' (\<lambda>mpi.
         let mpiexe_bin = path_join (path_join (dep_prefix mpi) ''bin'') ''mpiexec''
         in seq [
           wr (ascent_cmake_cache_entry ''MPI_C_COMPILER'' (mpicc mpi)),
           wr (ascent_cmake_cache_entry ''MPI_CXX_COMPILER'' (mpicxx mpi)),
           wr (ascent_cmake_cache_entry ''MPI_Fortran_COMPILER'' (mpifc mpi)),
           if isfile w mpiexe_bin then
             get_dep (pkg_spec self) ''cmake'' (\<lambda>cm.
               if satisfies cm ''@3.10:''
               then wr (ascent_cmake_cache_entry ''MPIEXEC_EXECUTABLE'' mpiexe_bin)
               else wr (ascent_cmake_cache_entry ''MPIEXEC'' mpiexe_bin))
           else seq []])]
     else wr (ascent_cmake_cache_entry ''ENABLE_MPI'' ''OFF'')]"

text \<open>Lines 343-353: CUDA and OpenMP.\<close>

definition ascent_cuda_openmp :: "spec \<Rightarrow> block" where
  "ascent_cuda_openmp spec = seq [
     wr ''# CUDA Support\<newline>'',
     if has spec ''+cuda'' then wr (ascent_cmake_cache_entry ''ENABLE_CUDA'' ''ON'')
     else wr (ascent_cmake_cache_entry ''ENABLE_CUDA'' ''OFF''),
     if has spec ''+openmp'' then wr (ascent_cmake_cache_entry ''ENABLE_OPENMP'' ''ON'')
     else wr (ascent_cmake_cache_entry ''ENABLE_OPENMP'' ''OFF'')]"

text \<open>Lines 359-392: VTK-h with VTK-m, MFEM and Adios.\<close>

definition ascent_tpls :: "spec \<Rightarrow> block" where
  "ascent_tpls spec = seq [
     wr ''# vtk-h support \<newline>'',
     if has spec ''+vtkh'' then seq [
       wr ''# vtk-m from spack\<newline>'',
       get_dep spec ''vtkm'' (\<lambda>vtkm.
         wr (ascent_cmake_cache_entry ''VTKM_DIR'' (dep_prefix vtkm))),
       wr ''# vtk-h from spack\<newline>'',
       get_dep spec ''vtkh'' (\<lambda>vtkh.
         wr (ascent_cmake_cache_entry ''VTKH_DIR'' (dep_prefix vtkh)))]
     else wr ''# vtk-h not built by spack \<newline>'',
     if has spec ''+mfem'' then seq [
       wr ''# mfem from spack \<newline>'',
       get_dep spec ''mfem'' (\<lambda>mfem.
         wr (ascent_cmake_cache_entry ''MFEM_DIR'' (dep_prefix mfem)))]
     else wr ''# mfem not built by spack \<newline>'',
     wr ''# adios support\<newline>'',
     if has spec ''+adios'' then
       get_dep spec ''adios'' (\<lambda>adios.
         wr (ascent_cmake_cache_entry ''ADIOS_DIR'' (dep_prefix adios)))
     else wr ''# adios not built by spack \<newline>'']"

definition ascent_cfg ::
  "package \<Rightarrow> spec \<Rightarrow> string option \<Rightarrow> world \<Rightarrow> string \<Rightarrow> string \<Rightarrow> string option
     \<Rightarrow> string \<Rightarrow> string \<Rightarrow> block" where
  "ascent_cfg self spec py_site_pkgs_dir w c_compiler cpp_compiler f_compiler sys_type cmake_exe =
     seq [
       ascent_header spec sys_type cmake_exe,
       ascent_compilers spec c_compiler cpp_compiler,
       ascent_fortran f_compiler,
       ascent_shared spec,
       ascent_conduit spec,
       ascent_python spec py_site_pkgs_dir,
       ascent_mpi self spec w,
       ascent_cuda_openmp spec,
       ascent_tpls spec,
       footer]"

subsection \<open>\<^verbatim>\<open>Ascent.create_host_config\<close> (lines 173-401)\<close>

text \<open>
  Lines 197-202: \<^verbatim>\<open>f_compiler\<close>. \<^verbatim>\<open>if self.compiler.fc:\<close> holds for a string that is not
  empty; only then is \<^verbatim>\<open>SPACK_FC\<close> read, and it names the compiler when it is a file.
\<close>

definition ascent_f_compiler :: "package \<Rightarrow> world \<Rightarrow> error + string option" where
  "ascent_f_compiler self w =
     (case compiler_fc self of
        None \<Rightarrow> Inr None
      | Some fc \<Rightarrow>
          if fc = [] then Inr None
          else (case environ w ''SPACK_FC'' of
                  None \<Rightarrow> Inl (KeyError ''SPACK_FC'')
                | Some f \<Rightarrow> if isfile w f then Inr (Some f) else Inr None))"

text \<open>Lines 219-226: the CMake executable, from the spec or from the search path.\<close>

definition ascent_cmake_exe :: "spec \<Rightarrow> world \<Rightarrow> error + string" where
  "ascent_cmake_exe spec w =
     (if has spec ''+cmake'' then
        (case deps spec ''cmake'' of
           None \<Rightarrow> Inl (KeyError ''cmake'')
         | Some cm \<Rightarrow> Inr (command_path cm))
      else
        (case which w ''cmake'' of
           None \<Rightarrow> Inl (RuntimeError ''failed to find CMake (and cmake variant is off)'')
         | Some path \<Rightarrow> Inr path))"

text \<open>Lines 210-213 are those of \<open>get_sys_type\<close>; lines 228-230 name the file.\<close>

definition ascent_host_cfg_fname :: "spec \<Rightarrow> world \<Rightarrow> string" where
  "ascent_host_cfg_fname spec w =
     hostname w @ ''-'' @ get_sys_type spec w @ ''-'' @ compiler spec @ ''-ascent.cmake''"

definition ascent_create_host_config ::
  "package \<Rightarrow> spec \<Rightarrow> string \<Rightarrow> string option \<Rightarrow> world
     \<Rightarrow> (error + string) \<times> string list \<times> world" where
  "ascent_create_host_config self spec pfx py_site_pkgs_dir w =
     (case environ w ''SPACK_CC'' of
        None \<Rightarrow> (Inl (KeyError ''SPACK_CC''), [], w)
      | Some c_compiler \<Rightarrow>
     (case environ w ''SPACK_CXX'' of
        None \<Rightarrow> (Inl (KeyError ''SPACK_CXX''), [], w)
      | Some cpp_compiler \<Rightarrow>
     (case ascent_f_compiler self w of
        Inl e \<Rightarrow> (Inl e, [], w)
      | Inr f_compiler \<Rightarrow>
     (case ascent_cmake_exe spec w of
        Inl e \<Rightarrow> (Inl e, [], w)
      | Inr cmake_exe \<Rightarrow>
     let host_cfg_fname = ascent_host_cfg_fname spec w
     in
     (case open_w w host_cfg_fname of
        Inl e \<Rightarrow> (Inl e, [], w)
      | Inr w1 \<Rightarrow>
     let cfg = ascent_cfg self spec py_site_pkgs_dir w1 c_compiler cpp_compiler f_compiler
                 (get_sys_type spec w) cmake_exe;
         w2 = close_w w1 host_cfg_fname (concat (fst cfg))
     in
     (case snd cfg of
        Some e \<Rightarrow> (Inl e, fst cfg, w2)
      | None \<Rightarrow> (Inr (abspath w2 host_cfg_fname), fst cfg, w2)))))))"

subsection \<open>\<^verbatim>\<open>Ascent.install\<close> (lines 144-171)\<close>

text \<open>The loop of lines 163-165.\<close>

fun ascent_filter_args :: "string list \<Rightarrow> string list \<Rightarrow> string list" where
  "ascent_filter_args cmake_args [] = cmake_args"
| "ascent_filter_args cmake_args (arg # args) =
     (if str_count arg ''RPATH'' = 0 then ascent_filter_args (cmake_args @ [arg]) args
      else ascent_filter_args cmake_args args)"

definition ascent_cmake_args :: "spec \<Rightarrow> string list \<Rightarrow> string \<Rightarrow> string list" where
  "ascent_cmake_args spec std_cmake_args host_cfg_fname =
     (if has spec ''+shared'' then [] @ std_cmake_args
      else ascent_filter_args [] std_cmake_args)
       @ [''-C'', host_cfg_fname, ''../src'']"

text \<open>
  \<^verbatim>\<open>site_packages_dir\<close> is a name Spack puts into the module of a recipe that extends
  Python; \<open>None\<close> stands for a module without it, where reading the name raises.
\<close>

definition ascent_install ::
  "package \<Rightarrow> spec \<Rightarrow> string \<Rightarrow> string list \<Rightarrow> string option \<Rightarrow> world
     \<Rightarrow> error option \<times> world" where
  "ascent_install self spec pfx std_cmake_args site_packages_dir w =
     (if has spec ''+python'' \<and> site_packages_dir = None
      then (Some (NameError ''site_packages_dir''), w)
      else
        let py_site_pkgs_dir = (if has spec ''+python'' then site_packages_dir else None)
        in
        (case ascent_create_host_config self spec pfx py_site_pkgs_dir
                (enter_dir ''spack-build'' w) of
           (Inl e, ws, w1) \<Rightarrow> (Some e, w1\<lparr>cwd := cwd w\<rparr>)
         | (Inr host_cfg_fname, ws, w1) \<Rightarrow>
             (case run_cmds [Cmake (ascent_cmake_args spec std_cmake_args host_cfg_fname),
                             Make [], Make [''install''],
                             InstallFile host_cfg_fname pfx] w1 of
                (r, w2) \<Rightarrow> (r, w2\<lparr>cwd := cwd w\<rparr>))))"

section \<open>The \<^verbatim>\<open>babelflow\<close> and \<^verbatim>\<open>pmt\<close> recipes\<close>

text \<open>
  \<^verbatim>\<open>cmake_install\<close> (babelflow lines 31-37, pmt lines 40-48) never assigns
  \<^verbatim>\<open>cmake_args\<close>, so Python reads the name from the module's global names: those that
  \<^verbatim>\<open>from spack import *\<close> and Spack's build environment put there, and the recipe's class.
  The names of the class body, among them the method \<^verbatim>\<open>cmake_args\<close> of \<^verbatim>\<open>Pmt\<close>, are not
  in scope inside a method. \<open>globals\<close> maps the module's names that are bound to a list
  to that list; a name it does not bind raises \<^verbatim>\<open>NameError\<close>.
\<close>

definition append_global ::
  "(string \<rightharpoonup> string list) \<Rightarrow> string \<Rightarrow> string \<Rightarrow> error + (string \<rightharpoonup> string list)" where
  "append_global globals name x =
     (case globals name of
        None \<Rightarrow> Inl (NameError name)
      | Some xs \<Rightarrow> Inr (globals(name \<mapsto> xs @ [x])))"

definition babelflow_cmake_install ::
  "(string \<rightharpoonup> string list) \<Rightarrow> spec \<Rightarrow> string \<Rightarrow> world
     \<Rightarrow> error option \<times> (string \<rightharpoonup> string list) \<times> world" where
  "babelflow_cmake_install globals spec pfx w =
     (case (if has spec ''+shared''
            then append_global globals ''cmake_args'' ''-DBUILD_SHARED_LIBS=ON''
            else append_global globals ''cmake_args'' ''-DBUILD_SHARED_LIBS=OFF'') of
        Inl e \<Rightarrow> (Some e, globals, w)
      | Inr globals' \<Rightarrow>
          (case run_cmds [Make [], Make [''install'']] w of
             (r, w') \<Rightarrow> (r, globals', w')))"

definition pmt_cmake_args :: "string list" where
  "pmt_cmake_args = [] @ [''-DLIBRARY_ONLY=ON'']"

definition pmt_cmake_install ::
  "(string \<rightharpoonup> string list) \<Rightarrow> spec \<Rightarrow> string \<Rightarrow> world
     \<Rightarrow> error option \<times> (string \<rightharpoonup> string list) \<times> world" where
  "pmt_cmake_install globals spec pfx w =
     (case (if has spec ''+shared''
            then append_global globals ''cmake_args'' ''-DBUILD_SHARED_LIBS=ON''
            else append_global globals ''cmake_args'' ''-DBUILD_SHARED_LIBS=OFF'') of
        Inl e \<Rightarrow> (Some e, globals, w)
      | Inr globals' \<Rightarrow>
          (case run_cmds [Make [], Make [''install'']] w of
             (r, w') \<Rightarrow> (r, globals', w')))"

section \<open>Reading the written text\<close>

text \<open>
  The cache variable a written string sets: a string that starts with \<^verbatim>\<open>set(\<close> sets the
  variable named up to the first blank; a comment sets none. \<open>entries_named n ws\<close> are
  the strings among \<open>ws\<close> that set the variable \<open>n\<close>, in the order written.
\<close>

definition entry_name :: "string \<Rightarrow> string option" where
  "entry_name s =
     (if prefix ''set('' s then Some (takeWhile (\<lambda>c. c \<noteq> CHR '' '') (drop 4 s)) else None)"

definition entries_named :: "string \<Rightarrow> string list \<Rightarrow> string list" where
  "entries_named n ws = filter (\<lambda>s. entry_name s = Some n) ws"

text \<open>The names of all cache variables set by \<open>ws\<close>, in the order written.\<close>

definition entry_names :: "string list \<Rightarrow> string list" where
  "entry_names ws = List.map_filter entry_name ws"

section \<open>When the emitter has all it reads\<close>

text \<open>
  \<open>vtkh_ready\<close> and \<open>ascent_ready\<close> collect what \<^verbatim>\<open>create_host_config\<close> reads and may
  miss: the compiler variables of the environment, the dependencies that the enabled
  flags make it look up, the CMake executable, and a file that can be created.
\<close>

definition vtkh_ready :: "package \<Rightarrow> spec \<Rightarrow> world \<Rightarrow> bool" where
  "vtkh_ready self spec w \<longleftrightarrow>
     environ w ''SPACK_CC'' \<noteq> None \<and> environ w ''SPACK_CXX'' \<noteq> None
     \<and> deps spec ''cmake'' \<noteq> None \<and> deps (pkg_spec self) ''cmake'' \<noteq> None
     \<and> deps spec ''vtk-m'' \<noteq> None
     \<and> (has spec ''+mpi'' \<longrightarrow> deps spec ''mpi'' \<noteq> None)
     \<and> creatable w (abspath w (vtkh_host_cfg_fname spec w))"

definition fc_set :: "package \<Rightarrow> bool" where
  "fc_set self = (case compiler_fc self of None \<Rightarrow> False | Some fc \<Rightarrow> fc \<noteq> [])"

definition ascent_ready :: "package \<Rightarrow> spec \<Rightarrow> world \<Rightarrow> bool" where
  "ascent_ready self spec w \<longleftrightarrow>
     environ w ''SPACK_CC'' \<noteq> None \<and> environ w ''SPACK_CXX'' \<noteq> None
     \<and> (fc_set self \<longrightarrow> environ w ''SPACK_FC'' \<noteq> None)
     \<and> (if has spec ''+cmake'' then deps spec ''cmake'' \<noteq> None else which w ''cmake'' \<noteq> None)
     \<and> creatable w (abspath w (ascent_host_cfg_fname spec w))
     \<and> deps spec ''conduit'' \<noteq> None
     \<and> (has spec ''+python'' \<longrightarrow> deps spec ''python'' \<noteq> None)
     \<and> (has spec ''+doc'' \<and> has spec ''+python'' \<longrightarrow> deps spec ''py-sphinx'' \<noteq> None)
     \<and> (has spec ''+mpi'' \<longrightarrow> deps spec ''mpi'' \<noteq> None \<and> deps (pkg_spec self) ''cmake'' \<noteq> None)
     \<and> (has spec ''+vtkh'' \<longrightarrow> deps spec ''vtkm'' \<noteq> None \<and> deps spec ''vtkh'' \<noteq> None)
     \<and> (has spec ''+mfem'' \<longrightarrow> deps spec ''mfem'' \<noteq> None)
     \<and> (has spec ''+adios'' \<longrightarrow> deps spec ''adios'' \<noteq> None)"

section \<open>What the emitter reads of the world\<close>

text \<open>
  Two worlds are the same to \<^verbatim>\<open>create_host_config\<close> when they agree on the environment
  variables, the host name, the working directory, the executable search path, the
  resolution of paths, the paths that can be created and the files that exist. They may differ in what the files hold
  and in the external commands run before.
\<close>

definition same_inputs :: "world \<Rightarrow> world \<Rightarrow> bool" where
  "same_inputs w1 w2 \<longleftrightarrow>
     environ w2 = environ w1 \<and> hostname w2 = hostname w1 \<and> cwd w2 = cwd w1
     \<and> which w2 = which w1 \<and> locate w2 = locate w1 \<and> creatable w2 = creatable w1
     \<and> dom (files w2) = dom (files w1)"

section \<open>Example inputs\<close>

text \<open>
  A small installation used to run the recipes: a host \<^verbatim>\<open>node1\<close>, GCC as compiler, and
  CMake, VTK-m, VTK-h, Conduit and MPICH as dependencies; \<^verbatim>\<open>mpiexec\<close> is installed, and
  the Fortran compiler that \<^verbatim>\<open>SPACK_FC\<close> names is not. \<open>ex_spec flags\<close> is the specification
  that satisfies exactly the queries in \<open>flags\<close>.
\<close>

definition ex_dep :: "string \<Rightarrow> dep" where
  "ex_dep p =
     \<lparr>dep_prefix = p, command_path = p @ ''/bin/tool'',
      mpicc = p @ ''/bin/mpicc'', mpicxx = p @ ''/bin/mpicxx'', mpifc = p @ ''/bin/mpif90'',
      satisfies = (\<lambda>q. q = ''@3.10:'')\<rparr>"

definition ex_spec :: "string list \<Rightarrow> spec" where
  "ex_spec flags =
     \<lparr>has = (\<lambda>q. q \<in> set flags),
      architecture = ''linux-x86_64'',
      compiler = ''gcc@8.3.0'',
      compiler_flags = (\<lambda>f. if f = ''cflags'' then [''-O2'', ''-g''] else []),
      deps = [''cmake'' \<mapsto> ex_dep ''/opt/cmake'', ''vtk-m'' \<mapsto> ex_dep ''/opt/vtkm'',
              ''conduit'' \<mapsto> ex_dep ''/opt/conduit'', ''mpi'' \<mapsto> ex_dep ''/opt/mpich'',
              ''vtkm'' \<mapsto> ex_dep ''/opt/vtkm'', ''vtkh'' \<mapsto> ex_dep ''/opt/vtkh'']\<rparr>"

definition ex_pkg :: "string list \<Rightarrow> package" where
  "ex_pkg flags = \<lparr>pkg_spec = ex_spec flags, compiler_fc = Some ''/usr/bin/gfortran''\<rparr>"

text \<open>
  The path resolution of a POSIX file system without symbolic links whose directories are
  \<open>dirs\<close>, each given by its components from the root. \<open>walk\<close> follows the components of
  a path: an empty one (between two slashes) is skipped, and every other one is looked up
  in the directory reached so far, which must be a directory; \<^verbatim>\<open>.\<close> stays there and \<^verbatim>\<open>..\<close>
  goes to the parent, which for the root is the root. A path that ends in a slash, or that
  ends at a directory, leads to no regular file.
\<close>

fun walk :: "string list list \<Rightarrow> string list \<Rightarrow> string list \<Rightarrow> string list option" where
  "walk dirs cur [] = Some cur"
| "walk dirs cur (c # cs) =
     (if c = [] then walk dirs cur cs
      else if cur \<notin> set dirs then None
      else if c = ''.'' then walk dirs cur cs
      else if c = ''..'' then walk dirs (butlast cur) cs
      else walk dirs (cur @ [c]) cs)"

definition posix_locate :: "string list list \<Rightarrow> string \<Rightarrow> string \<Rightarrow> string option" where
  "posix_locate dirs d p =
     (if p = [] \<or> suffix ''/'' p then None
      else
        (case walk dirs [] (str_split (CHR ''/'') (if isabs p then p else d @ ''/'' @ p)) of
           None \<Rightarrow> None
         | Some k \<Rightarrow> if k \<in> set dirs then None else Some (''/'' @ str_join ''/'' k)))"

definition ex_dirs :: "string list list" where
  "ex_dirs =
     [[], [''tmp''], [''tmp'', ''stage''], [''tmp'', ''stage'', ''spack-build''],
      [''usr''], [''usr'', ''bin''], [''opt''], [''opt'', ''mpich''],
      [''opt'', ''mpich'', ''bin'']]"

definition ex_world :: world where
  "ex_world =
     \<lparr>environ = [''SPACK_CC'' \<mapsto> ''/usr/bin/gcc'', ''SPACK_CXX'' \<mapsto> ''/usr/bin/g++'',
                 ''SPACK_FC'' \<mapsto> ''/usr/bin/gfortran''],
      hostname = ''node1'',
      cwd = ''/tmp/stage'',
      files = [''/opt/mpich/bin/mpiexec'' \<mapsto> ''#!/bin/sh''],
      locate = posix_locate ex_dirs,
      creatable = (\<lambda>p. True),
      which = [''cmake'' \<mapsto> ''/usr/bin/cmake''],
      proc_ok = (\<lambda>c. True),
      trace = []\<rparr>"

section \<open>Facts about blocks and written entries\<close>

lemma fst_wr [simp]: "fst (wr s) = [s]"
  by (simp add: wr_def)

lemma snd_wr [simp]: "snd (wr s) = None"
  by (simp add: wr_def)

lemma seq_Cons:
  "seq (b # bs) =
     (case snd b of
        None \<Rightarrow> (fst b @ fst (seq bs), snd (seq bs))
      | Some e \<Rightarrow> (fst b, Some e))"
  by (cases b; cases "snd b") auto

lemma fst_seq_Cons [simp]:
  "fst (seq (b # bs)) = (case snd b of None \<Rightarrow> fst b @ fst (seq bs) | Some e \<Rightarrow> fst b)"
  by (simp add: seq_Cons split: option.splits)

lemma snd_seq_Cons [simp]:
  "snd (seq (b # bs)) = (case snd b of None \<Rightarrow> snd (seq bs) | Some e \<Rightarrow> Some e)"
  by (simp add: seq_Cons split: option.splits)

lemma fst_seq_Nil [simp]: "fst (seq []) = []"
  by simp

lemma snd_seq_Nil [simp]: "snd (seq []) = None"
  by simp

lemma entry_name_comment [simp]: "entry_name (CHR ''#'' # s) = None"
  by (simp add: entry_name_def)

lemma takeWhile_blank:
  "CHR '' '' \<notin> set n \<Longrightarrow> takeWhile (\<lambda>c. c \<noteq> CHR '' '') (n @ CHR '' '' # r) = n"
  by (induction n) auto

lemma entry_name_vtkh:
  "CHR '' '' \<notin> set n \<Longrightarrow> entry_name (vtkh_cmake_cache_entry n v t) = Some n"
  by (simp add: entry_name_def vtkh_cmake_cache_entry_def Let_def takeWhile_blank)

lemma entry_name_ascent:
  "CHR '' '' \<notin> set n \<Longrightarrow> entry_name (ascent_cmake_cache_entry n v) = Some n"
  by (simp add: entry_name_def ascent_cmake_cache_entry_def takeWhile_blank)

lemma entries_named_append [simp]:
  "entries_named n (xs @ ys) = entries_named n xs @ entries_named n ys"
  by (simp add: entries_named_def)

lemma entries_named_Nil [simp]: "entries_named n [] = []"
  by (simp add: entries_named_def)

lemma entries_named_Cons:
  "entries_named n (x # xs) =
     (if entry_name x = Some n then x # entries_named n xs else entries_named n xs)"
  by (simp add: entries_named_def)

lemmas block_simps =
  get_dep_def raise_def Let_def entries_named_Cons entry_name_vtkh entry_name_ascent

section \<open>Facts about the \<^verbatim>\<open>vtk-h\<close> emitter\<close>

lemma vtkh_snd_simple [simp]:
  "snd (vtkh_header spec st ce) = None"
  "snd (vtkh_compilers spec cc cxx) = None"
  "snd (vtkh_shared spec) = None"
  "snd (vtkh_flags spec) = None"
  "snd (vtkh_options spec) = None"
  "snd (vtkh_serial_logging spec) = None"
  "snd (vtkh_cuda spec cxx) = None"
  "snd footer = None"
  by (simp_all add: vtkh_header_def vtkh_compilers_def vtkh_shared_def vtkh_flags_def
      vtkh_options_def vtkh_serial_logging_def vtkh_cuda_def footer_def Let_def)

lemma vtkh_cfg_ok:
  assumes "snd (vtkh_cfg self spec w cc cxx st ce) = None"
  shows "fst (vtkh_cfg self spec w cc cxx st ce) =
           fst (vtkh_header spec st ce) @ fst (vtkh_compilers spec cc cxx)
           @ fst (vtkh_shared spec) @ fst (vtkh_flags spec) @ fst (vtkh_options spec)
           @ fst (vtkh_core_deps spec) @ fst (vtkh_serial_logging spec)
           @ fst (vtkh_mpi self spec w cxx) @ fst (vtkh_cuda spec cxx) @ fst footer"
  using assms by (simp add: vtkh_cfg_def split: option.splits)

text \<open>What a call that returns has done.\<close>

lemma vtkh_returns:
  assumes "vtkh_create_host_config self spec pfx w = (Inr p, ws, w')"
  shows "\<exists>cc cxx cm w1.
    environ w ''SPACK_CC'' = Some cc \<and> environ w ''SPACK_CXX'' = Some cxx
    \<and> deps spec ''cmake'' = Some cm
    \<and> open_w w (vtkh_host_cfg_fname spec w) = Inr w1
    \<and> snd (vtkh_cfg self spec w1 cc cxx (get_sys_type spec w) (command_path cm)) = None
    \<and> ws = fst (vtkh_cfg self spec w1 cc cxx (get_sys_type spec w) (command_path cm))
    \<and> p = abspath w (vtkh_host_cfg_fname spec w)
    \<and> w' = close_w w1 (vtkh_host_cfg_fname spec w) (concat ws)"
  using assms
  by (auto simp: vtkh_create_host_config_def Let_def close_w_def open_w_def abspath_def
      split: option.splits sum.splits if_splits)

lemma vtkh_file_written:
  assumes "vtkh_create_host_config self spec pfx w = (Inr p, ws, w')"
  shows "files w' p = Some (concat ws)"
  using assms
  by (auto simp: vtkh_create_host_config_def Let_def close_w_def open_w_def abspath_def
      split: option.splits sum.splits if_splits)

lemma vtkh_tests_blocks:
  "entries_named ''ENABLE_TESTS'' (fst (vtkh_header spec st ce)) = []"
  "entries_named ''ENABLE_TESTS'' (fst (vtkh_compilers spec cc cxx)) = []"
  "entries_named ''ENABLE_TESTS'' (fst (vtkh_shared spec)) = []"
  "entries_named ''ENABLE_TESTS'' (fst (vtkh_flags spec)) = []"
  "entries_named ''ENABLE_TESTS'' (fst (vtkh_core_deps spec)) = []"
  "entries_named ''ENABLE_TESTS'' (fst (vtkh_serial_logging spec)) = []"
  "entries_named ''ENABLE_TESTS'' (fst (vtkh_mpi self spec w cxx)) = []"
  "entries_named ''ENABLE_TESTS'' (fst (vtkh_cuda spec cxx)) = []"
  "entries_named ''ENABLE_TESTS'' (fst footer) = []"
  by (simp_all add: vtkh_header_def vtkh_compilers_def vtkh_shared_def vtkh_flags_def
      vtkh_core_deps_def vtkh_serial_logging_def vtkh_mpi_def vtkh_cuda_def footer_def
      block_simps split: option.splits)


lemma vtkh_btest_blocks:
  "entries_named ''BUILD_TESTING'' (fst (vtkh_header spec st ce)) = []"
  "entries_named ''BUILD_TESTING'' (fst (vtkh_compilers spec cc cxx)) = []"
  "entries_named ''BUILD_TESTING'' (fst (vtkh_shared spec)) = []"
  "entries_named ''BUILD_TESTING'' (fst (vtkh_flags spec)) = []"
  "entries_named ''BUILD_TESTING'' (fst (vtkh_core_deps spec)) = []"
  "entries_named ''BUILD_TESTING'' (fst (vtkh_serial_logging spec)) = []"
  "entries_named ''BUILD_TESTING'' (fst (vtkh_mpi self spec w cxx)) = []"
  "entries_named ''BUILD_TESTING'' (fst (vtkh_cuda spec cxx)) = []"
  "entries_named ''BUILD_TESTING'' (fst footer) = []"
  by (simp_all add: vtkh_header_def vtkh_compilers_def vtkh_shared_def vtkh_flags_def
      vtkh_core_deps_def vtkh_serial_logging_def vtkh_mpi_def vtkh_cuda_def footer_def
      block_simps split: option.splits)

lemma vtkh_options_tests:
  \<open>entries_named ''ENABLE_TESTS'' (fst (vtkh_options spec)) =
     [if has spec ''+test'' then ''set(ENABLE_TESTS "OFF" CACHE BOOL "")\<newline>\<newline>''
      else ''set(ENABLE_TESTS "ON" CACHE BOOL "")\<newline>\<newline>'']\<close>
  \<open>entries_named ''BUILD_TESTING'' (fst (vtkh_options spec)) =
     [if has spec ''+test'' then ''set(BUILD_TESTING "OFF" CACHE BOOL "")\<newline>\<newline>''
      else ''set(BUILD_TESTING "ON" CACHE BOOL "")\<newline>\<newline>'']\<close>
  by (simp_all add: vtkh_options_def block_simps)
     (simp_all add: vtkh_cmake_cache_entry_def)

section \<open>Facts about the \<^verbatim>\<open>ascent\<close> emitter\<close>

lemma ascent_snd_simple [simp]:
  "snd (ascent_header spec st ce) = None"
  "snd (ascent_compilers spec cc cxx) = None"
  "snd (ascent_fortran fc) = None"
  "snd (ascent_shared spec) = None"
  "snd (ascent_cuda_openmp spec) = None"
  by (simp_all add: ascent_header_def ascent_compilers_def ascent_fortran_def
      ascent_shared_def ascent_cuda_openmp_def split: option.splits)

lemma ascent_cfg_ok:
  assumes "snd (ascent_cfg self spec py w cc cxx fc st ce) = None"
  shows "fst (ascent_cfg self spec py w cc cxx fc st ce) =
           fst (ascent_header spec st ce) @ fst (ascent_compilers spec cc cxx)
           @ fst (ascent_fortran fc) @ fst (ascent_shared spec) @ fst (ascent_conduit spec)
           @ fst (ascent_python spec py) @ fst (ascent_mpi self spec w)
           @ fst (ascent_cuda_openmp spec) @ fst (ascent_tpls spec) @ fst footer"
  using assms by (simp add: ascent_cfg_def split: option.splits)

lemma ascent_returns:
  assumes "ascent_create_host_config self spec pfx py w = (Inr p, ws, w')"
  shows "\<exists>cc cxx fc ce w1.
    environ w ''SPACK_CC'' = Some cc \<and> environ w ''SPACK_CXX'' = Some cxx
    \<and> ascent_f_compiler self w = Inr fc
    \<and> ascent_cmake_exe spec w = Inr ce
    \<and> open_w w (ascent_host_cfg_fname spec w) = Inr w1
    \<and> snd (ascent_cfg self spec py w1 cc cxx fc (get_sys_type spec w) ce) = None
    \<and> ws = fst (ascent_cfg self spec py w1 cc cxx fc (get_sys_type spec w) ce)
    \<and> p = abspath w (ascent_host_cfg_fname spec w)
    \<and> w' = close_w w1 (ascent_host_cfg_fname spec w) (concat ws)"
  using assms
  by (auto simp: ascent_create_host_config_def Let_def close_w_def open_w_def abspath_def
      split: option.splits sum.splits if_splits)

lemma ascent_file_written:
  assumes "ascent_create_host_config self spec pfx py w = (Inr p, ws, w')"
  shows "files w' p = Some (concat ws)"
  using assms
  by (auto simp: ascent_create_host_config_def Let_def close_w_def open_w_def abspath_def
      split: option.splits sum.splits if_splits)

lemmas vtkh_block_defs =
  vtkh_header_def vtkh_compilers_def vtkh_shared_def vtkh_flags_def vtkh_options_def
  vtkh_core_deps_def vtkh_serial_logging_def vtkh_mpi_def vtkh_cuda_def footer_def

lemmas ascent_block_defs =
  ascent_header_def ascent_compilers_def ascent_fortran_def ascent_shared_def
  ascent_conduit_def ascent_python_def ascent_mpi_def ascent_cuda_openmp_def
  ascent_tpls_def footer_def

section \<open>Shared libraries and CUDA\<close>

lemma vtkh_shared_blocks:
  "entries_named ''BUILD_SHARED_LIBS'' (fst (vtkh_header spec st ce)) = []"
  "entries_named ''BUILD_SHARED_LIBS'' (fst (vtkh_compilers spec cc cxx)) = []"
  "entries_named ''BUILD_SHARED_LIBS'' (fst (vtkh_flags spec)) = []"
  "entries_named ''BUILD_SHARED_LIBS'' (fst (vtkh_options spec)) = []"
  "entries_named ''BUILD_SHARED_LIBS'' (fst (vtkh_core_deps spec)) = []"
  "entries_named ''BUILD_SHARED_LIBS'' (fst (vtkh_serial_logging spec)) = []"
  "entries_named ''BUILD_SHARED_LIBS'' (fst (vtkh_mpi self spec w cxx)) = []"
  "entries_named ''BUILD_SHARED_LIBS'' (fst (vtkh_cuda spec cxx)) = []"
  "entries_named ''BUILD_SHARED_LIBS'' (fst footer) = []"
  by (simp_all add: vtkh_block_defs block_simps split: option.splits)

lemma vtkh_shared_entry:
  \<open>entries_named ''BUILD_SHARED_LIBS'' (fst (vtkh_shared spec)) =
     [if has spec ''+cuda'' \<or> \<not> has spec ''+shared''
      then ''set(BUILD_SHARED_LIBS "OFF" CACHE BOOL "")\<newline>\<newline>''
      else ''set(BUILD_SHARED_LIBS "ON" CACHE BOOL "")\<newline>\<newline>'']\<close>
  by (simp add: vtkh_shared_def block_simps) (simp add: vtkh_cmake_cache_entry_def)

lemma ascent_shared_blocks:
  "entries_named ''BUILD_SHARED_LIBS'' (fst (ascent_header spec st ce)) = []"
  "entries_named ''BUILD_SHARED_LIBS'' (fst (ascent_compilers spec cc cxx)) = []"
  "entries_named ''BUILD_SHARED_LIBS'' (fst (ascent_fortran fc)) = []"
  "entries_named ''BUILD_SHARED_LIBS'' (fst (ascent_conduit spec)) = []"
  "entries_named ''BUILD_SHARED_LIBS'' (fst (ascent_python spec py)) = []"
  "entries_named ''BUILD_SHARED_LIBS'' (fst (ascent_mpi self spec w)) = []"
  "entries_named ''BUILD_SHARED_LIBS'' (fst (ascent_cuda_openmp spec)) = []"
  "entries_named ''BUILD_SHARED_LIBS'' (fst (ascent_tpls spec)) = []"
  by (simp_all add: ascent_block_defs block_simps split: option.splits)

lemma ascent_shared_entry:
  \<open>entries_named ''BUILD_SHARED_LIBS'' (fst (ascent_shared spec)) =
     [if has spec ''+shared''
      then ''set(BUILD_SHARED_LIBS "ON" CACHE PATH "")\<newline>\<newline>''
      else ''set(BUILD_SHARED_LIBS "OFF" CACHE PATH "")\<newline>\<newline>'']\<close>
  by (simp add: ascent_shared_def block_simps) (simp add: ascent_cmake_cache_entry_def)

lemma vtkh_shared_written:
  assumes "vtkh_create_host_config self spec pfx w = (Inr p, ws, w')"
  shows \<open>entries_named ''BUILD_SHARED_LIBS'' ws =
     [if has spec ''+cuda'' \<or> \<not> has spec ''+shared''
      then ''set(BUILD_SHARED_LIBS "OFF" CACHE BOOL "")\<newline>\<newline>''
      else ''set(BUILD_SHARED_LIBS "ON" CACHE BOOL "")\<newline>\<newline>'']\<close>
proof -
  from vtkh_returns [OF assms] obtain cc cxx and cm :: dep and w1 where
    ok: "snd (vtkh_cfg self spec w1 cc cxx (get_sys_type spec w) (command_path cm)) = None"
    and ws: "ws = fst (vtkh_cfg self spec w1 cc cxx (get_sys_type spec w) (command_path cm))"
    by blast
  show ?thesis
    unfolding ws vtkh_cfg_ok [OF ok]
    by (simp only: entries_named_append vtkh_shared_blocks vtkh_shared_entry
        append_Nil append_Nil2)
qed

lemma ascent_shared_written:
  assumes "ascent_create_host_config self spec pfx py w = (Inr p, ws, w')"
  shows \<open>entries_named ''BUILD_SHARED_LIBS'' ws =
     [if has spec ''+shared''
      then ''set(BUILD_SHARED_LIBS "ON" CACHE PATH "")\<newline>\<newline>''
      else ''set(BUILD_SHARED_LIBS "OFF" CACHE PATH "")\<newline>\<newline>'']\<close>
proof -
  from ascent_returns [OF assms] obtain cc cxx fc ce w1 where
    ok: "snd (ascent_cfg self spec py w1 cc cxx fc (get_sys_type spec w) ce) = None"
    and ws: "ws = fst (ascent_cfg self spec py w1 cc cxx fc (get_sys_type spec w) ce)"
    by blast
  show ?thesis
    unfolding ws ascent_cfg_ok [OF ok]
    by (simp only: entries_named_append ascent_shared_blocks ascent_shared_entry
        vtkh_shared_blocks append_Nil append_Nil2)
qed

text \<open>
  Claim C2 says that with \<^verbatim>\<open>+cuda\<close> both recipes write \<^verbatim>\<open>BUILD_SHARED_LIBS\<close> as \<^verbatim>\<open>OFF\<close>,
  whatever the shared flag. The ascent recipe does not: lines 263-267 look at \<^verbatim>\<open>+shared\<close>
  alone, and a spec with \<^verbatim>\<open>+cuda\<close> and \<^verbatim>\<open>+shared\<close> gets \<^verbatim>\<open>ON\<close>.
\<close>

theorem cuda_shared_libs_counterexample:
  \<open>fst (ascent_create_host_config (ex_pkg [''+cuda'', ''+shared''])
          (ex_spec [''+cuda'', ''+shared'']) ''/prefix'' None ex_world)
     = Inr ''/tmp/stage/node1-linux-x86_64-gcc@8.3.0-ascent.cmake''
   \<and> entries_named ''BUILD_SHARED_LIBS''
        (fst (snd (ascent_create_host_config (ex_pkg [''+cuda'', ''+shared''])
                     (ex_spec [''+cuda'', ''+shared'']) ''/prefix'' None ex_world)))
     = [''set(BUILD_SHARED_LIBS "ON" CACHE PATH "")\<newline>\<newline>'']\<close>
  by code_simp


text \<open>
  Claim C2, amended. With \<^verbatim>\<open>+cuda\<close>, \<^verbatim>\<open>create_host_config\<close> of the vtk-h recipe writes
  \<^verbatim>\<open>BUILD_SHARED_LIBS\<close> once, as \<^verbatim>\<open>OFF\<close>, whatever the shared flag. \<^verbatim>\<open>create_host_config\<close> of
  the ascent recipe writes \<^verbatim>\<open>BUILD_SHARED_LIBS\<close> once, from the shared flag alone: \<^verbatim>\<open>ON\<close>
  with \<^verbatim>\<open>+shared\<close> and \<^verbatim>\<open>OFF\<close> without, whatever the cuda flag.
\<close>

theorem shared_libs_entry:
  \<open>(vtkh_create_host_config self spec pfx w = (Inr p, ws, w') \<and> has spec ''+cuda'' \<longrightarrow>
      files w' p = Some (concat ws)
      \<and> entries_named ''BUILD_SHARED_LIBS'' ws
          = [''set(BUILD_SHARED_LIBS "OFF" CACHE BOOL "")\<newline>\<newline>''])
   \<and> (ascent_create_host_config self spec pfx py w = (Inr p2, ws2, w2) \<longrightarrow>
      files w2 p2 = Some (concat ws2)
      \<and> entries_named ''BUILD_SHARED_LIBS'' ws2
          = [if has spec ''+shared''
             then ''set(BUILD_SHARED_LIBS "ON" CACHE PATH "")\<newline>\<newline>''
             else ''set(BUILD_SHARED_LIBS "OFF" CACHE PATH "")\<newline>\<newline>''])\<close>
proof (intro conjI impI)
  assume a: "vtkh_create_host_config self spec pfx w = (Inr p, ws, w') \<and> has spec ''+cuda''"
  then have r: "vtkh_create_host_config self spec pfx w = (Inr p, ws, w')"
    and c: "has spec ''+cuda''"
    by simp_all
  from r show "files w' p = Some (concat ws)"
    by (rule vtkh_file_written)
  from vtkh_shared_written [OF r] c
  show \<open>entries_named ''BUILD_SHARED_LIBS'' ws
          = [''set(BUILD_SHARED_LIBS "OFF" CACHE BOOL "")\<newline>\<newline>'']\<close>
    by simp
next
  assume a: "ascent_create_host_config self spec pfx py w = (Inr p2, ws2, w2)"
  then show "files w2 p2 = Some (concat ws2)"
    by (rule ascent_file_written)
  from a show \<open>entries_named ''BUILD_SHARED_LIBS'' ws2
          = [if has spec ''+shared''
             then ''set(BUILD_SHARED_LIBS "ON" CACHE PATH "")\<newline>\<newline>''
             else ''set(BUILD_SHARED_LIBS "OFF" CACHE PATH "")\<newline>\<newline>'']\<close>
    by (rule ascent_shared_written)
qed

text \<open>Both recipes on the example installation with \<^verbatim>\<open>+cuda\<close> and \<^verbatim>\<open>+shared\<close>.\<close>

theorem shared_libs_entry_witness:
  \<open>fst (vtkh_create_host_config (ex_pkg [''+cuda'', ''+shared''])
          (ex_spec [''+cuda'', ''+shared'']) ''/prefix'' ex_world)
     = Inr ''/tmp/stage/node1-linux-x86_64-gcc@8.3.0-vtkh.cmake''
   \<and> has (ex_spec [''+cuda'', ''+shared'']) ''+cuda''
   \<and> has (ex_spec [''+cuda'', ''+shared'']) ''+shared''
   \<and> entries_named ''BUILD_SHARED_LIBS''
        (fst (snd (vtkh_create_host_config (ex_pkg [''+cuda'', ''+shared''])
                     (ex_spec [''+cuda'', ''+shared'']) ''/prefix'' ex_world)))
     = [''set(BUILD_SHARED_LIBS "OFF" CACHE BOOL "")\<newline>\<newline>'']
   \<and> fst (ascent_create_host_config (ex_pkg [''+cuda'', ''+shared''])
          (ex_spec [''+cuda'', ''+shared'']) ''/prefix'' None ex_world)
     = Inr ''/tmp/stage/node1-linux-x86_64-gcc@8.3.0-ascent.cmake''
   \<and> entries_named ''BUILD_SHARED_LIBS''
        (fst (snd (ascent_create_host_config (ex_pkg [''+cuda'', ''+shared''])
                     (ex_spec [''+cuda'', ''+shared'']) ''/prefix'' None ex_world)))
     = [''set(BUILD_SHARED_LIBS "ON" CACHE PATH "")\<newline>\<newline>'']\<close>
proof -
  let ?fl = "[''+cuda'', ''+shared'']"
  let ?v = "vtkh_create_host_config (ex_pkg ?fl) (ex_spec ?fl) ''/prefix'' ex_world"
  let ?a = "ascent_create_host_config (ex_pkg ?fl) (ex_spec ?fl) ''/prefix'' None ex_world"
  have v: "fst ?v = Inr ''/tmp/stage/node1-linux-x86_64-gcc@8.3.0-vtkh.cmake''"
    by code_simp
  have a: "fst ?a = Inr ''/tmp/stage/node1-linux-x86_64-gcc@8.3.0-ascent.cmake''"
    by code_simp
  have v': "?v = (Inr ''/tmp/stage/node1-linux-x86_64-gcc@8.3.0-vtkh.cmake'',
                  fst (snd ?v), snd (snd ?v))"
    using v by (simp add: prod_eq_iff)
  have a': "?a = (Inr ''/tmp/stage/node1-linux-x86_64-gcc@8.3.0-ascent.cmake'',
                  fst (snd ?a), snd (snd ?a))"
    using a by (simp add: prod_eq_iff)
  have c: "has (ex_spec ?fl) ''+cuda''" "has (ex_spec ?fl) ''+shared''"
    by (simp_all add: ex_spec_def)
  note t = shared_libs_entry [of "ex_pkg ?fl" "ex_spec ?fl" "''/prefix''" ex_world
      "''/tmp/stage/node1-linux-x86_64-gcc@8.3.0-vtkh.cmake''" "fst (snd ?v)" "snd (snd ?v)" None
      "''/tmp/stage/node1-linux-x86_64-gcc@8.3.0-ascent.cmake''" "fst (snd ?a)" "snd (snd ?a)"]
  from t v' c(1)
  have ev: \<open>entries_named ''BUILD_SHARED_LIBS'' (fst (snd ?v))
              = [''set(BUILD_SHARED_LIBS "OFF" CACHE BOOL "")\<newline>\<newline>'']\<close>
    by blast
  from t a'
  have \<open>entries_named ''BUILD_SHARED_LIBS'' (fst (snd ?a))
          = [if has (ex_spec ?fl) ''+shared''
             then ''set(BUILD_SHARED_LIBS "ON" CACHE PATH "")\<newline>\<newline>''
             else ''set(BUILD_SHARED_LIBS "OFF" CACHE PATH "")\<newline>\<newline>'']\<close>
    by blast
  with c(2) have ea: \<open>entries_named ''BUILD_SHARED_LIBS'' (fst (snd ?a))
          = [''set(BUILD_SHARED_LIBS "ON" CACHE PATH "")\<newline>\<newline>'']\<close>
    by (simp only: if_True)
  from v c ev a ea show ?thesis
    by (intro conjI)
qed

section \<open>One entry for each flag\<close>

lemma vtkh_logging_blocks:
  "entries_named ''ENABLE_LOGGING'' (fst (vtkh_header spec st ce)) = []"
  "entries_named ''ENABLE_LOGGING'' (fst (vtkh_compilers spec cc cxx)) = []"
  "entries_named ''ENABLE_LOGGING'' (fst (vtkh_shared spec)) = []"
  "entries_named ''ENABLE_LOGGING'' (fst (vtkh_flags spec)) = []"
  "entries_named ''ENABLE_LOGGING'' (fst (vtkh_core_deps spec)) = []"
  "entries_named ''ENABLE_LOGGING'' (fst (vtkh_mpi self spec w cxx)) = []"
  "entries_named ''ENABLE_LOGGING'' (fst (vtkh_cuda spec cxx)) = []"
  "entries_named ''ENABLE_LOGGING'' (fst footer) = []"
  by (simp_all add: vtkh_block_defs block_simps split: option.splits)

lemma vtkh_logging_entries:
  \<open>entries_named ''ENABLE_LOGGING'' (fst (vtkh_options spec)) =
     [if has spec ''+logging'' then ''set(ENABLE_LOGGING "ON" CACHE BOOL "")\<newline>\<newline>''
      else ''set(ENABLE_LOGGING "OFF" CACHE BOOL "")\<newline>\<newline>'']\<close>
  \<open>entries_named ''ENABLE_LOGGING'' (fst (vtkh_serial_logging spec)) =
     [if has spec ''+logging'' then ''set(ENABLE_LOGGING "ON" CACHE BOOL "")\<newline>\<newline>''
      else ''set(ENABLE_LOGGING "OFF" CACHE BOOL "")\<newline>\<newline>'']\<close>
  by (simp_all add: vtkh_options_def vtkh_serial_logging_def block_simps)
     (simp_all add: vtkh_cmake_cache_entry_def)

lemma vtkh_logging_twice:
  assumes "vtkh_create_host_config self spec pfx w = (Inr p, ws, w')"
  shows \<open>entries_named ''ENABLE_LOGGING'' ws =
        [if has spec ''+logging'' then ''set(ENABLE_LOGGING "ON" CACHE BOOL "")\<newline>\<newline>''
         else ''set(ENABLE_LOGGING "OFF" CACHE BOOL "")\<newline>\<newline>'',
         if has spec ''+logging'' then ''set(ENABLE_LOGGING "ON" CACHE BOOL "")\<newline>\<newline>''
         else ''set(ENABLE_LOGGING "OFF" CACHE BOOL "")\<newline>\<newline>'']\<close>
proof -
  from vtkh_returns [OF assms] obtain cc cxx and cm :: dep and w1 where
    ok: "snd (vtkh_cfg self spec w1 cc cxx (get_sys_type spec w) (command_path cm)) = None"
    and ws: "ws = fst (vtkh_cfg self spec w1 cc cxx (get_sys_type spec w) (command_path cm))"
    by blast
  show \<open>entries_named ''ENABLE_LOGGING'' ws =
        [if has spec ''+logging'' then ''set(ENABLE_LOGGING "ON" CACHE BOOL "")\<newline>\<newline>''
         else ''set(ENABLE_LOGGING "OFF" CACHE BOOL "")\<newline>\<newline>'',
         if has spec ''+logging'' then ''set(ENABLE_LOGGING "ON" CACHE BOOL "")\<newline>\<newline>''
         else ''set(ENABLE_LOGGING "OFF" CACHE BOOL "")\<newline>\<newline>'']\<close>
    unfolding ws vtkh_cfg_ok [OF ok]
    by (simp only: entries_named_append vtkh_logging_blocks vtkh_logging_entries
        append_Nil append_Nil2 append_Cons)
qed

lemma entry_names_Nil [simp]: "entry_names [] = []"
  by (simp add: entry_names_def List.map_filter_simps)

lemma entry_names_Cons:
  "entry_names (x # xs) =
     (case entry_name x of None \<Rightarrow> entry_names xs | Some n \<Rightarrow> n # entry_names xs)"
  by (simp add: entry_names_def List.map_filter_simps split: option.splits)

lemma entry_names_append [simp]: "entry_names (xs @ ys) = entry_names xs @ entry_names ys"
  by (simp add: entry_names_def List.map_filter_def)

lemma names_append:
  assumes "distinct xs \<and> set xs \<subseteq> set A" and "distinct ys \<and> set ys \<subseteq> set B"
    and "set A \<inter> set B = {}"
  shows "distinct (xs @ ys) \<and> set (xs @ ys) \<subseteq> set (A @ B)"
  using assms by auto

lemmas name_simps =
  get_dep_def raise_def Let_def entry_names_Cons entry_name_vtkh entry_name_ascent

lemma ascent_block_names:
  "distinct (entry_names (fst (ascent_header spec st ce)))
   \<and> set (entry_names (fst (ascent_header spec st ce))) \<subseteq> set []"
  "distinct (entry_names (fst (ascent_compilers spec cc cxx)))
   \<and> set (entry_names (fst (ascent_compilers spec cc cxx)))
       \<subseteq> set [''CMAKE_C_COMPILER'', ''CMAKE_CXX_COMPILER'']"
  "distinct (entry_names (fst (ascent_fortran fc)))
   \<and> set (entry_names (fst (ascent_fortran fc)))
       \<subseteq> set [''ENABLE_FORTRAN'', ''CMAKE_Fortran_COMPILER'']"
  "distinct (entry_names (fst (ascent_shared spec)))
   \<and> set (entry_names (fst (ascent_shared spec))) \<subseteq> set [''BUILD_SHARED_LIBS'']"
  "distinct (entry_names (fst (ascent_conduit spec)))
   \<and> set (entry_names (fst (ascent_conduit spec))) \<subseteq> set [''CONDUIT_DIR'']"
  "distinct (entry_names (fst (ascent_python spec py)))
   \<and> set (entry_names (fst (ascent_python spec py)))
       \<subseteq> set [''ENABLE_PYTHON'', ''PYTHON_EXECUTABLE'', ''PYTHON_MODULE_INSTALL_PREFIX'',
               ''ENABLE_DOCS'', ''SPHINX_EXECUTABLE'']"
  "distinct (entry_names (fst (ascent_mpi self spec w)))
   \<and> set (entry_names (fst (ascent_mpi self spec w)))
       \<subseteq> set [''ENABLE_MPI'', ''MPI_C_COMPILER'', ''MPI_CXX_COMPILER'',
               ''MPI_Fortran_COMPILER'', ''MPIEXEC_EXECUTABLE'', ''MPIEXEC'']"
  "distinct (entry_names (fst (ascent_cuda_openmp spec)))
   \<and> set (entry_names (fst (ascent_cuda_openmp spec)))
       \<subseteq> set [''ENABLE_CUDA'', ''ENABLE_OPENMP'']"
  "distinct (entry_names (fst (ascent_tpls spec)))
   \<and> set (entry_names (fst (ascent_tpls spec)))
       \<subseteq> set [''VTKM_DIR'', ''VTKH_DIR'', ''MFEM_DIR'', ''ADIOS_DIR'']"
  "distinct (entry_names (fst footer)) \<and> set (entry_names (fst footer)) \<subseteq> set []"
  by (simp_all add: ascent_block_defs name_simps split: option.splits)

lemma ascent_names_distinct:
  assumes "ascent_create_host_config self spec pfx py w = (Inr p, ws, w')"
  shows "distinct (entry_names ws)"
proof -
  from ascent_returns [OF assms] obtain cc cxx fc ce w1 where
    ok: "snd (ascent_cfg self spec py w1 cc cxx fc (get_sys_type spec w) ce) = None"
    and ws: "ws = fst (ascent_cfg self spec py w1 cc cxx fc (get_sys_type spec w) ce)"
    by blast
  let ?P = "\<lambda>xs M. distinct xs \<and> set xs \<subseteq> set M"
  let ?n1 = "entry_names (fst (ascent_header spec (get_sys_type spec w) ce))"
  let ?n2 = "entry_names (fst (ascent_compilers spec cc cxx))"
  let ?n3 = "entry_names (fst (ascent_fortran fc))"
  let ?n4 = "entry_names (fst (ascent_shared spec))"
  let ?n5 = "entry_names (fst (ascent_conduit spec))"
  let ?n6 = "entry_names (fst (ascent_python spec py))"
  let ?n7 = "entry_names (fst (ascent_mpi self spec w1))"
  let ?n8 = "entry_names (fst (ascent_cuda_openmp spec))"
  let ?n9 = "entry_names (fst (ascent_tpls spec))"
  let ?n10 = "entry_names (fst footer)"
  let ?m2 = "[''CMAKE_C_COMPILER'', ''CMAKE_CXX_COMPILER'']"
  let ?m3 = "[''ENABLE_FORTRAN'', ''CMAKE_Fortran_COMPILER'']"
  let ?m4 = "[''BUILD_SHARED_LIBS'']"
  let ?m5 = "[''CONDUIT_DIR'']"
  let ?m6 = "[''ENABLE_PYTHON'', ''PYTHON_EXECUTABLE'', ''PYTHON_MODULE_INSTALL_PREFIX'',
              ''ENABLE_DOCS'', ''SPHINX_EXECUTABLE'']"
  let ?m7 = "[''ENABLE_MPI'', ''MPI_C_COMPILER'', ''MPI_CXX_COMPILER'',
              ''MPI_Fortran_COMPILER'', ''MPIEXEC_EXECUTABLE'', ''MPIEXEC'']"
  let ?m8 = "[''ENABLE_CUDA'', ''ENABLE_OPENMP'']"
  let ?m9 = "[''VTKM_DIR'', ''VTKH_DIR'', ''MFEM_DIR'', ''ADIOS_DIR'']"
  note b = ascent_block_names
  have s9: "?P (?n9 @ ?n10) (?m9 @ [])"
    by (rule names_append [OF b(9) b(10)]) simp
  have s8: "?P (?n8 @ ?n9 @ ?n10) (?m8 @ ?m9 @ [])"
    by (rule names_append [OF b(8) s9]) simp
  have s7: "?P (?n7 @ ?n8 @ ?n9 @ ?n10) (?m7 @ ?m8 @ ?m9 @ [])"
    by (rule names_append [OF b(7) s8]) simp
  have s6: "?P (?n6 @ ?n7 @ ?n8 @ ?n9 @ ?n10) (?m6 @ ?m7 @ ?m8 @ ?m9 @ [])"
    by (rule names_append [OF b(6) s7]) simp
  have s5: "?P (?n5 @ ?n6 @ ?n7 @ ?n8 @ ?n9 @ ?n10) (?m5 @ ?m6 @ ?m7 @ ?m8 @ ?m9 @ [])"
    by (rule names_append [OF b(5) s6]) simp
  have s4: "?P (?n4 @ ?n5 @ ?n6 @ ?n7 @ ?n8 @ ?n9 @ ?n10)
              (?m4 @ ?m5 @ ?m6 @ ?m7 @ ?m8 @ ?m9 @ [])"
    by (rule names_append [OF b(4) s5]) simp
  have s3: "?P (?n3 @ ?n4 @ ?n5 @ ?n6 @ ?n7 @ ?n8 @ ?n9 @ ?n10)
              (?m3 @ ?m4 @ ?m5 @ ?m6 @ ?m7 @ ?m8 @ ?m9 @ [])"
    by (rule names_append [OF b(3) s4]) simp
  have s2: "?P (?n2 @ ?n3 @ ?n4 @ ?n5 @ ?n6 @ ?n7 @ ?n8 @ ?n9 @ ?n10)
              (?m2 @ ?m3 @ ?m4 @ ?m5 @ ?m6 @ ?m7 @ ?m8 @ ?m9 @ [])"
    by (rule names_append [OF b(2) s3]) simp
  have s1: "?P (?n1 @ ?n2 @ ?n3 @ ?n4 @ ?n5 @ ?n6 @ ?n7 @ ?n8 @ ?n9 @ ?n10)
              ([] @ ?m2 @ ?m3 @ ?m4 @ ?m5 @ ?m6 @ ?m7 @ ?m8 @ ?m9 @ [])"
    by (rule names_append [OF b(1) s2]) simp
  then show ?thesis
    unfolding ws ascent_cfg_ok [OF ok] entry_names_append by blast
qed


lemma vtkh_block_names:
  "distinct (filter (\<lambda>n. n \<noteq> ''ENABLE_LOGGING'') (entry_names (fst (vtkh_header spec st ce))))
   \<and> set (filter (\<lambda>n. n \<noteq> ''ENABLE_LOGGING'') (entry_names (fst (vtkh_header spec st ce))))
       \<subseteq> set []"
  "distinct (filter (\<lambda>n. n \<noteq> ''ENABLE_LOGGING'') (entry_names (fst (vtkh_compilers spec cc cxx))))
   \<and> set (filter (\<lambda>n. n \<noteq> ''ENABLE_LOGGING'') (entry_names (fst (vtkh_compilers spec cc cxx))))
       \<subseteq> set [''CMAKE_C_COMPILER'', ''CMAKE_CXX_COMPILER'']"
  "distinct (filter (\<lambda>n. n \<noteq> ''ENABLE_LOGGING'') (entry_names (fst (vtkh_shared spec))))
   \<and> set (filter (\<lambda>n. n \<noteq> ''ENABLE_LOGGING'') (entry_names (fst (vtkh_shared spec))))
       \<subseteq> set [''BUILD_SHARED_LIBS'']"
  "distinct (filter (\<lambda>n. n \<noteq> ''ENABLE_LOGGING'') (entry_names (fst (vtkh_flags spec))))
   \<and> set (filter (\<lambda>n. n \<noteq> ''ENABLE_LOGGING'') (entry_names (fst (vtkh_flags spec))))
       \<subseteq> set [''CMAKE_C_FLAGS'', ''CMAKE_CXX_FLAGS'', ''CMAKE_Fortran_FLAGS'']"
  "distinct (filter (\<lambda>n. n \<noteq> ''ENABLE_LOGGING'') (entry_names (fst (vtkh_options spec))))
   \<and> set (filter (\<lambda>n. n \<noteq> ''ENABLE_LOGGING'') (entry_names (fst (vtkh_options spec))))
       \<subseteq> set [''ENABLE_TESTS'', ''BUILD_TESTING'', ''ENABLE_FILTER_CONTOUR_TREE'']"
  "distinct (filter (\<lambda>n. n \<noteq> ''ENABLE_LOGGING'') (entry_names (fst (vtkh_core_deps spec))))
   \<and> set (filter (\<lambda>n. n \<noteq> ''ENABLE_LOGGING'') (entry_names (fst (vtkh_core_deps spec))))
       \<subseteq> set [''ENABLE_OPENMP'', ''VTKM_DIR'']"
  "distinct (filter (\<lambda>n. n \<noteq> ''ENABLE_LOGGING'') (entry_names (fst (vtkh_serial_logging spec))))
   \<and> set (filter (\<lambda>n. n \<noteq> ''ENABLE_LOGGING'') (entry_names (fst (vtkh_serial_logging spec))))
       \<subseteq> set [''ENABLE_SERIAL'']"
  "distinct (filter (\<lambda>n. n \<noteq> ''ENABLE_LOGGING'') (entry_names (fst (vtkh_mpi self spec w cxx))))
   \<and> set (filter (\<lambda>n. n \<noteq> ''ENABLE_LOGGING'') (entry_names (fst (vtkh_mpi self spec w cxx))))
       \<subseteq> set [''ENABLE_MPI'', ''MPI_C_COMPILER'', ''MPI_CXX_COMPILER'',
               ''MPI_Fortran_COMPILER'', ''MPIEXEC_EXECUTABLE'', ''MPIEXEC'']"
  "distinct (filter (\<lambda>n. n \<noteq> ''ENABLE_LOGGING'') (entry_names (fst (vtkh_cuda spec cxx))))
   \<and> set (filter (\<lambda>n. n \<noteq> ''ENABLE_LOGGING'') (entry_names (fst (vtkh_cuda spec cxx))))
       \<subseteq> set [''ENABLE_CUDA'', ''VTKm_ENABLE_CUDA:BOOL'', ''CMAKE_CUDA_HOST_COMPILER'']"
  "distinct (filter (\<lambda>n. n \<noteq> ''ENABLE_LOGGING'') (entry_names (fst footer)))
   \<and> set (filter (\<lambda>n. n \<noteq> ''ENABLE_LOGGING'') (entry_names (fst footer))) \<subseteq> set []"
  by (simp_all add: vtkh_block_defs name_simps split: option.splits) blast+

lemma vtkh_names_distinct:
  assumes "vtkh_create_host_config self spec pfx w = (Inr p, ws, w')"
  shows "distinct (filter (\<lambda>n. n \<noteq> ''ENABLE_LOGGING'') (entry_names ws))"
proof -
  from vtkh_returns [OF assms] obtain cc cxx and cm :: dep and w1 where
    ok: "snd (vtkh_cfg self spec w1 cc cxx (get_sys_type spec w) (command_path cm)) = None"
    and ws: "ws = fst (vtkh_cfg self spec w1 cc cxx (get_sys_type spec w) (command_path cm))"
    by blast
  let ?P = "\<lambda>xs M. distinct xs \<and> set xs \<subseteq> set M"
  let ?f = "\<lambda>b. filter (\<lambda>n. n \<noteq> ''ENABLE_LOGGING'') (entry_names (fst b))"
  let ?n1 = "?f (vtkh_header spec (get_sys_type spec w) (command_path cm))"
  let ?n2 = "?f (vtkh_compilers spec cc cxx)"
  let ?n3 = "?f (vtkh_shared spec)"
  let ?n4 = "?f (vtkh_flags spec)"
  let ?n5 = "?f (vtkh_options spec)"
  let ?n6 = "?f (vtkh_core_deps spec)"
  let ?n7 = "?f (vtkh_serial_logging spec)"
  let ?n8 = "?f (vtkh_mpi self spec w1 cxx)"
  let ?n9 = "?f (vtkh_cuda spec cxx)"
  let ?n10 = "?f footer"
  let ?m2 = "[''CMAKE_C_COMPILER'', ''CMAKE_CXX_COMPILER'']"
  let ?m3 = "[''BUILD_SHARED_LIBS'']"
  let ?m4 = "[''CMAKE_C_FLAGS'', ''CMAKE_CXX_FLAGS'', ''CMAKE_Fortran_FLAGS'']"
  let ?m5 = "[''ENABLE_TESTS'', ''BUILD_TESTING'', ''ENABLE_FILTER_CONTOUR_TREE'']"
  let ?m6 = "[''ENABLE_OPENMP'', ''VTKM_DIR'']"
  let ?m7 = "[''ENABLE_SERIAL'']"
  let ?m8 = "[''ENABLE_MPI'', ''MPI_C_COMPILER'', ''MPI_CXX_COMPILER'',
              ''MPI_Fortran_COMPILER'', ''MPIEXEC_EXECUTABLE'', ''MPIEXEC'']"
  let ?m9 = "[''ENABLE_CUDA'', ''VTKm_ENABLE_CUDA:BOOL'', ''CMAKE_CUDA_HOST_COMPILER'']"
  note b = vtkh_block_names
  have s9: "?P (?n9 @ ?n10) (?m9 @ [])"
    by (rule names_append [OF b(9) b(10)]) simp
  have s8: "?P (?n8 @ ?n9 @ ?n10) (?m8 @ ?m9 @ [])"
    by (rule names_append [OF b(8) s9]) simp
  have s7: "?P (?n7 @ ?n8 @ ?n9 @ ?n10) (?m7 @ ?m8 @ ?m9 @ [])"
    by (rule names_append [OF b(7) s8]) simp
  have s6: "?P (?n6 @ ?n7 @ ?n8 @ ?n9 @ ?n10) (?m6 @ ?m7 @ ?m8 @ ?m9 @ [])"
    by (rule names_append [OF b(6) s7]) simp
  have s5: "?P (?n5 @ ?n6 @ ?n7 @ ?n8 @ ?n9 @ ?n10) (?m5 @ ?m6 @ ?m7 @ ?m8 @ ?m9 @ [])"
    by (rule names_append [OF b(5) s6]) simp
  have s4: "?P (?n4 @ ?n5 @ ?n6 @ ?n7 @ ?n8 @ ?n9 @ ?n10)
              (?m4 @ ?m5 @ ?m6 @ ?m7 @ ?m8 @ ?m9 @ [])"
    by (rule names_append [OF b(4) s5]) simp
  have s3: "?P (?n3 @ ?n4 @ ?n5 @ ?n6 @ ?n7 @ ?n8 @ ?n9 @ ?n10)
              (?m3 @ ?m4 @ ?m5 @ ?m6 @ ?m7 @ ?m8 @ ?m9 @ [])"
    by (rule names_append [OF b(3) s4]) simp
  have s2: "?P (?n2 @ ?n3 @ ?n4 @ ?n5 @ ?n6 @ ?n7 @ ?n8 @ ?n9 @ ?n10)
              (?m2 @ ?m3 @ ?m4 @ ?m5 @ ?m6 @ ?m7 @ ?m8 @ ?m9 @ [])"
    by (rule names_append [OF b(2) s3]) simp
  have s1: "?P (?n1 @ ?n2 @ ?n3 @ ?n4 @ ?n5 @ ?n6 @ ?n7 @ ?n8 @ ?n9 @ ?n10)
              ([] @ ?m2 @ ?m3 @ ?m4 @ ?m5 @ ?m6 @ ?m7 @ ?m8 @ ?m9 @ [])"
    by (rule names_append [OF b(1) s2]) simp
  then show ?thesis
    unfolding ws vtkh_cfg_ok [OF ok] entry_names_append filter_append by blast
qed

text \<open>The variables that every returning call sets.\<close>

lemma vtkh_names_present:
  assumes "vtkh_create_host_config self spec pfx w = (Inr p, ws, w')"
  shows "set [''CMAKE_C_COMPILER'', ''CMAKE_CXX_COMPILER'', ''BUILD_SHARED_LIBS'',
              ''ENABLE_TESTS'', ''BUILD_TESTING'', ''ENABLE_LOGGING'',
              ''ENABLE_FILTER_CONTOUR_TREE'', ''ENABLE_OPENMP'', ''VTKM_DIR'',
              ''ENABLE_SERIAL'', ''ENABLE_MPI'', ''ENABLE_CUDA'', ''VTKm_ENABLE_CUDA:BOOL'']
           \<subseteq> set (entry_names ws)"
proof -
  from vtkh_returns [OF assms] obtain cc cxx and cm :: dep and w1 where
    ok: "snd (vtkh_cfg self spec w1 cc cxx (get_sys_type spec w) (command_path cm)) = None"
    and ws: "ws = fst (vtkh_cfg self spec w1 cc cxx (get_sys_type spec w) (command_path cm))"
    by blast
  from ok have d: "snd (vtkh_core_deps spec) = None" "snd (vtkh_mpi self spec w1 cxx) = None"
    by (simp_all add: vtkh_cfg_def split: option.splits)
  have "set [''CMAKE_C_COMPILER'', ''CMAKE_CXX_COMPILER'']
          \<subseteq> set (entry_names (fst (vtkh_compilers spec cc cxx)))"
    "set [''BUILD_SHARED_LIBS''] \<subseteq> set (entry_names (fst (vtkh_shared spec)))"
    "set [''ENABLE_TESTS'', ''BUILD_TESTING'', ''ENABLE_LOGGING'', ''ENABLE_FILTER_CONTOUR_TREE'']
          \<subseteq> set (entry_names (fst (vtkh_options spec)))"
    "set [''ENABLE_SERIAL''] \<subseteq> set (entry_names (fst (vtkh_serial_logging spec)))"
    "set [''ENABLE_CUDA'', ''VTKm_ENABLE_CUDA:BOOL''] \<subseteq> set (entry_names (fst (vtkh_cuda spec cxx)))"
    by (simp_all add: vtkh_block_defs name_simps)
  moreover from d(1) have "set [''ENABLE_OPENMP'', ''VTKM_DIR'']
          \<subseteq> set (entry_names (fst (vtkh_core_deps spec)))"
    by (simp add: vtkh_core_deps_def name_simps split: option.splits if_splits)
  moreover from d(2) have "set [''ENABLE_MPI'']
          \<subseteq> set (entry_names (fst (vtkh_mpi self spec w1 cxx)))"
    by (simp add: vtkh_mpi_def name_simps split: option.splits if_splits)
  ultimately show ?thesis
    unfolding ws vtkh_cfg_ok [OF ok] entry_names_append set_append by auto
qed

lemma ascent_names_present:
  assumes "ascent_create_host_config self spec pfx py w = (Inr p, ws, w')"
  shows "set [''CMAKE_C_COMPILER'', ''CMAKE_CXX_COMPILER'', ''ENABLE_FORTRAN'',
              ''BUILD_SHARED_LIBS'', ''CONDUIT_DIR'', ''ENABLE_PYTHON'', ''ENABLE_DOCS'',
              ''ENABLE_MPI'', ''ENABLE_CUDA'', ''ENABLE_OPENMP'']
           \<subseteq> set (entry_names ws)"
proof -
  from ascent_returns [OF assms] obtain cc cxx fc ce w1 where
    ok: "snd (ascent_cfg self spec py w1 cc cxx fc (get_sys_type spec w) ce) = None"
    and ws: "ws = fst (ascent_cfg self spec py w1 cc cxx fc (get_sys_type spec w) ce)"
    by blast
  from ok have d: "snd (ascent_conduit spec) = None" "snd (ascent_python spec py) = None"
    "snd (ascent_mpi self spec w1) = None"
    by (simp_all add: ascent_cfg_def split: option.splits)
  have "set [''CMAKE_C_COMPILER'', ''CMAKE_CXX_COMPILER'']
          \<subseteq> set (entry_names (fst (ascent_compilers spec cc cxx)))"
    "set [''ENABLE_FORTRAN''] \<subseteq> set (entry_names (fst (ascent_fortran fc)))"
    "set [''BUILD_SHARED_LIBS''] \<subseteq> set (entry_names (fst (ascent_shared spec)))"
    "set [''ENABLE_CUDA'', ''ENABLE_OPENMP''] \<subseteq> set (entry_names (fst (ascent_cuda_openmp spec)))"
    by (simp_all add: ascent_block_defs name_simps split: option.splits)
  moreover from d(1) have "set [''CONDUIT_DIR'']
          \<subseteq> set (entry_names (fst (ascent_conduit spec)))"
    by (simp add: ascent_conduit_def name_simps split: option.splits if_splits)
  moreover from d(2) have "set [''ENABLE_PYTHON'', ''ENABLE_DOCS'']
          \<subseteq> set (entry_names (fst (ascent_python spec py)))"
    by (simp add: ascent_python_def name_simps split: option.splits if_splits)
  moreover from d(3) have "set [''ENABLE_MPI'']
          \<subseteq> set (entry_names (fst (ascent_mpi self spec w1)))"
    by (simp add: ascent_mpi_def name_simps split: option.splits if_splits)
  ultimately show ?thesis
    unfolding ws ascent_cfg_ok [OF ok] entry_names_append set_append by auto
qed


text \<open>
  Claim C1 says that the emitter writes exactly one entry for each applicable flag and
  writes no cache variable more than once. The vtk-h recipe writes \<^verbatim>\<open>ENABLE_LOGGING\<close>
  twice, with the same value: once among the options (lines 201-205) and once more after
  the serial flag (lines 247-250). Apart from that the claim holds of every call that
  returns: the vtk-h recipe writes every other variable at most once, the ascent recipe
  writes every variable at most once, and the variables of the flags that are always
  applicable are all written.
\<close>

theorem cache_variables_written:
  \<open>(vtkh_create_host_config self spec pfx w = (Inr p, ws, w') \<longrightarrow>
      files w' p = Some (concat ws)
      \<and> entries_named ''ENABLE_LOGGING'' ws =
          [if has spec ''+logging'' then ''set(ENABLE_LOGGING "ON" CACHE BOOL "")\<newline>\<newline>''
           else ''set(ENABLE_LOGGING "OFF" CACHE BOOL "")\<newline>\<newline>'',
           if has spec ''+logging'' then ''set(ENABLE_LOGGING "ON" CACHE BOOL "")\<newline>\<newline>''
           else ''set(ENABLE_LOGGING "OFF" CACHE BOOL "")\<newline>\<newline>'']
      \<and> distinct (filter (\<lambda>n. n \<noteq> ''ENABLE_LOGGING'') (entry_names ws))
      \<and> set [''CMAKE_C_COMPILER'', ''CMAKE_CXX_COMPILER'', ''BUILD_SHARED_LIBS'',
              ''ENABLE_TESTS'', ''BUILD_TESTING'', ''ENABLE_LOGGING'',
              ''ENABLE_FILTER_CONTOUR_TREE'', ''ENABLE_OPENMP'', ''VTKM_DIR'',
              ''ENABLE_SERIAL'', ''ENABLE_MPI'', ''ENABLE_CUDA'', ''VTKm_ENABLE_CUDA:BOOL'']
           \<subseteq> set (entry_names ws))
   \<and> (ascent_create_host_config self spec pfx py w = (Inr p2, ws2, w2) \<longrightarrow>
      files w2 p2 = Some (concat ws2)
      \<and> distinct (entry_names ws2)
      \<and> set [''CMAKE_C_COMPILER'', ''CMAKE_CXX_COMPILER'', ''ENABLE_FORTRAN'',
              ''BUILD_SHARED_LIBS'', ''CONDUIT_DIR'', ''ENABLE_PYTHON'', ''ENABLE_DOCS'',
              ''ENABLE_MPI'', ''ENABLE_CUDA'', ''ENABLE_OPENMP'']
           \<subseteq> set (entry_names ws2))\<close>
proof (intro conjI impI)
  assume r: "vtkh_create_host_config self spec pfx w = (Inr p, ws, w')"
  from r show "files w' p = Some (concat ws)"
    by (rule vtkh_file_written)
  from r show \<open>entries_named ''ENABLE_LOGGING'' ws =
          [if has spec ''+logging'' then ''set(ENABLE_LOGGING "ON" CACHE BOOL "")\<newline>\<newline>''
           else ''set(ENABLE_LOGGING "OFF" CACHE BOOL "")\<newline>\<newline>'',
           if has spec ''+logging'' then ''set(ENABLE_LOGGING "ON" CACHE BOOL "")\<newline>\<newline>''
           else ''set(ENABLE_LOGGING "OFF" CACHE BOOL "")\<newline>\<newline>'']\<close>
    by (rule vtkh_logging_twice)
  from r show "distinct (filter (\<lambda>n. n \<noteq> ''ENABLE_LOGGING'') (entry_names ws))"
    by (rule vtkh_names_distinct)
  from r show "set [''CMAKE_C_COMPILER'', ''CMAKE_CXX_COMPILER'', ''BUILD_SHARED_LIBS'',
              ''ENABLE_TESTS'', ''BUILD_TESTING'', ''ENABLE_LOGGING'',
              ''ENABLE_FILTER_CONTOUR_TREE'', ''ENABLE_OPENMP'', ''VTKM_DIR'',
              ''ENABLE_SERIAL'', ''ENABLE_MPI'', ''ENABLE_CUDA'', ''VTKm_ENABLE_CUDA:BOOL'']
           \<subseteq> set (entry_names ws)"
    by (rule vtkh_names_present)
next
  assume r: "ascent_create_host_config self spec pfx py w = (Inr p2, ws2, w2)"
  from r show "files w2 p2 = Some (concat ws2)"
    by (rule ascent_file_written)
  from r show "distinct (entry_names ws2)"
    by (rule ascent_names_distinct)
  from r show "set [''CMAKE_C_COMPILER'', ''CMAKE_CXX_COMPILER'', ''ENABLE_FORTRAN'',
              ''BUILD_SHARED_LIBS'', ''CONDUIT_DIR'', ''ENABLE_PYTHON'', ''ENABLE_DOCS'',
              ''ENABLE_MPI'', ''ENABLE_CUDA'', ''ENABLE_OPENMP'']
           \<subseteq> set (entry_names ws2)"
    by (rule ascent_names_present)
qed

text \<open>
  The vtk-h recipe on the example installation with the default flags of the recipe,
  and the ascent recipe there.
\<close>

theorem cache_variables_written_witness:
  \<open>fst (vtkh_create_host_config (ex_pkg [''+shared'', ''+test'', ''+mpi'', ''+serial'', ''+openmp''])
          (ex_spec [''+shared'', ''+test'', ''+mpi'', ''+serial'', ''+openmp'']) ''/prefix'' ex_world)
     = Inr ''/tmp/stage/node1-linux-x86_64-gcc@8.3.0-vtkh.cmake''
   \<and> entries_named ''ENABLE_LOGGING''
        (fst (snd (vtkh_create_host_config
                     (ex_pkg [''+shared'', ''+test'', ''+mpi'', ''+serial'', ''+openmp''])
                     (ex_spec [''+shared'', ''+test'', ''+mpi'', ''+serial'', ''+openmp''])
                     ''/prefix'' ex_world)))
     = [''set(ENABLE_LOGGING "OFF" CACHE BOOL "")\<newline>\<newline>'',
        ''set(ENABLE_LOGGING "OFF" CACHE BOOL "")\<newline>\<newline>'']
   \<and> fst (ascent_create_host_config (ex_pkg [''+shared'', ''+mpi'', ''+vtkh'', ''+openmp''])
          (ex_spec [''+shared'', ''+mpi'', ''+vtkh'', ''+openmp'']) ''/prefix'' None ex_world)
     = Inr ''/tmp/stage/node1-linux-x86_64-gcc@8.3.0-ascent.cmake''
   \<and> distinct (entry_names
        (fst (snd (ascent_create_host_config (ex_pkg [''+shared'', ''+mpi'', ''+vtkh'', ''+openmp''])
                     (ex_spec [''+shared'', ''+mpi'', ''+vtkh'', ''+openmp'']) ''/prefix'' None
                     ex_world))))\<close>
proof -
  let ?fl = "[''+shared'', ''+test'', ''+mpi'', ''+serial'', ''+openmp'']"
  let ?fa = "[''+shared'', ''+mpi'', ''+vtkh'', ''+openmp'']"
  let ?v = "vtkh_create_host_config (ex_pkg ?fl) (ex_spec ?fl) ''/prefix'' ex_world"
  let ?a = "ascent_create_host_config (ex_pkg ?fa) (ex_spec ?fa) ''/prefix'' None ex_world"
  let ?pv = "''/tmp/stage/node1-linux-x86_64-gcc@8.3.0-vtkh.cmake''"
  let ?pa = "''/tmp/stage/node1-linux-x86_64-gcc@8.3.0-ascent.cmake''"
  have v: "fst ?v = Inr ?pv"
    by code_simp
  have a: "fst ?a = Inr ?pa"
    by code_simp
  have v': "?v = (Inr ?pv, fst (snd ?v), snd (snd ?v))"
    using v by (simp add: prod_eq_iff)
  have a': "?a = (Inr ?pa, fst (snd ?a), snd (snd ?a))"
    using a by (simp add: prod_eq_iff)
  have l: "\<not> has (ex_spec ?fl) ''+logging''"
    by (simp add: ex_spec_def)
  note t = cache_variables_written
  from t [of "ex_pkg ?fl" "ex_spec ?fl" "''/prefix''" ex_world ?pv "fst (snd ?v)" "snd (snd ?v)"] v'
  have \<open>entries_named ''ENABLE_LOGGING'' (fst (snd ?v)) =
          [if has (ex_spec ?fl) ''+logging''
           then ''set(ENABLE_LOGGING "ON" CACHE BOOL "")\<newline>\<newline>''
           else ''set(ENABLE_LOGGING "OFF" CACHE BOOL "")\<newline>\<newline>'',
           if has (ex_spec ?fl) ''+logging''
           then ''set(ENABLE_LOGGING "ON" CACHE BOOL "")\<newline>\<newline>''
           else ''set(ENABLE_LOGGING "OFF" CACHE BOOL "")\<newline>\<newline>'']\<close>
    by blast
  with l have e: \<open>entries_named ''ENABLE_LOGGING'' (fst (snd ?v))
     = [''set(ENABLE_LOGGING "OFF" CACHE BOOL "")\<newline>\<newline>'',
        ''set(ENABLE_LOGGING "OFF" CACHE BOOL "")\<newline>\<newline>'']\<close>
    by (simp only: if_False)
  from t [of "ex_pkg ?fa" "ex_spec ?fa" "''/prefix''" ex_world _ _ _ None ?pa "fst (snd ?a)"
      "snd (snd ?a)"] a'
  have d: "distinct (entry_names (fst (snd ?a)))"
    by blast
  from v e a d show ?thesis
    by (intro conjI)
qed

section \<open>Facts about paths\<close>

lemma isabs_Cons [simp]: "isabs (c # cs) = (c = CHR ''/'')"
  by (auto simp: isabs_def)

lemma isabs_Nil [simp]: "\<not> isabs []"
  by (simp add: isabs_def)

lemma isabs_normpath: "isabs q \<Longrightarrow> isabs (normpath q)"
  by (cases q) (auto simp: normpath_def initial_slashes_def Let_def numeral_2_eq_2)

lemma isabs_path_join: "isabs a \<Longrightarrow> isabs (path_join a b)"
  by (cases a) (auto simp: path_join_def)

lemma isabs_abspath: "isabs (cwd w) \<Longrightarrow> isabs (abspath w q)"
  by (simp add: abspath_def isabs_normpath isabs_path_join)

section \<open>When the emitter returns\<close>

lemma snd_get_dep:
  "snd (get_dep sp n k) = (case deps sp n of None \<Rightarrow> Some (KeyError n) | Some d \<Rightarrow> snd (k d))"
  by (simp add: get_dep_def raise_def split: option.splits)

lemma vtkh_cfg_succeeds:
  assumes "deps spec ''vtk-m'' \<noteq> None"
    and "has spec ''+mpi'' \<longrightarrow> deps spec ''mpi'' \<noteq> None"
    and "deps (pkg_spec self) ''cmake'' \<noteq> None"
  shows "snd (vtkh_cfg self spec w cc cxx st ce) = None"
proof -
  have "snd (vtkh_core_deps spec) = None"
    using assms(1) by (simp add: vtkh_core_deps_def snd_get_dep split: option.splits; blast)
  moreover have "snd (vtkh_mpi self spec w cxx) = None"
    using assms(2,3) by (simp add: vtkh_mpi_def snd_get_dep Let_def split: option.splits; blast)
  ultimately show ?thesis
    by (simp add: vtkh_cfg_def)
qed

lemma vtkh_ready_returns:
  assumes "vtkh_ready self spec w"
  shows "\<exists>p ws w'. vtkh_create_host_config self spec pfx w = (Inr p, ws, w')"
proof -
  from assms obtain cc cxx and cm :: dep where
    e: "environ w ''SPACK_CC'' = Some cc" "environ w ''SPACK_CXX'' = Some cxx"
      "deps spec ''cmake'' = Some cm"
    and c: "creatable w (abspath w (vtkh_host_cfg_fname spec w))"
    and d: "deps spec ''vtk-m'' \<noteq> None" "has spec ''+mpi'' \<longrightarrow> deps spec ''mpi'' \<noteq> None"
      "deps (pkg_spec self) ''cmake'' \<noteq> None"
    by (auto simp: vtkh_ready_def)
  show ?thesis
    by (simp add: vtkh_create_host_config_def e c open_w_def Let_def vtkh_cfg_succeeds [OF d])
qed

lemma vtkh_text_nonempty:
  assumes "snd (vtkh_cfg self spec w cc cxx st ce) = None"
  shows "concat (fst (vtkh_cfg self spec w cc cxx st ce)) \<noteq> []"
  unfolding vtkh_cfg_ok [OF assms] by (simp add: vtkh_header_def)

lemma ascent_cfg_succeeds:
  assumes "deps spec ''conduit'' \<noteq> None"
    and "has spec ''+python'' \<longrightarrow> deps spec ''python'' \<noteq> None"
    and "has spec ''+doc'' \<and> has spec ''+python'' \<longrightarrow> deps spec ''py-sphinx'' \<noteq> None"
    and "has spec ''+mpi'' \<longrightarrow> deps spec ''mpi'' \<noteq> None \<and> deps (pkg_spec self) ''cmake'' \<noteq> None"
    and "has spec ''+vtkh'' \<longrightarrow> deps spec ''vtkm'' \<noteq> None \<and> deps spec ''vtkh'' \<noteq> None"
    and "has spec ''+mfem'' \<longrightarrow> deps spec ''mfem'' \<noteq> None"
    and "has spec ''+adios'' \<longrightarrow> deps spec ''adios'' \<noteq> None"
  shows "snd (ascent_cfg self spec py w cc cxx fc st ce) = None"
proof -
  have "snd (ascent_conduit spec) = None"
    using assms(1) by (simp add: ascent_conduit_def snd_get_dep split: option.splits; blast)
  moreover have "snd (ascent_python spec py) = None"
    using assms(2,3) by (simp add: ascent_python_def snd_get_dep split: option.splits; blast)
  moreover have "snd (ascent_mpi self spec w) = None"
    using assms(4) by (simp add: ascent_mpi_def snd_get_dep Let_def split: option.splits; blast)
  moreover have "snd (ascent_tpls spec) = None"
    using assms(5,6,7) by (simp add: ascent_tpls_def snd_get_dep split: option.splits; blast)
  ultimately show ?thesis
    by (simp add: ascent_cfg_def)
qed

lemma ascent_f_compiler_total:
  assumes "fc_set self \<longrightarrow> environ w ''SPACK_FC'' \<noteq> None"
  shows "\<exists>fc. ascent_f_compiler self w = Inr fc"
  using assms by (auto simp: ascent_f_compiler_def fc_set_def split: option.splits)

lemma ascent_readyD:
  assumes "ascent_ready self spec w"
  shows "environ w ''SPACK_CC'' \<noteq> None" "environ w ''SPACK_CXX'' \<noteq> None"
    "fc_set self \<longrightarrow> environ w ''SPACK_FC'' \<noteq> None"
    "if has spec ''+cmake'' then deps spec ''cmake'' \<noteq> None else which w ''cmake'' \<noteq> None"
    "creatable w (abspath w (ascent_host_cfg_fname spec w))"
    "deps spec ''conduit'' \<noteq> None"
    "has spec ''+python'' \<longrightarrow> deps spec ''python'' \<noteq> None"
    "has spec ''+doc'' \<and> has spec ''+python'' \<longrightarrow> deps spec ''py-sphinx'' \<noteq> None"
    "has spec ''+mpi'' \<longrightarrow> deps spec ''mpi'' \<noteq> None \<and> deps (pkg_spec self) ''cmake'' \<noteq> None"
    "has spec ''+vtkh'' \<longrightarrow> deps spec ''vtkm'' \<noteq> None \<and> deps spec ''vtkh'' \<noteq> None"
    "has spec ''+mfem'' \<longrightarrow> deps spec ''mfem'' \<noteq> None"
    "has spec ''+adios'' \<longrightarrow> deps spec ''adios'' \<noteq> None"
  using assms unfolding ascent_ready_def by blast+

lemma ascent_ready_returns:
  assumes "ascent_ready self spec w"
  shows "\<exists>p ws w'. ascent_create_host_config self spec pfx py w = (Inr p, ws, w')"
proof -
  note r = ascent_readyD [OF assms]
  from r(1,2) obtain cc cxx where
    e: "environ w ''SPACK_CC'' = Some cc" "environ w ''SPACK_CXX'' = Some cxx"
    by auto
  from ascent_f_compiler_total [OF r(3)] obtain fc where f: "ascent_f_compiler self w = Inr fc"
    by blast
  from r(4) obtain ce where m: "ascent_cmake_exe spec w = Inr ce"
    by (auto simp: ascent_cmake_exe_def split: if_splits)
  have "snd (ascent_cfg self spec py
               (w\<lparr>files := (files w)(abspath w (ascent_host_cfg_fname spec w) \<mapsto> [])\<rparr>)
               cc cxx fc (get_sys_type spec w) ce) = None"
    by (rule ascent_cfg_succeeds [OF r(6-12)])
  then show ?thesis
    by (simp add: ascent_create_host_config_def e f m r(5) open_w_def Let_def)
qed

lemma ascent_text_nonempty:
  assumes "snd (ascent_cfg self spec py w cc cxx fc st ce) = None"
  shows "concat (fst (ascent_cfg self spec py w cc cxx fc st ce)) \<noteq> []"
  unfolding ascent_cfg_ok [OF assms] by (simp add: ascent_header_def)

lemma vtkh_returned_path:
  assumes "vtkh_create_host_config self spec pfx w = (Inr p, ws, w')"
  shows "p = abspath w (vtkh_host_cfg_fname spec w)" and "concat ws \<noteq> []"
proof -
  from vtkh_returns [OF assms] obtain cc cxx and cm :: dep and w1 where
    ok: "snd (vtkh_cfg self spec w1 cc cxx (get_sys_type spec w) (command_path cm)) = None"
    and ws: "ws = fst (vtkh_cfg self spec w1 cc cxx (get_sys_type spec w) (command_path cm))"
    and p: "p = abspath w (vtkh_host_cfg_fname spec w)"
    by blast
  show "p = abspath w (vtkh_host_cfg_fname spec w)" by (rule p)
  show "concat ws \<noteq> []" unfolding ws by (rule vtkh_text_nonempty [OF ok])
qed

lemma ascent_returned_path:
  assumes "ascent_create_host_config self spec pfx py w = (Inr p, ws, w')"
  shows "p = abspath w (ascent_host_cfg_fname spec w)" and "concat ws \<noteq> []"
proof -
  from ascent_returns [OF assms] obtain cc cxx fc ce w1 where
    ok: "snd (ascent_cfg self spec py w1 cc cxx fc (get_sys_type spec w) ce) = None"
    and ws: "ws = fst (ascent_cfg self spec py w1 cc cxx fc (get_sys_type spec w) ce)"
    and p: "p = abspath w (ascent_host_cfg_fname spec w)"
    by blast
  show "p = abspath w (ascent_host_cfg_fname spec w)" by (rule p)
  show "concat ws \<noteq> []" unfolding ws by (rule ascent_text_nonempty [OF ok])
qed

text \<open>The example installation has all that both recipes read, also inside the build directory.\<close>

lemma ex_ready:
  "vtkh_ready (ex_pkg fl) (ex_spec fl) ex_world"
  "ascent_ready (ex_pkg fl) (ex_spec fl) ex_world = 
     (''+python'' \<notin> set fl \<and> ''+mfem'' \<notin> set fl \<and> ''+adios'' \<notin> set fl)"
  by (auto simp add: vtkh_ready_def ascent_ready_def ex_pkg_def ex_spec_def ex_world_def)

lemma ex_ready_build:
  "vtkh_ready (ex_pkg fl) (ex_spec fl) (enter_dir ''spack-build'' ex_world)"
  "ascent_ready (ex_pkg fl) (ex_spec fl) (enter_dir ''spack-build'' ex_world) =
     (''+python'' \<notin> set fl \<and> ''+mfem'' \<notin> set fl \<and> ''+adios'' \<notin> set fl)"
  by (auto simp add: vtkh_ready_def ascent_ready_def ex_pkg_def ex_spec_def ex_world_def
      enter_dir_def)

section \<open>The test flag of \<^verbatim>\<open>vtk-h\<close>\<close>

lemma vtkh_tests_written:
  assumes "vtkh_create_host_config self spec pfx w = (Inr p, ws, w')"
  shows \<open>entries_named ''ENABLE_TESTS'' ws =
        [if has spec ''+test'' then ''set(ENABLE_TESTS "OFF" CACHE BOOL "")\<newline>\<newline>''
         else ''set(ENABLE_TESTS "ON" CACHE BOOL "")\<newline>\<newline>'']\<close>
    and \<open>entries_named ''BUILD_TESTING'' ws =
        [if has spec ''+test'' then ''set(BUILD_TESTING "OFF" CACHE BOOL "")\<newline>\<newline>''
         else ''set(BUILD_TESTING "ON" CACHE BOOL "")\<newline>\<newline>'']\<close>
proof -
  from vtkh_returns [OF assms] obtain cc cxx and cm :: dep and w1 where
    ok: "snd (vtkh_cfg self spec w1 cc cxx (get_sys_type spec w) (command_path cm)) = None"
    and ws: "ws = fst (vtkh_cfg self spec w1 cc cxx (get_sys_type spec w) (command_path cm))"
    by blast
  show \<open>entries_named ''ENABLE_TESTS'' ws =
        [if has spec ''+test'' then ''set(ENABLE_TESTS "OFF" CACHE BOOL "")\<newline>\<newline>''
         else ''set(ENABLE_TESTS "ON" CACHE BOOL "")\<newline>\<newline>'']\<close>
    unfolding ws vtkh_cfg_ok [OF ok]
    by (simp only: entries_named_append vtkh_tests_blocks vtkh_options_tests append_Nil append_Nil2)
  show \<open>entries_named ''BUILD_TESTING'' ws =
        [if has spec ''+test'' then ''set(BUILD_TESTING "OFF" CACHE BOOL "")\<newline>\<newline>''
         else ''set(BUILD_TESTING "ON" CACHE BOOL "")\<newline>\<newline>'']\<close>
    unfolding ws vtkh_cfg_ok [OF ok]
    by (simp only: entries_named_append vtkh_btest_blocks vtkh_options_tests append_Nil append_Nil2)
qed

text \<open>
  Claim C4. In \<^verbatim>\<open>create_host_config\<close> of the vtk-h recipe, a spec with \<^verbatim>\<open>+test\<close> writes
  \<^verbatim>\<open>ENABLE_TESTS\<close> and \<^verbatim>\<open>BUILD_TESTING\<close> as \<^verbatim>\<open>OFF\<close>, and a spec without it writes both as
  \<^verbatim>\<open>ON\<close>: the value written is the inverse of the flag. A call that has all it reads
  (\<open>vtkh_ready\<close>) returns, with or without the flag, and has written each of the two
  variables once, with that value, in a file whose text is the concatenation of the strings
  written; the same holds of every call that returns.
\<close>

theorem vtkh_test_flag_inverted:
  \<open>(vtkh_ready self spec w \<longrightarrow>
      (\<exists>p ws w'. vtkh_create_host_config self spec pfx w = (Inr p, ws, w')
         \<and> files w' p = Some (concat ws)
         \<and> entries_named ''ENABLE_TESTS'' ws =
             [if has spec ''+test'' then ''set(ENABLE_TESTS "OFF" CACHE BOOL "")\<newline>\<newline>''
              else ''set(ENABLE_TESTS "ON" CACHE BOOL "")\<newline>\<newline>'']
         \<and> entries_named ''BUILD_TESTING'' ws =
             [if has spec ''+test'' then ''set(BUILD_TESTING "OFF" CACHE BOOL "")\<newline>\<newline>''
              else ''set(BUILD_TESTING "ON" CACHE BOOL "")\<newline>\<newline>'']))
   \<and> (vtkh_create_host_config self spec pfx w = (Inr q, xs, u) \<longrightarrow>
        files u q = Some (concat xs)
        \<and> entries_named ''ENABLE_TESTS'' xs =
            [if has spec ''+test'' then ''set(ENABLE_TESTS "OFF" CACHE BOOL "")\<newline>\<newline>''
             else ''set(ENABLE_TESTS "ON" CACHE BOOL "")\<newline>\<newline>'']
        \<and> entries_named ''BUILD_TESTING'' xs =
            [if has spec ''+test'' then ''set(BUILD_TESTING "OFF" CACHE BOOL "")\<newline>\<newline>''
             else ''set(BUILD_TESTING "ON" CACHE BOOL "")\<newline>\<newline>''])\<close>
proof (intro conjI impI)
  assume "vtkh_ready self spec w"
  then obtain p ws w' where r: "vtkh_create_host_config self spec pfx w = (Inr p, ws, w')"
    using vtkh_ready_returns by blast
  from r vtkh_file_written [OF r] vtkh_tests_written [OF r]
  show \<open>\<exists>p ws w'. vtkh_create_host_config self spec pfx w = (Inr p, ws, w')
         \<and> files w' p = Some (concat ws)
         \<and> entries_named ''ENABLE_TESTS'' ws =
             [if has spec ''+test'' then ''set(ENABLE_TESTS "OFF" CACHE BOOL "")\<newline>\<newline>''
              else ''set(ENABLE_TESTS "ON" CACHE BOOL "")\<newline>\<newline>'']
         \<and> entries_named ''BUILD_TESTING'' ws =
             [if has spec ''+test'' then ''set(BUILD_TESTING "OFF" CACHE BOOL "")\<newline>\<newline>''
              else ''set(BUILD_TESTING "ON" CACHE BOOL "")\<newline>\<newline>'']\<close>
    by blast
next
  assume r: "vtkh_create_host_config self spec pfx w = (Inr q, xs, u)"
  from r show "files u q = Some (concat xs)"
    by (rule vtkh_file_written)
  from r show \<open>entries_named ''ENABLE_TESTS'' xs =
            [if has spec ''+test'' then ''set(ENABLE_TESTS "OFF" CACHE BOOL "")\<newline>\<newline>''
             else ''set(ENABLE_TESTS "ON" CACHE BOOL "")\<newline>\<newline>'']\<close>
    by (rule vtkh_tests_written(1))
  from r show \<open>entries_named ''BUILD_TESTING'' xs =
            [if has spec ''+test'' then ''set(BUILD_TESTING "OFF" CACHE BOOL "")\<newline>\<newline>''
             else ''set(BUILD_TESTING "ON" CACHE BOOL "")\<newline>\<newline>'']\<close>
    by (rule vtkh_tests_written(2))
qed

text \<open>
  The example installation with \<^verbatim>\<open>+test\<close>, where both variables are \<^verbatim>\<open>OFF\<close>, and without
  it, where both are \<^verbatim>\<open>ON\<close>.
\<close>

theorem vtkh_test_flag_inverted_witness:
  \<open>vtkh_ready (ex_pkg [''+test'', ''+mpi'']) (ex_spec [''+test'', ''+mpi'']) ex_world
   \<and> has (ex_spec [''+test'', ''+mpi'']) ''+test''
   \<and> fst (vtkh_create_host_config (ex_pkg [''+test'', ''+mpi'']) (ex_spec [''+test'', ''+mpi''])
          ''/prefix'' ex_world)
     = Inr ''/tmp/stage/node1-linux-x86_64-gcc@8.3.0-vtkh.cmake''
   \<and> entries_named ''ENABLE_TESTS''
        (fst (snd (vtkh_create_host_config (ex_pkg [''+test'', ''+mpi''])
                     (ex_spec [''+test'', ''+mpi'']) ''/prefix'' ex_world)))
     = [''set(ENABLE_TESTS "OFF" CACHE BOOL "")\<newline>\<newline>'']
   \<and> entries_named ''BUILD_TESTING''
        (fst (snd (vtkh_create_host_config (ex_pkg [''+test'', ''+mpi''])
                     (ex_spec [''+test'', ''+mpi'']) ''/prefix'' ex_world)))
     = [''set(BUILD_TESTING "OFF" CACHE BOOL "")\<newline>\<newline>'']
   \<and> vtkh_ready (ex_pkg [''+mpi'']) (ex_spec [''+mpi'']) ex_world
   \<and> \<not> has (ex_spec [''+mpi'']) ''+test''
   \<and> fst (vtkh_create_host_config (ex_pkg [''+mpi'']) (ex_spec [''+mpi'']) ''/prefix'' ex_world)
     = Inr ''/tmp/stage/node1-linux-x86_64-gcc@8.3.0-vtkh.cmake''
   \<and> entries_named ''ENABLE_TESTS''
        (fst (snd (vtkh_create_host_config (ex_pkg [''+mpi'']) (ex_spec [''+mpi''])
                     ''/prefix'' ex_world)))
     = [''set(ENABLE_TESTS "ON" CACHE BOOL "")\<newline>\<newline>'']
   \<and> entries_named ''BUILD_TESTING''
        (fst (snd (vtkh_create_host_config (ex_pkg [''+mpi'']) (ex_spec [''+mpi''])
                     ''/prefix'' ex_world)))
     = [''set(BUILD_TESTING "ON" CACHE BOOL "")\<newline>\<newline>'']\<close>
proof -
  let ?r = "vtkh_create_host_config (ex_pkg [''+test'', ''+mpi'']) (ex_spec [''+test'', ''+mpi''])
              ''/prefix'' ex_world"
  let ?s = "vtkh_create_host_config (ex_pkg [''+mpi'']) (ex_spec [''+mpi'']) ''/prefix'' ex_world"
  let ?p = "''/tmp/stage/node1-linux-x86_64-gcc@8.3.0-vtkh.cmake''"
  have yr: "vtkh_ready (ex_pkg [''+test'', ''+mpi'']) (ex_spec [''+test'', ''+mpi'']) ex_world"
    and ys: "vtkh_ready (ex_pkg [''+mpi'']) (ex_spec [''+mpi'']) ex_world"
    by (simp_all add: ex_ready)
  have hr: "has (ex_spec [''+test'', ''+mpi'']) ''+test''"
    and hs: "\<not> has (ex_spec [''+mpi'']) ''+test''"
    by (simp_all add: ex_spec_def)
  have r: "fst ?r = Inr ?p"
    by code_simp
  have s: "fst ?s = Inr ?p"
    by code_simp
  from vtkh_test_flag_inverted [of "ex_pkg [''+test'', ''+mpi'']" "ex_spec [''+test'', ''+mpi'']"
      ex_world "''/prefix''"] yr
  obtain p ws w' where
    a: "?r = (Inr p, ws, w')"
    and en: \<open>entries_named ''ENABLE_TESTS'' ws =
             [if has (ex_spec [''+test'', ''+mpi'']) ''+test''
              then ''set(ENABLE_TESTS "OFF" CACHE BOOL "")\<newline>\<newline>''
              else ''set(ENABLE_TESTS "ON" CACHE BOOL "")\<newline>\<newline>'']\<close>
      \<open>entries_named ''BUILD_TESTING'' ws =
             [if has (ex_spec [''+test'', ''+mpi'']) ''+test''
              then ''set(BUILD_TESTING "OFF" CACHE BOOL "")\<newline>\<newline>''
              else ''set(BUILD_TESTING "ON" CACHE BOOL "")\<newline>\<newline>'']\<close>
    by blast
  from vtkh_test_flag_inverted [of "ex_pkg [''+mpi'']" "ex_spec [''+mpi'']" ex_world "''/prefix''"] ys
  obtain p2 ws2 w2 where
    b: "?s = (Inr p2, ws2, w2)"
    and en2: \<open>entries_named ''ENABLE_TESTS'' ws2 =
             [if has (ex_spec [''+mpi'']) ''+test''
              then ''set(ENABLE_TESTS "OFF" CACHE BOOL "")\<newline>\<newline>''
              else ''set(ENABLE_TESTS "ON" CACHE BOOL "")\<newline>\<newline>'']\<close>
      \<open>entries_named ''BUILD_TESTING'' ws2 =
             [if has (ex_spec [''+mpi'']) ''+test''
              then ''set(BUILD_TESTING "OFF" CACHE BOOL "")\<newline>\<newline>''
              else ''set(BUILD_TESTING "ON" CACHE BOOL "")\<newline>\<newline>'']\<close>
    by blast
  from r a have p: "p = ?p" by simp
  from s b have p2: "p2 = ?p" by simp
  from en hr have en': \<open>entries_named ''ENABLE_TESTS'' ws
        = [''set(ENABLE_TESTS "OFF" CACHE BOOL "")\<newline>\<newline>'']\<close>
      \<open>entries_named ''BUILD_TESTING'' ws = [''set(BUILD_TESTING "OFF" CACHE BOOL "")\<newline>\<newline>'']\<close>
    by simp_all
  from en2 hs have en2': \<open>entries_named ''ENABLE_TESTS'' ws2
        = [''set(ENABLE_TESTS "ON" CACHE BOOL "")\<newline>\<newline>'']\<close>
      \<open>entries_named ''BUILD_TESTING'' ws2 = [''set(BUILD_TESTING "ON" CACHE BOOL "")\<newline>\<newline>'']\<close>
    by simp_all
  from yr hr ys hs en' en2' show ?thesis
    unfolding a b p p2 by simp
qed


section \<open>The shape of an entry and the name of the file\<close>

text \<open>
  Claim C9. Every string made by \<^verbatim>\<open>cmake_cache_entry\<close> is
  \<^verbatim>\<open>set(<NAME> "<VALUE>" CACHE <TYPE> "")\<close> followed by a blank line. In the vtk-h recipe
  the type defaults to \<^verbatim>\<open>BOOL\<close> for the values \<^verbatim>\<open>ON\<close> and \<^verbatim>\<open>OFF\<close> and to \<^verbatim>\<open>PATH\<close>
  otherwise; in the ascent recipe it is always \<^verbatim>\<open>PATH\<close>. The file is opened under the name
  \<^verbatim>\<open><hostname>-<sys_type>-<compiler>-vtkh.cmake\<close> (\<^verbatim>\<open>-ascent.cmake\<close> for ascent), where the
  system type is \<^verbatim>\<open>SYS_TYPE\<close> of the environment or else the architecture of the spec; the
  path returned is the absolute path of that name, and the file there holds the text
  written.
\<close>

theorem cache_entry_shape_and_file_name:
  \<open>vtkh_cmake_cache_entry name val None
     = ''set('' @ name @ '' "'' @ val @ ''" CACHE ''
         @ (if val = ''ON'' \<or> val = ''OFF'' then ''BOOL'' else ''PATH'') @ '' "")\<newline>\<newline>''
   \<and> vtkh_cmake_cache_entry name val (Some vtype)
     = ''set('' @ name @ '' "'' @ val @ ''" CACHE '' @ vtype @ '' "")\<newline>\<newline>''
   \<and> ascent_cmake_cache_entry name val
     = ''set('' @ name @ '' "'' @ val @ ''" CACHE PATH "")\<newline>\<newline>''
   \<and> get_sys_type spec w
     = (case environ w ''SYS_TYPE'' of Some t \<Rightarrow> t | None \<Rightarrow> architecture spec)
   \<and> (vtkh_create_host_config self spec pfx w = (Inr p, ws, w') \<longrightarrow>
        p = abspath w (hostname w @ ''-'' @ get_sys_type spec w @ ''-'' @ compiler spec
                         @ ''-vtkh.cmake'')
        \<and> files w' p = Some (concat ws))
   \<and> (ascent_create_host_config self spec pfx py w = (Inr p2, ws2, w2) \<longrightarrow>
        p2 = abspath w (hostname w @ ''-'' @ get_sys_type spec w @ ''-'' @ compiler spec
                          @ ''-ascent.cmake'')
        \<and> files w2 p2 = Some (concat ws2))\<close>
proof (intro conjI impI)
  assume r: "vtkh_create_host_config self spec pfx w = (Inr p, ws, w')"
  from vtkh_returned_path(1) [OF r]
  show "p = abspath w (hostname w @ ''-'' @ get_sys_type spec w @ ''-'' @ compiler spec
                         @ ''-vtkh.cmake'')"
    by (simp add: vtkh_host_cfg_fname_def)
  from r show "files w' p = Some (concat ws)"
    by (rule vtkh_file_written)
next
  assume r: "ascent_create_host_config self spec pfx py w = (Inr p2, ws2, w2)"
  from ascent_returned_path(1) [OF r]
  show "p2 = abspath w (hostname w @ ''-'' @ get_sys_type spec w @ ''-'' @ compiler spec
                          @ ''-ascent.cmake'')"
    by (simp add: ascent_host_cfg_fname_def)
  from r show "files w2 p2 = Some (concat ws2)"
    by (rule ascent_file_written)
qed (simp_all add: vtkh_cmake_cache_entry_def ascent_cmake_cache_entry_def get_sys_type_def)

text \<open>Two entries, and the file names on the example installation.\<close>

theorem cache_entry_shape_and_file_name_witness:
  \<open>vtkh_cmake_cache_entry ''ENABLE_MPI'' ''ON'' None
     = ''set(ENABLE_MPI "ON" CACHE BOOL "")\<newline>\<newline>''
   \<and> vtkh_cmake_cache_entry ''VTKM_DIR'' ''/opt/vtkm'' None
     = ''set(VTKM_DIR "/opt/vtkm" CACHE PATH "")\<newline>\<newline>''
   \<and> ascent_cmake_cache_entry ''ENABLE_MPI'' ''ON''
     = ''set(ENABLE_MPI "ON" CACHE PATH "")\<newline>\<newline>''
   \<and> fst (vtkh_create_host_config (ex_pkg [''+mpi'']) (ex_spec [''+mpi'']) ''/prefix'' ex_world)
     = Inr ''/tmp/stage/node1-linux-x86_64-gcc@8.3.0-vtkh.cmake''
   \<and> fst (ascent_create_host_config (ex_pkg [''+mpi'']) (ex_spec [''+mpi'']) ''/prefix'' None
          ex_world)
     = Inr ''/tmp/stage/node1-linux-x86_64-gcc@8.3.0-ascent.cmake''
   \<and> abspath ex_world (hostname ex_world @ ''-'' @ get_sys_type (ex_spec [''+mpi'']) ex_world
                          @ ''-'' @ compiler (ex_spec [''+mpi'']) @ ''-vtkh.cmake'')
     = ''/tmp/stage/node1-linux-x86_64-gcc@8.3.0-vtkh.cmake''
   \<and> abspath ex_world (hostname ex_world @ ''-'' @ get_sys_type (ex_spec [''+mpi'']) ex_world
                          @ ''-'' @ compiler (ex_spec [''+mpi'']) @ ''-ascent.cmake'')
     = ''/tmp/stage/node1-linux-x86_64-gcc@8.3.0-ascent.cmake''\<close>
proof -
  let ?v = "vtkh_create_host_config (ex_pkg [''+mpi'']) (ex_spec [''+mpi'']) ''/prefix'' ex_world"
  let ?a = "ascent_create_host_config (ex_pkg [''+mpi'']) (ex_spec [''+mpi'']) ''/prefix'' None
              ex_world"
  let ?pv = "''/tmp/stage/node1-linux-x86_64-gcc@8.3.0-vtkh.cmake''"
  let ?pa = "''/tmp/stage/node1-linux-x86_64-gcc@8.3.0-ascent.cmake''"
  have v: "fst ?v = Inr ?pv"
    by code_simp
  have a: "fst ?a = Inr ?pa"
    by code_simp
  have v': "?v = (Inr ?pv, fst (snd ?v), snd (snd ?v))"
    using v by (simp add: prod_eq_iff)
  have a': "?a = (Inr ?pa, fst (snd ?a), snd (snd ?a))"
    using a by (simp add: prod_eq_iff)
  note t = cache_entry_shape_and_file_name
  have s1: \<open>vtkh_cmake_cache_entry ''ENABLE_MPI'' ''ON'' None
             = ''set(ENABLE_MPI "ON" CACHE BOOL "")\<newline>\<newline>''\<close>
    using t [of "''ENABLE_MPI''" "''ON''"] by simp
  have s2: \<open>vtkh_cmake_cache_entry ''VTKM_DIR'' ''/opt/vtkm'' None
             = ''set(VTKM_DIR "/opt/vtkm" CACHE PATH "")\<newline>\<newline>''\<close>
    using t [of "''VTKM_DIR''" "''/opt/vtkm''"] by simp
  have s3: \<open>ascent_cmake_cache_entry ''ENABLE_MPI'' ''ON''
             = ''set(ENABLE_MPI "ON" CACHE PATH "")\<newline>\<newline>''\<close>
    using t [of "''ENABLE_MPI''" "''ON''"] by simp
  note tt = t [of _ _ _ "ex_spec [''+mpi'']" ex_world "ex_pkg [''+mpi'']" "''/prefix''" ?pv
      "fst (snd ?v)" "snd (snd ?v)" None ?pa "fst (snd ?a)" "snd (snd ?a)"]
  from tt v' have n1: "?pv = abspath ex_world (hostname ex_world @ ''-''
      @ get_sys_type (ex_spec [''+mpi'']) ex_world @ ''-'' @ compiler (ex_spec [''+mpi''])
      @ ''-vtkh.cmake'')"
    by blast
  from tt a' have n2: "?pa = abspath ex_world (hostname ex_world @ ''-''
      @ get_sys_type (ex_spec [''+mpi'']) ex_world @ ''-'' @ compiler (ex_spec [''+mpi''])
      @ ''-ascent.cmake'')"
    by blast
  from s1 s2 s3 v a n1 [symmetric] n2 [symmetric] show ?thesis
    by (intro conjI)
qed


section \<open>The returned path and the file\<close>

text \<open>
  Claim C5. The path that \<^verbatim>\<open>create_host_config\<close> returns is always absolute, and the file
  at that path exists and is not empty: whenever a call of either recipe returns, in a
  working directory that is absolute as \<^verbatim>\<open>os.getcwd()\<close> is, the returned path is absolute
  and the file there holds the text written, which is not empty. The call does return
  when the compiler variables of the environment are set, the CMake executable and the
  dependencies read for the enabled flags are found and the file can be created
  (\<open>vtkh_ready\<close>, \<open>ascent_ready\<close>).
\<close>

theorem host_config_path_absolute:
  "(vtkh_ready self spec w \<longrightarrow>
      (\<exists>p ws w'. vtkh_create_host_config self spec pfx w = (Inr p, ws, w')))
   \<and> (vtkh_create_host_config self spec pfx w = (Inr p, ws, w') \<and> isabs (cwd w) \<longrightarrow>
      isabs p \<and> files w' p = Some (concat ws) \<and> concat ws \<noteq> [])
   \<and> (ascent_ready self spec w \<longrightarrow>
      (\<exists>p ws w'. ascent_create_host_config self spec pfx py w = (Inr p, ws, w')))
   \<and> (ascent_create_host_config self spec pfx py w = (Inr p2, ws2, w2) \<and> isabs (cwd w) \<longrightarrow>
      isabs p2 \<and> files w2 p2 = Some (concat ws2) \<and> concat ws2 \<noteq> [])"
proof (intro conjI impI)
  assume "vtkh_ready self spec w"
  then show "\<exists>p ws w'. vtkh_create_host_config self spec pfx w = (Inr p, ws, w')"
    by (rule vtkh_ready_returns)
next
  assume "ascent_ready self spec w"
  then show "\<exists>p ws w'. ascent_create_host_config self spec pfx py w = (Inr p, ws, w')"
    by (rule ascent_ready_returns)
next
  assume a: "vtkh_create_host_config self spec pfx w = (Inr p, ws, w') \<and> isabs (cwd w)"
  then have r: "vtkh_create_host_config self spec pfx w = (Inr p, ws, w')"
    and c: "isabs (cwd w)"
    by simp_all
  from vtkh_returned_path(1) [OF r] c show "isabs p"
    by (simp add: isabs_abspath)
  from r show "files w' p = Some (concat ws)"
    by (rule vtkh_file_written)
  from r show "concat ws \<noteq> []"
    by (rule vtkh_returned_path(2))
next
  assume a: "ascent_create_host_config self spec pfx py w = (Inr p2, ws2, w2) \<and> isabs (cwd w)"
  then have r: "ascent_create_host_config self spec pfx py w = (Inr p2, ws2, w2)"
    and c: "isabs (cwd w)"
    by simp_all
  from ascent_returned_path(1) [OF r] c show "isabs p2"
    by (simp add: isabs_abspath)
  from r show "files w2 p2 = Some (concat ws2)"
    by (rule ascent_file_written)
  from r show "concat ws2 \<noteq> []"
    by (rule ascent_returned_path(2))
qed

text \<open>Both recipes on the example installation with \<^verbatim>\<open>+mpi\<close>.\<close>

theorem host_config_path_absolute_witness:
  "vtkh_ready (ex_pkg [''+mpi'']) (ex_spec [''+mpi'']) ex_world
   \<and> ascent_ready (ex_pkg [''+mpi'']) (ex_spec [''+mpi'']) ex_world
   \<and> isabs (cwd ex_world)
   \<and> fst (vtkh_create_host_config (ex_pkg [''+mpi'']) (ex_spec [''+mpi'']) ''/prefix'' ex_world)
     = Inr ''/tmp/stage/node1-linux-x86_64-gcc@8.3.0-vtkh.cmake''
   \<and> isabs ''/tmp/stage/node1-linux-x86_64-gcc@8.3.0-vtkh.cmake''
   \<and> files (snd (snd (vtkh_create_host_config (ex_pkg [''+mpi'']) (ex_spec [''+mpi''])
                         ''/prefix'' ex_world)))
        ''/tmp/stage/node1-linux-x86_64-gcc@8.3.0-vtkh.cmake''
     = Some (concat (fst (snd (vtkh_create_host_config (ex_pkg [''+mpi''])
                                 (ex_spec [''+mpi'']) ''/prefix'' ex_world))))
   \<and> concat (fst (snd (vtkh_create_host_config (ex_pkg [''+mpi'']) (ex_spec [''+mpi''])
                         ''/prefix'' ex_world))) \<noteq> []
   \<and> fst (ascent_create_host_config (ex_pkg [''+mpi'']) (ex_spec [''+mpi'']) ''/prefix'' None
          ex_world)
     = Inr ''/tmp/stage/node1-linux-x86_64-gcc@8.3.0-ascent.cmake''
   \<and> files (snd (snd (ascent_create_host_config (ex_pkg [''+mpi'']) (ex_spec [''+mpi''])
                         ''/prefix'' None ex_world)))
        ''/tmp/stage/node1-linux-x86_64-gcc@8.3.0-ascent.cmake''
     = Some (concat (fst (snd (ascent_create_host_config (ex_pkg [''+mpi''])
                                 (ex_spec [''+mpi'']) ''/prefix'' None ex_world))))
   \<and> concat (fst (snd (ascent_create_host_config (ex_pkg [''+mpi'']) (ex_spec [''+mpi''])
                         ''/prefix'' None ex_world))) \<noteq> []"
proof -
  let ?v = "vtkh_create_host_config (ex_pkg [''+mpi'']) (ex_spec [''+mpi'']) ''/prefix'' ex_world"
  let ?a = "ascent_create_host_config (ex_pkg [''+mpi'']) (ex_spec [''+mpi'']) ''/prefix'' None
              ex_world"
  let ?pv = "''/tmp/stage/node1-linux-x86_64-gcc@8.3.0-vtkh.cmake''"
  let ?pa = "''/tmp/stage/node1-linux-x86_64-gcc@8.3.0-ascent.cmake''"
  have rv: "vtkh_ready (ex_pkg [''+mpi'']) (ex_spec [''+mpi'']) ex_world"
    and ra: "ascent_ready (ex_pkg [''+mpi'']) (ex_spec [''+mpi'']) ex_world"
    by (simp_all add: ex_ready)
  have c: "isabs (cwd ex_world)"
    by (simp add: ex_world_def)
  note t = host_config_path_absolute [of "ex_pkg [''+mpi'']" "ex_spec [''+mpi'']" ex_world
      "''/prefix''" _ _ _ None]
  from t rv obtain p ws w' where v: "?v = (Inr p, ws, w')"
    by blast
  from t ra obtain p2 ws2 w2 where a: "?a = (Inr p2, ws2, w2)"
    by blast
  have pv: "fst ?v = Inr ?pv"
    by code_simp
  have pa: "fst ?a = Inr ?pa"
    by code_simp
  from v pv have p: "p = ?pv" by simp
  from a pa have p2: "p2 = ?pa" by simp
  from t [of p ws w' p2 ws2 w2] v a c
  have "isabs p \<and> files w' p = Some (concat ws) \<and> concat ws \<noteq> []"
    and "files w2 p2 = Some (concat ws2) \<and> concat ws2 \<noteq> []"
    by blast+
  with rv ra c pv pa show ?thesis
    unfolding v a p p2 by simp
qed

section \<open>A missing CMake\<close>

text \<open>
  Claim C6. When the spec does not satisfy \<^verbatim>\<open>+cmake\<close> and no \<^verbatim>\<open>cmake\<close> is found on the
  search path, \<^verbatim>\<open>create_host_config\<close> of the ascent recipe raises, writes nothing and
  leaves the world as it was. The exception is the \<^verbatim>\<open>RuntimeError\<close> with the message
  \<^verbatim>\<open>failed to find CMake (and cmake variant is off)\<close> whenever the compiler variables read
  before (\<^verbatim>\<open>SPACK_CC\<close>, \<^verbatim>\<open>SPACK_CXX\<close>, and \<^verbatim>\<open>SPACK_FC\<close> for a compiler with \<^verbatim>\<open>fc\<close>) are
  set; a missing one raises \<^verbatim>\<open>KeyError\<close> first.
\<close>

theorem ascent_missing_cmake_raises:
  assumes "\<not> has spec ''+cmake''" and "which w ''cmake'' = None"
  shows "(\<exists>e. ascent_create_host_config self spec pfx py w = (Inl e, [], w))
    \<and> (environ w ''SPACK_CC'' \<noteq> None \<and> environ w ''SPACK_CXX'' \<noteq> None
        \<and> (fc_set self \<longrightarrow> environ w ''SPACK_FC'' \<noteq> None) \<longrightarrow>
       ascent_create_host_config self spec pfx py w
         = (Inl (RuntimeError ''failed to find CMake (and cmake variant is off)''), [], w))"
proof -
  have m: "ascent_cmake_exe spec w
             = Inl (RuntimeError ''failed to find CMake (and cmake variant is off)'')"
    using assms by (simp add: ascent_cmake_exe_def)
  have "\<exists>e. ascent_create_host_config self spec pfx py w = (Inl e, [], w)"
    by (simp add: ascent_create_host_config_def m split: option.splits sum.splits)
  moreover have "ascent_create_host_config self spec pfx py w
         = (Inl (RuntimeError ''failed to find CMake (and cmake variant is off)''), [], w)"
    if "environ w ''SPACK_CC'' \<noteq> None \<and> environ w ''SPACK_CXX'' \<noteq> None
        \<and> (fc_set self \<longrightarrow> environ w ''SPACK_FC'' \<noteq> None)"
  proof -
    from that obtain cc cxx where
      e: "environ w ''SPACK_CC'' = Some cc" "environ w ''SPACK_CXX'' = Some cxx"
      by auto
    from that ascent_f_compiler_total [of self w] obtain fc where
      f: "ascent_f_compiler self w = Inr fc"
      by blast
    show ?thesis
      by (simp add: ascent_create_host_config_def e f m)
  qed
  ultimately show ?thesis by blast
qed

text \<open>The example installation without \<^verbatim>\<open>cmake\<close> on the search path.\<close>

theorem ascent_missing_cmake_raises_witness:
  "\<not> has (ex_spec []) ''+cmake''
   \<and> which (ex_world\<lparr>which := Map.empty\<rparr>) ''cmake'' = None
   \<and> environ (ex_world\<lparr>which := Map.empty\<rparr>) ''SPACK_CC'' \<noteq> None
   \<and> environ (ex_world\<lparr>which := Map.empty\<rparr>) ''SPACK_CXX'' \<noteq> None
   \<and> environ (ex_world\<lparr>which := Map.empty\<rparr>) ''SPACK_FC'' \<noteq> None
   \<and> ascent_create_host_config (ex_pkg []) (ex_spec []) ''/prefix'' None
        (ex_world\<lparr>which := Map.empty\<rparr>)
     = (Inl (RuntimeError ''failed to find CMake (and cmake variant is off)''), [],
        ex_world\<lparr>which := Map.empty\<rparr>)"
proof -
  have h: "\<not> has (ex_spec []) ''+cmake''" "which (ex_world\<lparr>which := Map.empty\<rparr>) ''cmake'' = None"
    by (simp_all add: ex_spec_def)
  have e: "environ (ex_world\<lparr>which := Map.empty\<rparr>) ''SPACK_CC'' \<noteq> None"
    "environ (ex_world\<lparr>which := Map.empty\<rparr>) ''SPACK_CXX'' \<noteq> None"
    "environ (ex_world\<lparr>which := Map.empty\<rparr>) ''SPACK_FC'' \<noteq> None"
    by (simp_all add: ex_world_def)
  from ascent_missing_cmake_raises [OF h, of "ex_pkg []" "''/prefix''" None] e
  have "ascent_create_host_config (ex_pkg []) (ex_spec []) ''/prefix'' None
        (ex_world\<lparr>which := Map.empty\<rparr>)
     = (Inl (RuntimeError ''failed to find CMake (and cmake variant is off)''), [],
        ex_world\<lparr>which := Map.empty\<rparr>)"
    by blast
  with h e show ?thesis by blast
qed


section \<open>A missing Fortran compiler\<close>

lemma ascent_fortran_blocks:
  "entries_named ''ENABLE_FORTRAN'' (fst (ascent_header spec st ce)) = []"
  "entries_named ''ENABLE_FORTRAN'' (fst (ascent_compilers spec cc cxx)) = []"
  "entries_named ''ENABLE_FORTRAN'' (fst (ascent_shared spec)) = []"
  "entries_named ''ENABLE_FORTRAN'' (fst (ascent_conduit spec)) = []"
  "entries_named ''ENABLE_FORTRAN'' (fst (ascent_python spec py)) = []"
  "entries_named ''ENABLE_FORTRAN'' (fst (ascent_mpi self spec w)) = []"
  "entries_named ''ENABLE_FORTRAN'' (fst (ascent_cuda_openmp spec)) = []"
  "entries_named ''ENABLE_FORTRAN'' (fst (ascent_tpls spec)) = []"
  "entries_named ''ENABLE_FORTRAN'' (fst footer) = []"
  by (simp_all add: ascent_block_defs block_simps split: option.splits)

lemma ascent_fortran_compiler_blocks:
  "entries_named ''CMAKE_Fortran_COMPILER'' (fst (ascent_header spec st ce)) = []"
  "entries_named ''CMAKE_Fortran_COMPILER'' (fst (ascent_compilers spec cc cxx)) = []"
  "entries_named ''CMAKE_Fortran_COMPILER'' (fst (ascent_shared spec)) = []"
  "entries_named ''CMAKE_Fortran_COMPILER'' (fst (ascent_conduit spec)) = []"
  "entries_named ''CMAKE_Fortran_COMPILER'' (fst (ascent_python spec py)) = []"
  "entries_named ''CMAKE_Fortran_COMPILER'' (fst (ascent_mpi self spec w)) = []"
  "entries_named ''CMAKE_Fortran_COMPILER'' (fst (ascent_cuda_openmp spec)) = []"
  "entries_named ''CMAKE_Fortran_COMPILER'' (fst (ascent_tpls spec)) = []"
  "entries_named ''CMAKE_Fortran_COMPILER'' (fst footer) = []"
  by (simp_all add: ascent_block_defs block_simps split: option.splits)

lemma ascent_fortran_None:
  \<open>fst (ascent_fortran None) =
     [''# fortran compiler used by spack\<newline>'', ''# no fortran compiler found\<newline>\<newline>'',
      ''set(ENABLE_FORTRAN "OFF" CACHE PATH "")\<newline>\<newline>'']\<close>
  by (simp add: ascent_fortran_def ascent_cmake_cache_entry_def)

lemma ascent_fortran_None_entries:
  \<open>entries_named ''ENABLE_FORTRAN'' (fst (ascent_fortran None))
     = [''set(ENABLE_FORTRAN "OFF" CACHE PATH "")\<newline>\<newline>'']\<close>
  \<open>entries_named ''CMAKE_Fortran_COMPILER'' (fst (ascent_fortran None)) = []\<close>
  by (simp_all add: ascent_fortran_def block_simps) (simp add: ascent_cmake_cache_entry_def)

text \<open>The Fortran block is the only part of the text that depends on the compiler found.\<close>

lemma ascent_cfg_fortran_local:
  "fst (ascent_cfg self spec py w cc cxx fc st ce)
     = (fst (ascent_header spec st ce) @ fst (ascent_compilers spec cc cxx))
       @ fst (ascent_fortran fc)
       @ fst (seq [ascent_shared spec, ascent_conduit spec, ascent_python spec py,
                   ascent_mpi self spec w, ascent_cuda_openmp spec, ascent_tpls spec, footer])"
  "snd (ascent_cfg self spec py w cc cxx fc st ce)
     = snd (seq [ascent_shared spec, ascent_conduit spec, ascent_python spec py,
                   ascent_mpi self spec w, ascent_cuda_openmp spec, ascent_tpls spec, footer])"
  by (simp_all add: ascent_cfg_def)

text \<open>
  Claim C7. When the compiler has no \<^verbatim>\<open>fc\<close>, or \<^verbatim>\<open>SPACK_FC\<close> does not name a file,
  lines 197-202 of the ascent recipe raise nothing and leave \<^verbatim>\<open>f_compiler\<close> as \<^verbatim>\<open>None\<close>.
  A call that has all else it reads then returns, with \<^verbatim>\<open>ENABLE_FORTRAN\<close> written once, as
  \<^verbatim>\<open>OFF\<close>, and no \<^verbatim>\<open>CMAKE_Fortran_COMPILER\<close> entry. The rest of the file is unaffected: the
  text is \<open>A\<close>, then the Fortran block, then \<open>B\<close>, with the same \<open>A\<close> and \<open>B\<close> and the same
  exception, if any, whichever compiler was found.
\<close>

theorem ascent_no_fortran:
  assumes "\<not> fc_set self \<or> (\<exists>f. environ w ''SPACK_FC'' = Some f \<and> \<not> isfile w f)"
  shows \<open>ascent_f_compiler self w = Inr None
    \<and> (ascent_ready self spec w \<longrightarrow>
         (\<exists>p ws w' cc cxx ce w1.
            ascent_create_host_config self spec pfx py w = (Inr p, ws, w')
            \<and> files w' p = Some (concat ws)
            \<and> ws = fst (ascent_cfg self spec py w1 cc cxx None (get_sys_type spec w) ce)
            \<and> entries_named ''ENABLE_FORTRAN'' ws
                = [''set(ENABLE_FORTRAN "OFF" CACHE PATH "")\<newline>\<newline>'']
            \<and> entries_named ''CMAKE_Fortran_COMPILER'' ws = []))
    \<and> (\<exists>A B. \<forall>fc.
          fst (ascent_cfg self spec py u c_compiler cpp_compiler fc st cmake_exe)
            = A @ fst (ascent_fortran fc) @ B
          \<and> snd (ascent_cfg self spec py u c_compiler cpp_compiler fc st cmake_exe)
            = snd (ascent_cfg self spec py u c_compiler cpp_compiler None st cmake_exe))
    \<and> fst (ascent_fortran None) =
         [''# fortran compiler used by spack\<newline>'', ''# no fortran compiler found\<newline>\<newline>'',
          ''set(ENABLE_FORTRAN "OFF" CACHE PATH "")\<newline>\<newline>'']\<close>
proof -
  have f: "ascent_f_compiler self w = Inr None"
    using assms by (auto simp: ascent_f_compiler_def fc_set_def split: option.splits)
  have ret: \<open>\<exists>p ws w' cc cxx ce w1.
            ascent_create_host_config self spec pfx py w = (Inr p, ws, w')
            \<and> files w' p = Some (concat ws)
            \<and> ws = fst (ascent_cfg self spec py w1 cc cxx None (get_sys_type spec w) ce)
            \<and> entries_named ''ENABLE_FORTRAN'' ws
                = [''set(ENABLE_FORTRAN "OFF" CACHE PATH "")\<newline>\<newline>'']
            \<and> entries_named ''CMAKE_Fortran_COMPILER'' ws = []\<close>
    if "ascent_ready self spec w"
  proof -
    from ascent_ready_returns [OF that] obtain p ws w' where
      r: "ascent_create_host_config self spec pfx py w = (Inr p, ws, w')"
      by blast
    from ascent_returns [OF r] f obtain cc cxx ce w1 where
      ok: "snd (ascent_cfg self spec py w1 cc cxx None (get_sys_type spec w) ce) = None"
      and ws: "ws = fst (ascent_cfg self spec py w1 cc cxx None (get_sys_type spec w) ce)"
      by auto
    have \<open>entries_named ''ENABLE_FORTRAN'' ws
                = [''set(ENABLE_FORTRAN "OFF" CACHE PATH "")\<newline>\<newline>'']\<close>
      unfolding ws ascent_cfg_ok [OF ok]
      by (simp only: entries_named_append ascent_fortran_blocks ascent_fortran_None_entries
          append_Nil append_Nil2)
    moreover have "entries_named ''CMAKE_Fortran_COMPILER'' ws = []"
      unfolding ws ascent_cfg_ok [OF ok]
      by (simp only: entries_named_append ascent_fortran_compiler_blocks
          ascent_fortran_None_entries append_Nil append_Nil2)
    ultimately show ?thesis
      using r ws ascent_file_written [OF r] by blast
  qed
  have loc: "\<exists>A B. \<forall>fc.
          fst (ascent_cfg self spec py u c_compiler cpp_compiler fc st cmake_exe)
            = A @ fst (ascent_fortran fc) @ B
          \<and> snd (ascent_cfg self spec py u c_compiler cpp_compiler fc st cmake_exe)
            = snd (ascent_cfg self spec py u c_compiler cpp_compiler None st cmake_exe)"
    by (intro exI allI conjI) (rule ascent_cfg_fortran_local(1), simp only: ascent_cfg_fortran_local(2))
  from f ret loc ascent_fortran_None show ?thesis
    by blast
qed


text \<open>
  The example installation: \<^verbatim>\<open>SPACK_FC\<close> is \<^verbatim>\<open>/usr/bin/gfortran\<close>, which is not a file
  there. Then an installation where that file exists and the compiler has no \<^verbatim>\<open>fc\<close>.
\<close>

theorem ascent_no_fortran_witness:
  \<open>environ ex_world ''SPACK_FC'' = Some ''/usr/bin/gfortran''
   \<and> \<not> isfile ex_world ''/usr/bin/gfortran''
   \<and> ascent_ready (ex_pkg [''+mpi'']) (ex_spec [''+mpi'']) ex_world
   \<and> ascent_f_compiler (ex_pkg [''+mpi'']) ex_world = Inr None
   \<and> fst (ascent_create_host_config (ex_pkg [''+mpi'']) (ex_spec [''+mpi'']) ''/prefix'' None
          ex_world)
     = Inr ''/tmp/stage/node1-linux-x86_64-gcc@8.3.0-ascent.cmake''
   \<and> entries_named ''ENABLE_FORTRAN''
        (fst (snd (ascent_create_host_config (ex_pkg [''+mpi'']) (ex_spec [''+mpi''])
                     ''/prefix'' None ex_world)))
     = [''set(ENABLE_FORTRAN "OFF" CACHE PATH "")\<newline>\<newline>'']
   \<and> entries_named ''CMAKE_Fortran_COMPILER''
        (fst (snd (ascent_create_host_config (ex_pkg [''+mpi'']) (ex_spec [''+mpi''])
                     ''/prefix'' None ex_world)))
     = []
   \<and> \<not> fc_set ((ex_pkg [''+mpi''])\<lparr>compiler_fc := None\<rparr>)
   \<and> isfile (ex_world\<lparr>files := (files ex_world)(''/usr/bin/gfortran'' \<mapsto> ''ELF'')\<rparr>)
        ''/usr/bin/gfortran''
   \<and> ascent_ready ((ex_pkg [''+mpi''])\<lparr>compiler_fc := None\<rparr>) (ex_spec [''+mpi''])
        (ex_world\<lparr>files := (files ex_world)(''/usr/bin/gfortran'' \<mapsto> ''ELF'')\<rparr>)
   \<and> ascent_f_compiler ((ex_pkg [''+mpi''])\<lparr>compiler_fc := None\<rparr>)
        (ex_world\<lparr>files := (files ex_world)(''/usr/bin/gfortran'' \<mapsto> ''ELF'')\<rparr>) = Inr None
   \<and> entries_named ''ENABLE_FORTRAN''
        (fst (snd (ascent_create_host_config ((ex_pkg [''+mpi''])\<lparr>compiler_fc := None\<rparr>)
                     (ex_spec [''+mpi'']) ''/prefix'' None
                     (ex_world\<lparr>files := (files ex_world)(''/usr/bin/gfortran'' \<mapsto> ''ELF'')\<rparr>))))
     = [''set(ENABLE_FORTRAN "OFF" CACHE PATH "")\<newline>\<newline>'']\<close>
proof -
  let ?a = "ascent_create_host_config (ex_pkg [''+mpi'']) (ex_spec [''+mpi'']) ''/prefix'' None
              ex_world"
  let ?k = "(ex_pkg [''+mpi''])\<lparr>compiler_fc := None\<rparr>"
  let ?u = "ex_world\<lparr>files := (files ex_world)(''/usr/bin/gfortran'' \<mapsto> ''ELF'')\<rparr>"
  let ?b = "ascent_create_host_config ?k (ex_spec [''+mpi'']) ''/prefix'' None ?u"
  have e: "environ ex_world ''SPACK_FC'' = Some ''/usr/bin/gfortran''"
    by (simp add: ex_world_def)
  have n: "\<not> isfile ex_world ''/usr/bin/gfortran''"
    by code_simp
  have ra: "ascent_ready (ex_pkg [''+mpi'']) (ex_spec [''+mpi'']) ex_world"
    by (simp add: ex_ready)
  have pa: "fst ?a = Inr ''/tmp/stage/node1-linux-x86_64-gcc@8.3.0-ascent.cmake''"
    by code_simp
  from e n have h: "\<not> fc_set (ex_pkg [''+mpi''])
      \<or> (\<exists>f. environ ex_world ''SPACK_FC'' = Some f \<and> \<not> isfile ex_world f)"
    by blast
  note t = ascent_no_fortran [OF h, of "ex_spec [''+mpi'']" "''/prefix''" None]
  from t have f: "ascent_f_compiler (ex_pkg [''+mpi'']) ex_world = Inr None"
    by blast
  from t ra obtain p ws w' where
    a: "?a = (Inr p, ws, w')"
    and en: \<open>entries_named ''ENABLE_FORTRAN'' ws
              = [''set(ENABLE_FORTRAN "OFF" CACHE PATH "")\<newline>\<newline>'']\<close>
      "entries_named ''CMAKE_Fortran_COMPILER'' ws = []"
    by blast
  have nk: "\<not> fc_set ?k"
    by (simp add: fc_set_def)
  have iu: "isfile ?u ''/usr/bin/gfortran''"
    by code_simp
  have rk: "ascent_ready ?k (ex_spec [''+mpi'']) ?u"
    by (simp add: ascent_ready_def fc_set_def ex_pkg_def ex_spec_def ex_world_def)
  from nk have hk: "\<not> fc_set ?k \<or> (\<exists>f. environ ?u ''SPACK_FC'' = Some f \<and> \<not> isfile ?u f)"
    by blast
  note tk = ascent_no_fortran [OF hk, of "ex_spec [''+mpi'']" "''/prefix''" None]
  from tk have fk: "ascent_f_compiler ?k ?u = Inr None"
    by blast
  from tk rk obtain p2 ws2 w2 where
    b: "?b = (Inr p2, ws2, w2)"
    and en2: \<open>entries_named ''ENABLE_FORTRAN'' ws2
              = [''set(ENABLE_FORTRAN "OFF" CACHE PATH "")\<newline>\<newline>'']\<close>
    by blast
  from e n ra f pa en nk iu rk fk en2 show ?thesis
    unfolding a b by simp
qed


section \<open>The arguments of the configure step\<close>

text \<open>
  \<^verbatim>\<open>arg.count(sub) == 0\<close> says that \<open>sub\<close> does not occur in \<open>arg\<close>; the loops over
  \<^verbatim>\<open>std_cmake_args\<close> are filters.
\<close>

lemma str_count_zero_iff:
  assumes "sub \<noteq> []"
  shows "str_count s sub = 0 \<longleftrightarrow> \<not> sublist sub s"
  using assms
proof (induction s sub rule: str_count.induct)
  case (1 s sub)
  show ?case
  proof (cases s)
    case Nil
    with "1.prems" show ?thesis
      by (simp add: str_count.simps)
  next
    case (Cons y ys)
    show ?thesis
    proof (cases "prefix sub s")
      case True
      with "1.prems" Cons show ?thesis
        by (simp add: str_count.simps [of "y # ys" sub])
    next
      case False
      with "1.prems" Cons "1.IH"(2) have "str_count (tl s) sub = 0 \<longleftrightarrow> \<not> sublist sub ys"
        by simp
      with False "1.prems" Cons show ?thesis
        by (simp add: str_count.simps [of "y # ys" sub] sublist_Cons_right)
    qed
  qed
qed

lemma vtkh_filter_args_filter:
  "vtkh_filter_args spec acc args
     = acc @ filter (\<lambda>a. str_count a ''CMAKE_BUILD_TYPE'' = 0
                          \<and> (has spec ''+shared'' \<or> str_count a ''RPATH'' = 0)) args"
  by (induction args arbitrary: acc) auto

lemma ascent_filter_args_filter:
  "ascent_filter_args acc args = acc @ filter (\<lambda>a. str_count a ''RPATH'' = 0) args"
  by (induction args arbitrary: acc) auto

lemma vtkh_cmake_args_eq:
  "vtkh_cmake_args spec std f
     = filter (\<lambda>a. \<not> sublist ''CMAKE_BUILD_TYPE'' a
                    \<and> (has spec ''+shared'' \<or> \<not> sublist ''RPATH'' a)) std
       @ [''-DCMAKE_BUILD_TYPE=Release'', ''-C'', f, ''../src'']"
  by (simp add: vtkh_cmake_args_def vtkh_filter_args_filter str_count_zero_iff)

lemma ascent_cmake_args_eq:
  "ascent_cmake_args spec std f
     = (if has spec ''+shared'' then std else filter (\<lambda>a. \<not> sublist ''RPATH'' a) std)
       @ [''-C'', f, ''../src'']"
  by (simp add: ascent_cmake_args_def ascent_filter_args_filter str_count_zero_iff)

lemma run_cmd_trace: "trace (snd (run_cmd c w)) = trace w @ [c]"
  by (simp add: run_cmd_def Let_def)

lemma run_cmds_trace: "\<exists>ys. trace (snd (run_cmds cs w)) = trace w @ ys"
proof (induction cs arbitrary: w)
  case Nil
  show ?case by simp
next
  case (Cons c cs)
  obtain r w1 where rc: "run_cmd c w = (r, w1)"
    by (cases "run_cmd c w")
  with run_cmd_trace [of c w] have t: "trace w1 = trace w @ [c]"
    by simp
  from Cons [of w1] obtain ys where "trace (snd (run_cmds cs w1)) = trace w1 @ ys"
    by blast
  with rc t show ?case
    by (cases r) auto
qed

lemma run_cmds_first: "\<exists>rest. trace (snd (run_cmds (c # cs) w)) = trace w @ c # rest"
proof -
  obtain r w1 where rc: "run_cmd c w = (r, w1)"
    by (cases "run_cmd c w")
  with run_cmd_trace [of c w] have t: "trace w1 = trace w @ [c]"
    by simp
  from run_cmds_trace [of cs w1] obtain ys where "trace (snd (run_cmds cs w1)) = trace w1 @ ys"
    by blast
  with rc t show ?thesis
    by (cases r) auto
qed

lemma vtkh_trace_kept:
  assumes "vtkh_create_host_config self spec pfx w = (Inr p, ws, w')"
  shows "trace w' = trace w"
  using vtkh_returns [OF assms] by (auto simp: close_w_def open_w_def split: if_splits)

lemma ascent_trace_kept:
  assumes "ascent_create_host_config self spec pfx py w = (Inr p, ws, w')"
  shows "trace w' = trace w"
  using ascent_returns [OF assms] by (auto simp: close_w_def open_w_def split: if_splits)

lemma trace_enter_dir [simp]: "trace (enter_dir d w) = trace w"
  by (simp add: enter_dir_def)

lemma trace_restore_cwd:
  "trace (snd (case x of (r, w2) \<Rightarrow> (r, w2\<lparr>cwd := d\<rparr>))) = trace (snd x)"
  by (cases x) simp

text \<open>
  Claim C8 says that both install drivers pass Spack's standard arguments through
  unchanged for a shared build and suppress nothing but the \<^verbatim>\<open>RPATH\<close> arguments. The vtk-h
  driver also drops what mentions \<^verbatim>\<open>CMAKE_BUILD_TYPE\<close> and asks for a release build
  (lines 94-103): a shared build with \<^verbatim>\<open>-DCMAKE_BUILD_TYPE=RelWithDebInfo\<close> among the
  standard arguments is configured with \<^verbatim>\<open>-DCMAKE_BUILD_TYPE=Release\<close>.
\<close>

theorem install_passes_arguments_counterexample:
  "trace (snd (vtkh_install (ex_pkg [''+shared'']) (ex_spec [''+shared'']) ''/prefix''
                 [''-DCMAKE_INSTALL_PREFIX=/prefix'', ''-DCMAKE_BUILD_TYPE=RelWithDebInfo'']
                 ex_world))
     = [Cmake [''-DCMAKE_INSTALL_PREFIX=/prefix'', ''-DCMAKE_BUILD_TYPE=Release'', ''-C'',
               ''/tmp/stage/spack-build/node1-linux-x86_64-gcc@8.3.0-vtkh.cmake'', ''../src''],
        Make [], Make [''install''],
        InstallFile ''/tmp/stage/spack-build/node1-linux-x86_64-gcc@8.3.0-vtkh.cmake''
          ''/prefix'']"
  by code_simp


text \<open>
  Claim C8, amended. The first command of \<^verbatim>\<open>install\<close> is CMake. In the ascent recipe its
  arguments are the standard arguments, all of them for a shared build and those in which
  \<^verbatim>\<open>RPATH\<close> does not occur otherwise, followed by \<^verbatim>\<open>-C f ../src\<close>, where \<open>f\<close> is the file
  that \<^verbatim>\<open>create_host_config\<close> returned. In the vtk-h recipe they are the standard arguments
  in which \<^verbatim>\<open>CMAKE_BUILD_TYPE\<close> does not occur and, unless the build is shared, \<^verbatim>\<open>RPATH\<close>
  does not occur either, followed by \<^verbatim>\<open>-DCMAKE_BUILD_TYPE=Release -C f ../src\<close>. No other
  argument is dropped, and the order is kept. This holds whenever \<^verbatim>\<open>create_host_config\<close>
  returns in the build directory, and it does return there when it has all it reads
  (\<open>ascent_ready\<close>, \<open>vtkh_ready\<close>). The ascent driver reads \<^verbatim>\<open>site_packages_dir\<close> only for a
  spec with \<^verbatim>\<open>+python\<close> (lines 149-151), so the name has to be bound only then: \<open>sp\<close> is
  \<open>None\<close> when it is unbound.
\<close>

theorem install_cmake_arguments:
  "(ascent_ready self spec (enter_dir ''spack-build'' w)
      \<and> (has spec ''+python'' \<longrightarrow> sp \<noteq> None) \<longrightarrow>
      (\<exists>f ws w1 rest.
         ascent_create_host_config self spec pfx (if has spec ''+python'' then sp else None)
           (enter_dir ''spack-build'' w) = (Inr f, ws, w1)
         \<and> trace (snd (ascent_install self spec pfx std sp w))
           = trace w @ Cmake ((if has spec ''+shared'' then std
                               else filter (\<lambda>a. \<not> sublist ''RPATH'' a) std)
                              @ [''-C'', f, ''../src'']) # rest))
   \<and> (ascent_create_host_config self spec pfx (if has spec ''+python'' then sp else None)
        (enter_dir ''spack-build'' w) = (Inr f, ws, w1)
      \<and> (has spec ''+python'' \<longrightarrow> sp \<noteq> None) \<longrightarrow>
      (\<exists>rest. trace (snd (ascent_install self spec pfx std sp w))
         = trace w @ Cmake ((if has spec ''+shared'' then std
                             else filter (\<lambda>a. \<not> sublist ''RPATH'' a) std)
                            @ [''-C'', f, ''../src'']) # rest))
   \<and> (vtkh_ready self spec (enter_dir ''spack-build'' w) \<longrightarrow>
      (\<exists>f ws w1 rest.
         vtkh_create_host_config self spec pfx (enter_dir ''spack-build'' w) = (Inr f, ws, w1)
         \<and> trace (snd (vtkh_install self spec pfx std w))
           = trace w @ Cmake (filter (\<lambda>a. \<not> sublist ''CMAKE_BUILD_TYPE'' a
                                          \<and> (has spec ''+shared'' \<or> \<not> sublist ''RPATH'' a)) std
                              @ [''-DCMAKE_BUILD_TYPE=Release'', ''-C'', f, ''../src'']) # rest))
   \<and> (vtkh_create_host_config self spec pfx (enter_dir ''spack-build'' w) = (Inr f2, ws2, w2) \<longrightarrow>
      (\<exists>rest. trace (snd (vtkh_install self spec pfx std w))
         = trace w @ Cmake (filter (\<lambda>a. \<not> sublist ''CMAKE_BUILD_TYPE'' a
                                        \<and> (has spec ''+shared'' \<or> \<not> sublist ''RPATH'' a)) std
                            @ [''-DCMAKE_BUILD_TYPE=Release'', ''-C'', f2, ''../src'']) # rest))"
proof -
  have A: "\<exists>rest. trace (snd (ascent_install self spec pfx std sp w))
         = trace w @ Cmake ((if has spec ''+shared'' then std
                             else filter (\<lambda>a. \<not> sublist ''RPATH'' a) std)
                            @ [''-C'', g, ''../src'']) # rest"
    if r: "ascent_create_host_config self spec pfx (if has spec ''+python'' then sp else None)
        (enter_dir ''spack-build'' w) = (Inr g, xs, u)"
      and b: "has spec ''+python'' \<longrightarrow> sp \<noteq> None"
    for g xs u
  proof -
    from ascent_trace_kept [OF r] have t: "trace u = trace w"
      by simp
    from run_cmds_first [of "Cmake (ascent_cmake_args spec std g)"
        "[Make [], Make [''install''], InstallFile g pfx]" u]
    obtain rest where "trace (snd (run_cmds [Cmake (ascent_cmake_args spec std g), Make [],
        Make [''install''], InstallFile g pfx] u)) = trace u @ Cmake (ascent_cmake_args spec std g) # rest"
      by blast
    with r t b show ?thesis
      by (simp add: ascent_install_def trace_restore_cwd ascent_cmake_args_eq [symmetric]
          del: run_cmds.simps)
  qed
  have V: "\<exists>rest. trace (snd (vtkh_install self spec pfx std w))
         = trace w @ Cmake (filter (\<lambda>a. \<not> sublist ''CMAKE_BUILD_TYPE'' a
                                        \<and> (has spec ''+shared'' \<or> \<not> sublist ''RPATH'' a)) std
                            @ [''-DCMAKE_BUILD_TYPE=Release'', ''-C'', g, ''../src'']) # rest"
    if r: "vtkh_create_host_config self spec pfx (enter_dir ''spack-build'' w) = (Inr g, xs, u)"
    for g xs u
  proof -
    from vtkh_trace_kept [OF r] have t: "trace u = trace w"
      by simp
    from run_cmds_first [of "Cmake (vtkh_cmake_args spec std g)"
        "[Make [], Make [''install''], InstallFile g pfx]" u]
    obtain rest where "trace (snd (run_cmds [Cmake (vtkh_cmake_args spec std g), Make [],
        Make [''install''], InstallFile g pfx] u)) = trace u @ Cmake (vtkh_cmake_args spec std g) # rest"
      by blast
    with r t show ?thesis
      by (simp add: vtkh_install_def trace_restore_cwd vtkh_cmake_args_eq [symmetric]
          del: run_cmds.simps)
  qed
  show ?thesis
  proof (intro conjI impI)
    assume h: "ascent_ready self spec (enter_dir ''spack-build'' w)
      \<and> (has spec ''+python'' \<longrightarrow> sp \<noteq> None)"
    then obtain g xs u where
      r: "ascent_create_host_config self spec pfx (if has spec ''+python'' then sp else None)
        (enter_dir ''spack-build'' w) = (Inr g, xs, u)"
      using ascent_ready_returns by blast
    from A [OF r] h r show "\<exists>f ws w1 rest.
         ascent_create_host_config self spec pfx (if has spec ''+python'' then sp else None)
           (enter_dir ''spack-build'' w) = (Inr f, ws, w1)
         \<and> trace (snd (ascent_install self spec pfx std sp w))
           = trace w @ Cmake ((if has spec ''+shared'' then std
                               else filter (\<lambda>a. \<not> sublist ''RPATH'' a) std)
                              @ [''-C'', f, ''../src'']) # rest"
      by blast
  next
    assume "ascent_create_host_config self spec pfx (if has spec ''+python'' then sp else None)
        (enter_dir ''spack-build'' w) = (Inr f, ws, w1)
      \<and> (has spec ''+python'' \<longrightarrow> sp \<noteq> None)"
    then show "\<exists>rest. trace (snd (ascent_install self spec pfx std sp w))
         = trace w @ Cmake ((if has spec ''+shared'' then std
                             else filter (\<lambda>a. \<not> sublist ''RPATH'' a) std)
                            @ [''-C'', f, ''../src'']) # rest"
      using A by blast
  next
    assume "vtkh_ready self spec (enter_dir ''spack-build'' w)"
    then obtain g xs u where
      r: "vtkh_create_host_config self spec pfx (enter_dir ''spack-build'' w) = (Inr g, xs, u)"
      using vtkh_ready_returns by blast
    from V [OF r] r show "\<exists>f ws w1 rest.
         vtkh_create_host_config self spec pfx (enter_dir ''spack-build'' w) = (Inr f, ws, w1)
         \<and> trace (snd (vtkh_install self spec pfx std w))
           = trace w @ Cmake (filter (\<lambda>a. \<not> sublist ''CMAKE_BUILD_TYPE'' a
                                          \<and> (has spec ''+shared'' \<or> \<not> sublist ''RPATH'' a)) std
                              @ [''-DCMAKE_BUILD_TYPE=Release'', ''-C'', f, ''../src'']) # rest"
      by blast
  next
    assume "vtkh_create_host_config self spec pfx (enter_dir ''spack-build'' w) = (Inr f2, ws2, w2)"
    then show "\<exists>rest. trace (snd (vtkh_install self spec pfx std w))
         = trace w @ Cmake (filter (\<lambda>a. \<not> sublist ''CMAKE_BUILD_TYPE'' a
                                        \<and> (has spec ''+shared'' \<or> \<not> sublist ''RPATH'' a)) std
                            @ [''-DCMAKE_BUILD_TYPE=Release'', ''-C'', f2, ''../src'']) # rest"
      by (rule V)
  qed
qed

text \<open>
  A static build of both recipes on the example installation, without \<^verbatim>\<open>+python\<close> and
  with \<^verbatim>\<open>site_packages_dir\<close> unbound.
\<close>

theorem install_cmake_arguments_witness:
  "ascent_ready (ex_pkg []) (ex_spec []) (enter_dir ''spack-build'' ex_world)
   \<and> \<not> has (ex_spec []) ''+python''
   \<and> fst (ascent_create_host_config (ex_pkg []) (ex_spec []) ''/prefix'' None
          (enter_dir ''spack-build'' ex_world))
     = Inr ''/tmp/stage/spack-build/node1-linux-x86_64-gcc@8.3.0-ascent.cmake''
   \<and> (\<exists>rest. trace (snd (ascent_install (ex_pkg []) (ex_spec []) ''/prefix''
                   [''-DCMAKE_INSTALL_PREFIX=/prefix'', ''-DCMAKE_INSTALL_RPATH=/prefix/lib'',
                    ''-DCMAKE_BUILD_TYPE=RelWithDebInfo'']
                   None ex_world))
        = Cmake [''-DCMAKE_INSTALL_PREFIX=/prefix'', ''-DCMAKE_BUILD_TYPE=RelWithDebInfo'',
                 ''-C'', ''/tmp/stage/spack-build/node1-linux-x86_64-gcc@8.3.0-ascent.cmake'',
                 ''../src''] # rest)
   \<and> vtkh_ready (ex_pkg []) (ex_spec []) (enter_dir ''spack-build'' ex_world)
   \<and> fst (vtkh_create_host_config (ex_pkg []) (ex_spec []) ''/prefix''
          (enter_dir ''spack-build'' ex_world))
     = Inr ''/tmp/stage/spack-build/node1-linux-x86_64-gcc@8.3.0-vtkh.cmake''
   \<and> (\<exists>rest. trace (snd (vtkh_install (ex_pkg []) (ex_spec []) ''/prefix''
                   [''-DCMAKE_INSTALL_PREFIX=/prefix'', ''-DCMAKE_INSTALL_RPATH=/prefix/lib'',
                    ''-DCMAKE_BUILD_TYPE=RelWithDebInfo'']
                   ex_world))
        = Cmake [''-DCMAKE_INSTALL_PREFIX=/prefix'', ''-DCMAKE_BUILD_TYPE=Release'',
                 ''-C'', ''/tmp/stage/spack-build/node1-linux-x86_64-gcc@8.3.0-vtkh.cmake'',
                 ''../src''] # rest)"
proof -
  let ?std = "[''-DCMAKE_INSTALL_PREFIX=/prefix'', ''-DCMAKE_INSTALL_RPATH=/prefix/lib'',
               ''-DCMAKE_BUILD_TYPE=RelWithDebInfo'']"
  let ?w = "enter_dir ''spack-build'' ex_world"
  let ?a = "ascent_create_host_config (ex_pkg []) (ex_spec []) ''/prefix'' None ?w"
  let ?v = "vtkh_create_host_config (ex_pkg []) (ex_spec []) ''/prefix'' ?w"
  let ?pa = "''/tmp/stage/spack-build/node1-linux-x86_64-gcc@8.3.0-ascent.cmake''"
  let ?pv = "''/tmp/stage/spack-build/node1-linux-x86_64-gcc@8.3.0-vtkh.cmake''"
  have ya: "ascent_ready (ex_pkg []) (ex_spec []) ?w"
    and yv: "vtkh_ready (ex_pkg []) (ex_spec []) ?w"
    by (simp_all add: ex_ready_build)
  have a: "fst ?a = Inr ?pa"
    by code_simp
  have v: "fst ?v = Inr ?pv"
    by code_simp
  have hp: "\<not> has (ex_spec []) ''+python''"
    and hs: "\<not> has (ex_spec []) ''+shared''"
    by (simp_all add: ex_spec_def)
  have hp': "(if has (ex_spec []) ''+python'' then None else None) = (None :: string option)"
    by simp
  have fa: "filter (\<lambda>a. \<not> sublist ''RPATH'' a) ?std
              = [''-DCMAKE_INSTALL_PREFIX=/prefix'', ''-DCMAKE_BUILD_TYPE=RelWithDebInfo'']"
    by code_simp
  have fv: "filter (\<lambda>a. \<not> sublist ''CMAKE_BUILD_TYPE'' a \<and> \<not> sublist ''RPATH'' a) ?std
              = [''-DCMAKE_INSTALL_PREFIX=/prefix'']"
    by code_simp
  have tr: "trace ex_world = []"
    by (simp add: ex_world_def)
  note t = install_cmake_arguments [where self = "ex_pkg []" and spec = "ex_spec []"
      and pfx = "''/prefix''" and sp = None and w = ex_world and std = ?std, unfolded hp']
  from t ya hp obtain f ws w1 rest where
    ar: "?a = (Inr f, ws, w1)"
    and at: "trace (snd (ascent_install (ex_pkg []) (ex_spec []) ''/prefix'' ?std None ex_world))
      = trace ex_world @ Cmake ((if has (ex_spec []) ''+shared'' then ?std
                             else filter (\<lambda>a. \<not> sublist ''RPATH'' a) ?std)
                            @ [''-C'', f, ''../src'']) # rest"
    by blast
  from ar a have f: "f = ?pa" by simp
  from at have ra: "\<exists>rest. trace (snd (ascent_install (ex_pkg []) (ex_spec []) ''/prefix'' ?std
                     None ex_world))
      = Cmake [''-DCMAKE_INSTALL_PREFIX=/prefix'', ''-DCMAKE_BUILD_TYPE=RelWithDebInfo'',
               ''-C'', ?pa, ''../src''] # rest"
    unfolding tr fa f by (simp add: hs)
  from t yv obtain f2 ws2 w2 rest2 where
    vr: "?v = (Inr f2, ws2, w2)"
    and vt: "trace (snd (vtkh_install (ex_pkg []) (ex_spec []) ''/prefix'' ?std ex_world))
      = trace ex_world @ Cmake (filter (\<lambda>a. \<not> sublist ''CMAKE_BUILD_TYPE'' a
                                        \<and> (has (ex_spec []) ''+shared'' \<or> \<not> sublist ''RPATH'' a)) ?std
                            @ [''-DCMAKE_BUILD_TYPE=Release'', ''-C'', f2, ''../src'']) # rest2"
    by blast
  from vr v have f2: "f2 = ?pv" by simp
  from vt have rv: "\<exists>rest. trace (snd (vtkh_install (ex_pkg []) (ex_spec []) ''/prefix'' ?std
                     ex_world))
      = Cmake [''-DCMAKE_INSTALL_PREFIX=/prefix'', ''-DCMAKE_BUILD_TYPE=Release'',
               ''-C'', ?pv, ''../src''] # rest"
    unfolding tr f2 by (simp only: hs fv simp_thms append_Nil append_Cons) blast
  from ya hp a ra yv v rv show ?thesis
    by (intro conjI)
qed


section \<open>\<^verbatim>\<open>cmake_install\<close> of babelflow and pmt\<close>

text \<open>
  Claim C3. In a module whose global names do not include \<^verbatim>\<open>cmake_args\<close>, calling
  \<^verbatim>\<open>cmake_install\<close> of the babelflow or pmt recipe raises \<^verbatim>\<open>NameError\<close> for that name,
  for every spec and prefix, whichever branch of the shared flag is taken. Nothing has
  been run by then: the world, and with it the trace of external commands, is as before,
  so neither \<^verbatim>\<open>make()\<close> nor \<^verbatim>\<open>make('install')\<close> is reached.
\<close>

theorem cmake_install_raises_name_error:
  assumes "globals ''cmake_args'' = None"
  shows "babelflow_cmake_install globals spec pfx w = (Some (NameError ''cmake_args''), globals, w)
    \<and> trace (snd (snd (babelflow_cmake_install globals spec pfx w))) = trace w
    \<and> pmt_cmake_install globals spec pfx w = (Some (NameError ''cmake_args''), globals, w)
    \<and> trace (snd (snd (pmt_cmake_install globals spec pfx w))) = trace w"
  using assms
  by (simp add: babelflow_cmake_install_def pmt_cmake_install_def append_global_def)

text \<open>A module that has \<^verbatim>\<open>std_cmake_args\<close> but no \<^verbatim>\<open>cmake_args\<close>.\<close>

theorem cmake_install_raises_name_error_witness:
  "[''std_cmake_args'' \<mapsto> [''-DCMAKE_INSTALL_PREFIX=/prefix'']] ''cmake_args'' = None
   \<and> babelflow_cmake_install [''std_cmake_args'' \<mapsto> [''-DCMAKE_INSTALL_PREFIX=/prefix'']]
        (ex_spec [''+shared'']) ''/prefix'' ex_world
     = (Some (NameError ''cmake_args''),
        [''std_cmake_args'' \<mapsto> [''-DCMAKE_INSTALL_PREFIX=/prefix'']], ex_world)
   \<and> pmt_cmake_install [''std_cmake_args'' \<mapsto> [''-DCMAKE_INSTALL_PREFIX=/prefix'']]
        (ex_spec []) ''/prefix'' ex_world
     = (Some (NameError ''cmake_args''),
        [''std_cmake_args'' \<mapsto> [''-DCMAKE_INSTALL_PREFIX=/prefix'']], ex_world)"
proof -
  have h: "[''std_cmake_args'' \<mapsto> [''-DCMAKE_INSTALL_PREFIX=/prefix'']] ''cmake_args'' = None"
    by simp
  note t = cmake_install_raises_name_error
  from t [of "[''std_cmake_args'' \<mapsto> [''-DCMAKE_INSTALL_PREFIX=/prefix'']]"
        "ex_spec [''+shared'']" "''/prefix''" ex_world, OF h]
    t [of "[''std_cmake_args'' \<mapsto> [''-DCMAKE_INSTALL_PREFIX=/prefix'']]"
        "ex_spec []" "''/prefix''" ex_world, OF h] h
  show ?thesis by blast
qed

section \<open>Two runs of the emitter\<close>

lemma abspath_files_upd [simp]: "abspath (w\<lparr>files := f\<rparr>) q = abspath w q"
  by (simp add: abspath_def)

lemma isfile_cong:
  assumes "cwd w2 = cwd w1" and "locate w2 = locate w1" and "dom (files w2) = dom (files w1)"
  shows "isfile w2 q = isfile w1 q"
proof -
  from assms(3) have "(files w2 k = None) = (files w1 k = None)" for k
    by (auto simp: domIff [symmetric] simp del: domIff)
  with assms(1,2) show ?thesis
    by (simp add: isfile_def split: option.splits)
qed

lemma vtkh_cfg_cong:
  assumes "\<And>q. isfile w2 q = isfile w1 q"
  shows "vtkh_cfg self spec w2 cc cxx st ce = vtkh_cfg self spec w1 cc cxx st ce"
  by (simp add: vtkh_cfg_def vtkh_mpi_def assms)

lemma ascent_cfg_cong:
  assumes "\<And>q. isfile w2 q = isfile w1 q"
  shows "ascent_cfg self spec py w2 cc cxx fc st ce = ascent_cfg self spec py w1 cc cxx fc st ce"
  by (simp add: ascent_cfg_def ascent_mpi_def assms)

lemma vtkh_deterministic:
  assumes "same_inputs w1 w2"
  shows "fst (vtkh_create_host_config self spec pfx2 w2)
           = fst (vtkh_create_host_config self spec pfx1 w1)"
    and "fst (snd (vtkh_create_host_config self spec pfx2 w2))
           = fst (snd (vtkh_create_host_config self spec pfx1 w1))"
    and "fst (vtkh_create_host_config self spec pfx1 w1) = Inr p \<Longrightarrow>
           files (snd (snd (vtkh_create_host_config self spec pfx2 w2))) p
             = files (snd (snd (vtkh_create_host_config self spec pfx1 w1))) p"
proof -
  from assms have e: "environ w2 = environ w1" "hostname w2 = hostname w1" "cwd w2 = cwd w1"
    "creatable w2 = creatable w1" and l: "locate w2 = locate w1"
    and d: "dom (files w2) = dom (files w1)"
    by (simp_all add: same_inputs_def)
  have n: "vtkh_host_cfg_fname spec w2 = vtkh_host_cfg_fname spec w1"
    and st: "get_sys_type spec w2 = get_sys_type spec w1"
    by (simp_all add: vtkh_host_cfg_fname_def get_sys_type_def e)
  have ab: "abspath w2 q = abspath w1 q" for q
    by (simp add: abspath_def e)
  let ?k = "abspath w1 (vtkh_host_cfg_fname spec w1)"
  have c: "vtkh_cfg self spec (w2\<lparr>files := (files w2)(?k \<mapsto> [])\<rparr>) cc cxx st' ce
         = vtkh_cfg self spec (w1\<lparr>files := (files w1)(?k \<mapsto> [])\<rparr>) cc cxx st' ce"
    for cc cxx st' ce
    by (rule vtkh_cfg_cong, rule isfile_cong) (simp_all add: e l d)
  show "fst (vtkh_create_host_config self spec pfx2 w2)
           = fst (vtkh_create_host_config self spec pfx1 w1)"
    by (simp add: vtkh_create_host_config_def e n st ab c open_w_def close_w_def Let_def
        split: option.splits)
  show "fst (snd (vtkh_create_host_config self spec pfx2 w2))
           = fst (snd (vtkh_create_host_config self spec pfx1 w1))"
    by (simp add: vtkh_create_host_config_def e n st ab c open_w_def close_w_def Let_def
        split: option.splits)
  show "files (snd (snd (vtkh_create_host_config self spec pfx2 w2))) p
             = files (snd (snd (vtkh_create_host_config self spec pfx1 w1))) p"
    if "fst (vtkh_create_host_config self spec pfx1 w1) = Inr p"
    using that
    by (simp add: vtkh_create_host_config_def e n st ab c open_w_def close_w_def Let_def
        split: option.splits if_splits)
qed


lemma ascent_deterministic:
  assumes "same_inputs w1 w2"
  shows "fst (ascent_create_host_config self spec pfx2 py w2)
           = fst (ascent_create_host_config self spec pfx1 py w1)"
    and "fst (snd (ascent_create_host_config self spec pfx2 py w2))
           = fst (snd (ascent_create_host_config self spec pfx1 py w1))"
    and "fst (ascent_create_host_config self spec pfx1 py w1) = Inr p \<Longrightarrow>
           files (snd (snd (ascent_create_host_config self spec pfx2 py w2))) p
             = files (snd (snd (ascent_create_host_config self spec pfx1 py w1))) p"
proof -
  from assms have e: "environ w2 = environ w1" "hostname w2 = hostname w1" "cwd w2 = cwd w1"
    "creatable w2 = creatable w1" "which w2 = which w1" and l: "locate w2 = locate w1"
    and d: "dom (files w2) = dom (files w1)"
    by (simp_all add: same_inputs_def)
  have n: "ascent_host_cfg_fname spec w2 = ascent_host_cfg_fname spec w1"
    and st: "get_sys_type spec w2 = get_sys_type spec w1"
    by (simp_all add: ascent_host_cfg_fname_def get_sys_type_def e)
  have ab: "abspath w2 q = abspath w1 q" for q
    by (simp add: abspath_def e)
  have f: "ascent_f_compiler self w2 = ascent_f_compiler self w1"
    by (simp add: ascent_f_compiler_def e isfile_cong [OF e(3) l d] split: option.splits)
  have m: "ascent_cmake_exe spec w2 = ascent_cmake_exe spec w1"
    by (simp add: ascent_cmake_exe_def e)
  let ?k = "abspath w1 (ascent_host_cfg_fname spec w1)"
  have c: "ascent_cfg self spec py (w2\<lparr>files := (files w2)(?k \<mapsto> [])\<rparr>) cc cxx fc st' ce
         = ascent_cfg self spec py (w1\<lparr>files := (files w1)(?k \<mapsto> [])\<rparr>) cc cxx fc st' ce"
    for cc cxx fc st' ce
    by (rule ascent_cfg_cong, rule isfile_cong) (simp_all add: e l d)
  show r1: "fst (ascent_create_host_config self spec pfx2 py w2)
           = fst (ascent_create_host_config self spec pfx1 py w1)"
    by (simp add: ascent_create_host_config_def e n st ab c f m open_w_def close_w_def Let_def
        split: option.splits sum.splits)
  show r2: "fst (snd (ascent_create_host_config self spec pfx2 py w2))
           = fst (snd (ascent_create_host_config self spec pfx1 py w1))"
    by (simp add: ascent_create_host_config_def e n st ab c f m open_w_def close_w_def Let_def
        split: option.splits sum.splits)
  show "files (snd (snd (ascent_create_host_config self spec pfx2 py w2))) p
             = files (snd (snd (ascent_create_host_config self spec pfx1 py w1))) p"
    if p: "fst (ascent_create_host_config self spec pfx1 py w1) = Inr p"
  proof -
    let ?a1 = "ascent_create_host_config self spec pfx1 py w1"
    let ?a2 = "ascent_create_host_config self spec pfx2 py w2"
    from p have "?a1 = (Inr p, fst (snd ?a1), snd (snd ?a1))"
      by (simp add: prod_eq_iff)
    then have f1: "files (snd (snd ?a1)) p = Some (concat (fst (snd ?a1)))"
      by (rule ascent_file_written)
    from p r1 have "?a2 = (Inr p, fst (snd ?a2), snd (snd ?a2))"
      by (simp add: prod_eq_iff)
    then have "files (snd (snd ?a2)) p = Some (concat (fst (snd ?a2)))"
      by (rule ascent_file_written)
    with f1 r2 show ?thesis
      by simp
  qed
qed

text \<open>A second call, in the world the first one left.\<close>

lemma vtkh_rerun:
  assumes "vtkh_create_host_config self spec pfx w = (Inr p, ws, w')"
  shows "vtkh_create_host_config self spec pfx w' = (Inr p, ws, w')"
proof -
  from vtkh_returns [OF assms] obtain cc cxx and cm :: dep and w1 where
    e: "environ w ''SPACK_CC'' = Some cc" "environ w ''SPACK_CXX'' = Some cxx"
      "deps spec ''cmake'' = Some cm"
    and o: "open_w w (vtkh_host_cfg_fname spec w) = Inr w1"
    and ok: "snd (vtkh_cfg self spec w1 cc cxx (get_sys_type spec w) (command_path cm)) = None"
    and ws: "ws = fst (vtkh_cfg self spec w1 cc cxx (get_sys_type spec w) (command_path cm))"
    and p: "p = abspath w (vtkh_host_cfg_fname spec w)"
    and w': "w' = close_w w1 (vtkh_host_cfg_fname spec w) (concat ws)"
    by blast
  from o have cr: "creatable w (abspath w (vtkh_host_cfg_fname spec w))"
    and w1: "w1 = w\<lparr>files := (files w)(abspath w (vtkh_host_cfg_fname spec w) \<mapsto> [])\<rparr>"
    by (auto simp: open_w_def split: if_splits)
  have w'': "w' = w\<lparr>files := (files w)(abspath w (vtkh_host_cfg_fname spec w) \<mapsto> concat ws)\<rparr>"
    by (simp add: w' w1 close_w_def)
  have n: "vtkh_host_cfg_fname spec w' = vtkh_host_cfg_fname spec w"
    and st: "get_sys_type spec w' = get_sys_type spec w"
    by (simp_all add: w'' vtkh_host_cfg_fname_def get_sys_type_def)
  have o': "open_w w' (vtkh_host_cfg_fname spec w) = Inr w1"
    by (simp add: open_w_def w'' w1 cr)
  have env: "environ w' = environ w" and ab: "abspath w' = abspath w"
    by (simp_all add: w'' fun_eq_iff)
  show ?thesis
    unfolding vtkh_create_host_config_def env n st
    by (simp add: e o' ok Let_def ws [symmetric] w' [symmetric] p ab)
qed

lemma ascent_rerun:
  assumes "ascent_create_host_config self spec pfx py w = (Inr p, ws, w')"
    and "ascent_f_compiler self w' = ascent_f_compiler self w"
  shows "ascent_create_host_config self spec pfx py w' = (Inr p, ws, w')"
proof -
  from ascent_returns [OF assms(1)] obtain cc cxx fc ce w1 where
    e: "environ w ''SPACK_CC'' = Some cc" "environ w ''SPACK_CXX'' = Some cxx"
      "ascent_f_compiler self w = Inr fc" "ascent_cmake_exe spec w = Inr ce"
    and o: "open_w w (ascent_host_cfg_fname spec w) = Inr w1"
    and ok: "snd (ascent_cfg self spec py w1 cc cxx fc (get_sys_type spec w) ce) = None"
    and ws: "ws = fst (ascent_cfg self spec py w1 cc cxx fc (get_sys_type spec w) ce)"
    and p: "p = abspath w (ascent_host_cfg_fname spec w)"
    and w': "w' = close_w w1 (ascent_host_cfg_fname spec w) (concat ws)"
    by blast
  from o have cr: "creatable w (abspath w (ascent_host_cfg_fname spec w))"
    and w1: "w1 = w\<lparr>files := (files w)(abspath w (ascent_host_cfg_fname spec w) \<mapsto> [])\<rparr>"
    by (auto simp: open_w_def split: if_splits)
  have w'': "w' = w\<lparr>files := (files w)(abspath w (ascent_host_cfg_fname spec w) \<mapsto> concat ws)\<rparr>"
    by (simp add: w' w1 close_w_def)
  have n: "ascent_host_cfg_fname spec w' = ascent_host_cfg_fname spec w"
    and st: "get_sys_type spec w' = get_sys_type spec w"
    by (simp_all add: w'' ascent_host_cfg_fname_def get_sys_type_def)
  have o': "open_w w' (ascent_host_cfg_fname spec w) = Inr w1"
    by (simp add: open_w_def w'' w1 cr)
  have env: "environ w' = environ w" and ab: "abspath w' = abspath w"
    by (simp_all add: w'' fun_eq_iff)
  have "ascent_cmake_exe spec w' = ascent_cmake_exe spec w"
    by (simp add: ascent_cmake_exe_def w'')
  with e(4) have m: "ascent_cmake_exe spec w' = Inr ce"
    by simp
  show ?thesis
    unfolding ascent_create_host_config_def env n st assms(2)
    by (simp add: e m o' ok Let_def ws [symmetric] w' [symmetric] p ab)
qed

text \<open>
  The first call changes one file, the one it writes. The Fortran compiler of the ascent
  recipe is looked up before that file is opened (lines 197-202 against line 232), so a
  second call finds the same compiler when \<^verbatim>\<open>SPACK_FC\<close> does not name that file.
\<close>

lemma ascent_fc_kept:
  assumes r: "ascent_create_host_config self spec pfx py w = (Inr p, ws, w')"
    and c: "case environ w ''SPACK_FC'' of None \<Rightarrow> True
            | Some f \<Rightarrow> locate w (cwd w) f \<noteq> Some (abspath w (ascent_host_cfg_fname spec w))"
  shows "ascent_f_compiler self w' = ascent_f_compiler self w"
proof -
  from ascent_returns [OF r] obtain cc cxx fc ce w1 where
    o: "open_w w (ascent_host_cfg_fname spec w) = Inr w1"
    and w': "w' = close_w w1 (ascent_host_cfg_fname spec w) (concat ws)"
    by blast
  from o have w1: "w1 = w\<lparr>files := (files w)(abspath w (ascent_host_cfg_fname spec w) \<mapsto> [])\<rparr>"
    by (auto simp: open_w_def split: if_splits)
  have w'': "w' = w\<lparr>files := (files w)(abspath w (ascent_host_cfg_fname spec w) \<mapsto> concat ws)\<rparr>"
    by (simp add: w' w1 close_w_def)
  have "isfile w' f = isfile w f" if "environ w ''SPACK_FC'' = Some f" for f
    using c that by (auto simp: isfile_def w'' split: option.splits)
  then show ?thesis
    by (simp add: ascent_f_compiler_def w'' split: option.splits)
qed

text \<open>
  Claim C10 says that, for a fixed specification, environment and prefix, two runs of
  \<^verbatim>\<open>create_host_config\<close> leave byte-identical files. The ascent recipe tests
  \<^verbatim>\<open>os.path.isfile(env["SPACK_FC"])\<close> before it creates the file, and the first run changes
  the file system by creating it. On the example installation with \<^verbatim>\<open>SPACK_FC\<close> naming the
  host-config file itself, the first run of a static build finds no file there and writes
  \<^verbatim>\<open>ENABLE_FORTRAN\<close> as \<^verbatim>\<open>OFF\<close>; the second run, with the same package, spec, prefix and
  environment, finds the file the first run left, writes \<^verbatim>\<open>ENABLE_FORTRAN\<close> as \<^verbatim>\<open>ON\<close>, and
  leaves another text in the file.
\<close>

theorem host_config_rerun_counterexample:
  \<open>fst (ascent_create_host_config (ex_pkg []) (ex_spec []) ''/prefix'' None
          (ex_world\<lparr>environ := (environ ex_world)
             (''SPACK_FC'' \<mapsto> ''/tmp/stage/node1-linux-x86_64-gcc@8.3.0-ascent.cmake'')\<rparr>))
     = Inr ''/tmp/stage/node1-linux-x86_64-gcc@8.3.0-ascent.cmake''
   \<and> entries_named ''ENABLE_FORTRAN''
        (fst (snd (ascent_create_host_config (ex_pkg []) (ex_spec []) ''/prefix'' None
          (ex_world\<lparr>environ := (environ ex_world)
             (''SPACK_FC'' \<mapsto> ''/tmp/stage/node1-linux-x86_64-gcc@8.3.0-ascent.cmake'')\<rparr>))))
     = [''set(ENABLE_FORTRAN "OFF" CACHE PATH "")\<newline>\<newline>'']
   \<and> fst (ascent_create_host_config (ex_pkg []) (ex_spec []) ''/prefix'' None
        (snd (snd (ascent_create_host_config (ex_pkg []) (ex_spec []) ''/prefix'' None
          (ex_world\<lparr>environ := (environ ex_world)
             (''SPACK_FC'' \<mapsto> ''/tmp/stage/node1-linux-x86_64-gcc@8.3.0-ascent.cmake'')\<rparr>)))))
     = Inr ''/tmp/stage/node1-linux-x86_64-gcc@8.3.0-ascent.cmake''
   \<and> entries_named ''ENABLE_FORTRAN''
        (fst (snd (ascent_create_host_config (ex_pkg []) (ex_spec []) ''/prefix'' None
          (snd (snd (ascent_create_host_config (ex_pkg []) (ex_spec []) ''/prefix'' None
            (ex_world\<lparr>environ := (environ ex_world)
               (''SPACK_FC'' \<mapsto> ''/tmp/stage/node1-linux-x86_64-gcc@8.3.0-ascent.cmake'')\<rparr>)))))))
     = [''set(ENABLE_FORTRAN "ON" CACHE PATH "")\<newline>\<newline>'']
   \<and> files (snd (snd (ascent_create_host_config (ex_pkg []) (ex_spec []) ''/prefix'' None
          (snd (snd (ascent_create_host_config (ex_pkg []) (ex_spec []) ''/prefix'' None
            (ex_world\<lparr>environ := (environ ex_world)
               (''SPACK_FC'' \<mapsto> ''/tmp/stage/node1-linux-x86_64-gcc@8.3.0-ascent.cmake'')\<rparr>)))))))
        ''/tmp/stage/node1-linux-x86_64-gcc@8.3.0-ascent.cmake''
     \<noteq> files (snd (snd (ascent_create_host_config (ex_pkg []) (ex_spec []) ''/prefix'' None
            (ex_world\<lparr>environ := (environ ex_world)
               (''SPACK_FC'' \<mapsto> ''/tmp/stage/node1-linux-x86_64-gcc@8.3.0-ascent.cmake'')\<rparr>))))
        ''/tmp/stage/node1-linux-x86_64-gcc@8.3.0-ascent.cmake''\<close>
  by code_simp


text \<open>
  Claim C10, amended. For a fixed package, spec, prefix and environment, a run of
  \<^verbatim>\<open>create_host_config\<close> that returns, followed by a second run in the world it left, gives
  the same path, the same strings passed to \<^verbatim>\<open>cfg.write\<close> and the same world, so the same
  bytes in the file: for the vtk-h recipe always, for the ascent recipe when the lookup
  of the Fortran compiler answers the second time as the first, which it does when
  \<^verbatim>\<open>SPACK_FC\<close> does not name the host-config file. A first run that has all it reads
  (\<open>vtkh_ready\<close>, \<open>ascent_ready\<close>) returns, so there are such runs. Nothing in the text
  depends on the time, on chance or on earlier runs: two runs in worlds that agree on the
  environment variables, the host name, the working directory, the search path, the
  resolution of paths and on which files exist or can be created end in the same way (the
  same path or the same exception), pass the same strings to \<^verbatim>\<open>cfg.write\<close> and leave the
  same text in the file, whatever the prefix, the contents of the files and the commands
  run before.
\<close>

theorem host_config_deterministic:
  "(vtkh_ready self spec w \<longrightarrow>
      (\<exists>q ws w'. vtkh_create_host_config self spec pfx w = (Inr q, ws, w')
         \<and> files w' q = Some (concat ws)
         \<and> vtkh_create_host_config self spec pfx w' = (Inr q, ws, w')))
   \<and> (vtkh_create_host_config self spec pfx w = (Inr q, ws, w') \<longrightarrow>
        files w' q = Some (concat ws)
        \<and> vtkh_create_host_config self spec pfx w' = (Inr q, ws, w'))
   \<and> (ascent_ready self spec w
        \<and> (case environ w ''SPACK_FC'' of None \<Rightarrow> True
            | Some f \<Rightarrow> locate w (cwd w) f \<noteq> Some (abspath w (ascent_host_cfg_fname spec w))) \<longrightarrow>
      (\<exists>qa wsa wa. ascent_create_host_config self spec pfx py w = (Inr qa, wsa, wa)
         \<and> files wa qa = Some (concat wsa)
         \<and> ascent_create_host_config self spec pfx py wa = (Inr qa, wsa, wa)))
   \<and> (ascent_create_host_config self spec pfx py w = (Inr qa, wsa, wa)
        \<and> (case environ w ''SPACK_FC'' of None \<Rightarrow> True
            | Some f \<Rightarrow> locate w (cwd w) f \<noteq> Some (abspath w (ascent_host_cfg_fname spec w))) \<longrightarrow>
        ascent_f_compiler self wa = ascent_f_compiler self w)
   \<and> (ascent_create_host_config self spec pfx py w = (Inr qa, wsa, wa)
        \<and> ascent_f_compiler self wa = ascent_f_compiler self w \<longrightarrow>
        files wa qa = Some (concat wsa)
        \<and> ascent_create_host_config self spec pfx py wa = (Inr qa, wsa, wa))
   \<and> (same_inputs u v \<longrightarrow>
      fst (vtkh_create_host_config self spec pfxv v)
        = fst (vtkh_create_host_config self spec pfxu u)
      \<and> fst (snd (vtkh_create_host_config self spec pfxv v))
        = fst (snd (vtkh_create_host_config self spec pfxu u))
      \<and> (fst (vtkh_create_host_config self spec pfxu u) = Inr p \<longrightarrow>
          files (snd (snd (vtkh_create_host_config self spec pfxv v))) p
            = files (snd (snd (vtkh_create_host_config self spec pfxu u))) p)
      \<and> fst (ascent_create_host_config self spec pfxv py v)
        = fst (ascent_create_host_config self spec pfxu py u)
      \<and> fst (snd (ascent_create_host_config self spec pfxv py v))
        = fst (snd (ascent_create_host_config self spec pfxu py u))
      \<and> (fst (ascent_create_host_config self spec pfxu py u) = Inr pa \<longrightarrow>
          files (snd (snd (ascent_create_host_config self spec pfxv py v))) pa
            = files (snd (snd (ascent_create_host_config self spec pfxu py u))) pa))"
proof (intro conjI impI)
  assume "vtkh_ready self spec w"
  then obtain q0 xs w0 where r: "vtkh_create_host_config self spec pfx w = (Inr q0, xs, w0)"
    using vtkh_ready_returns by blast
  from r vtkh_file_written [OF r] vtkh_rerun [OF r]
  show "\<exists>q ws w'. vtkh_create_host_config self spec pfx w = (Inr q, ws, w')
         \<and> files w' q = Some (concat ws)
         \<and> vtkh_create_host_config self spec pfx w' = (Inr q, ws, w')"
    by blast
next
  assume r: "vtkh_create_host_config self spec pfx w = (Inr q, ws, w')"
  from r show "files w' q = Some (concat ws)"
    by (rule vtkh_file_written)
  from r show "vtkh_create_host_config self spec pfx w' = (Inr q, ws, w')"
    by (rule vtkh_rerun)
next
  assume h: "ascent_ready self spec w
        \<and> (case environ w ''SPACK_FC'' of None \<Rightarrow> True
            | Some f \<Rightarrow> locate w (cwd w) f \<noteq> Some (abspath w (ascent_host_cfg_fname spec w)))"
  then obtain q0 xs w0 where
    r: "ascent_create_host_config self spec pfx py w = (Inr q0, xs, w0)"
    using ascent_ready_returns by blast
  from h have c: "case environ w ''SPACK_FC'' of None \<Rightarrow> True
            | Some f \<Rightarrow> locate w (cwd w) f \<noteq> Some (abspath w (ascent_host_cfg_fname spec w))"
    by blast
  from r ascent_file_written [OF r] ascent_rerun [OF r ascent_fc_kept [OF r c]]
  show "\<exists>qa wsa wa. ascent_create_host_config self spec pfx py w = (Inr qa, wsa, wa)
         \<and> files wa qa = Some (concat wsa)
         \<and> ascent_create_host_config self spec pfx py wa = (Inr qa, wsa, wa)"
    by blast
next
  assume "ascent_create_host_config self spec pfx py w = (Inr qa, wsa, wa)
        \<and> (case environ w ''SPACK_FC'' of None \<Rightarrow> True
            | Some f \<Rightarrow> locate w (cwd w) f \<noteq> Some (abspath w (ascent_host_cfg_fname spec w)))"
  then show "ascent_f_compiler self wa = ascent_f_compiler self w"
    by (blast intro: ascent_fc_kept)
next
  assume h: "ascent_create_host_config self spec pfx py w = (Inr qa, wsa, wa)
        \<and> ascent_f_compiler self wa = ascent_f_compiler self w"
  then show "files wa qa = Some (concat wsa)"
    by (blast intro: ascent_file_written)
  from h show "ascent_create_host_config self spec pfx py wa = (Inr qa, wsa, wa)"
    by (blast intro: ascent_rerun)
next
  assume s: "same_inputs u v"
  from s show "fst (vtkh_create_host_config self spec pfxv v)
        = fst (vtkh_create_host_config self spec pfxu u)"
    by (rule vtkh_deterministic(1))
  from s show "fst (snd (vtkh_create_host_config self spec pfxv v))
        = fst (snd (vtkh_create_host_config self spec pfxu u))"
    by (rule vtkh_deterministic(2))
  from s show "fst (ascent_create_host_config self spec pfxv py v)
        = fst (ascent_create_host_config self spec pfxu py u)"
    by (rule ascent_deterministic(1))
  from s show "fst (snd (ascent_create_host_config self spec pfxv py v))
        = fst (snd (ascent_create_host_config self spec pfxu py u))"
    by (rule ascent_deterministic(2))
  {
    assume "fst (vtkh_create_host_config self spec pfxu u) = Inr p"
    with s show "files (snd (snd (vtkh_create_host_config self spec pfxv v))) p
            = files (snd (snd (vtkh_create_host_config self spec pfxu u))) p"
      by (rule vtkh_deterministic(3))
  }
  {
    assume "fst (ascent_create_host_config self spec pfxu py u) = Inr pa"
    with s show "files (snd (snd (ascent_create_host_config self spec pfxv py v))) pa
            = files (snd (snd (ascent_create_host_config self spec pfxu py u))) pa"
      by (rule ascent_deterministic(3))
  }
qed

text \<open>
  Each recipe run twice on the example installation, where \<^verbatim>\<open>SPACK_FC\<close> is
  \<^verbatim>\<open>/usr/bin/gfortran\<close>; then a second installation with another \<^verbatim>\<open>mpiexec\<close> script, an
  earlier \<^verbatim>\<open>make\<close> and another prefix.
\<close>

theorem host_config_deterministic_witness:
  "vtkh_ready (ex_pkg [''+mpi'']) (ex_spec [''+mpi'']) ex_world
   \<and> ascent_ready (ex_pkg [''+mpi'']) (ex_spec [''+mpi'']) ex_world
   \<and> environ ex_world ''SPACK_FC'' = Some ''/usr/bin/gfortran''
   \<and> locate ex_world (cwd ex_world) ''/usr/bin/gfortran''
       \<noteq> Some (abspath ex_world (ascent_host_cfg_fname (ex_spec [''+mpi'']) ex_world))
   \<and> vtkh_create_host_config (ex_pkg [''+mpi'']) (ex_spec [''+mpi'']) ''/prefix''
        (snd (snd (vtkh_create_host_config (ex_pkg [''+mpi'']) (ex_spec [''+mpi''])
                     ''/prefix'' ex_world)))
     = (Inr ''/tmp/stage/node1-linux-x86_64-gcc@8.3.0-vtkh.cmake'',
        fst (snd (vtkh_create_host_config (ex_pkg [''+mpi'']) (ex_spec [''+mpi''])
                    ''/prefix'' ex_world)),
        snd (snd (vtkh_create_host_config (ex_pkg [''+mpi'']) (ex_spec [''+mpi''])
                    ''/prefix'' ex_world)))
   \<and> ascent_f_compiler (ex_pkg [''+mpi''])
        (snd (snd (ascent_create_host_config (ex_pkg [''+mpi'']) (ex_spec [''+mpi''])
                     ''/prefix'' None ex_world)))
     = ascent_f_compiler (ex_pkg [''+mpi'']) ex_world
   \<and> ascent_create_host_config (ex_pkg [''+mpi'']) (ex_spec [''+mpi'']) ''/prefix'' None
        (snd (snd (ascent_create_host_config (ex_pkg [''+mpi'']) (ex_spec [''+mpi''])
                     ''/prefix'' None ex_world)))
     = (Inr ''/tmp/stage/node1-linux-x86_64-gcc@8.3.0-ascent.cmake'',
        fst (snd (ascent_create_host_config (ex_pkg [''+mpi'']) (ex_spec [''+mpi''])
                    ''/prefix'' None ex_world)),
        snd (snd (ascent_create_host_config (ex_pkg [''+mpi'']) (ex_spec [''+mpi''])
                    ''/prefix'' None ex_world)))
   \<and> same_inputs ex_world
     (ex_world\<lparr>files := [''/opt/mpich/bin/mpiexec'' \<mapsto> ''#!/bin/bash''], trace := [Make []]\<rparr>)
   \<and> fst (vtkh_create_host_config (ex_pkg [''+mpi'']) (ex_spec [''+mpi'']) ''/elsewhere''
          (ex_world\<lparr>files := [''/opt/mpich/bin/mpiexec'' \<mapsto> ''#!/bin/bash''],
                     trace := [Make []]\<rparr>))
     = Inr ''/tmp/stage/node1-linux-x86_64-gcc@8.3.0-vtkh.cmake''
   \<and> fst (snd (vtkh_create_host_config (ex_pkg [''+mpi'']) (ex_spec [''+mpi'']) ''/elsewhere''
          (ex_world\<lparr>files := [''/opt/mpich/bin/mpiexec'' \<mapsto> ''#!/bin/bash''],
                     trace := [Make []]\<rparr>)))
     = fst (snd (vtkh_create_host_config (ex_pkg [''+mpi'']) (ex_spec [''+mpi'']) ''/prefix''
                   ex_world))
   \<and> fst (snd (ascent_create_host_config (ex_pkg [''+mpi'']) (ex_spec [''+mpi'']) ''/elsewhere''
          None
          (ex_world\<lparr>files := [''/opt/mpich/bin/mpiexec'' \<mapsto> ''#!/bin/bash''],
                     trace := [Make []]\<rparr>)))
     = fst (snd (ascent_create_host_config (ex_pkg [''+mpi'']) (ex_spec [''+mpi'']) ''/prefix''
                   None ex_world))"
proof -
  let ?w2 = "ex_world\<lparr>files := [''/opt/mpich/bin/mpiexec'' \<mapsto> ''#!/bin/bash''],
                        trace := [Make []]\<rparr>"
  let ?v = "vtkh_create_host_config (ex_pkg [''+mpi'']) (ex_spec [''+mpi'']) ''/prefix'' ex_world"
  let ?a = "ascent_create_host_config (ex_pkg [''+mpi'']) (ex_spec [''+mpi'']) ''/prefix'' None
              ex_world"
  let ?pv = "''/tmp/stage/node1-linux-x86_64-gcc@8.3.0-vtkh.cmake''"
  let ?pa = "''/tmp/stage/node1-linux-x86_64-gcc@8.3.0-ascent.cmake''"
  have yv: "vtkh_ready (ex_pkg [''+mpi'']) (ex_spec [''+mpi'']) ex_world"
    and ya: "ascent_ready (ex_pkg [''+mpi'']) (ex_spec [''+mpi'']) ex_world"
    by (simp_all add: ex_ready)
  have e: "environ ex_world ''SPACK_FC'' = Some ''/usr/bin/gfortran''"
    by (simp add: ex_world_def)
  have l: "locate ex_world (cwd ex_world) ''/usr/bin/gfortran''
       \<noteq> Some (abspath ex_world (ascent_host_cfg_fname (ex_spec [''+mpi'']) ex_world))"
    by code_simp
  from e l have c: "case environ ex_world ''SPACK_FC'' of None \<Rightarrow> True
      | Some f \<Rightarrow> locate ex_world (cwd ex_world) f
          \<noteq> Some (abspath ex_world (ascent_host_cfg_fname (ex_spec [''+mpi'']) ex_world))"
    by simp
  have si: "same_inputs ex_world ?w2"
    by (simp add: same_inputs_def ex_world_def)
  have v: "fst ?v = Inr ?pv"
    by code_simp
  have a: "fst ?a = Inr ?pa"
    by code_simp
  have v': "?v = (Inr ?pv, fst (snd ?v), snd (snd ?v))"
    using v by (simp add: prod_eq_iff)
  have a': "?a = (Inr ?pa, fst (snd ?a), snd (snd ?a))"
    using a by (simp add: prod_eq_iff)
  note t = host_config_deterministic [where u = ex_world and v = ?w2
      and self = "ex_pkg [''+mpi'']" and spec = "ex_spec [''+mpi'']"
      and pfxu = "''/prefix''" and pfxv = "''/elsewhere''" and py = None
      and pfx = "''/prefix''" and w = ex_world
      and q = ?pv and ws = "fst (snd ?v)" and w' = "snd (snd ?v)"
      and qa = ?pa and wsa = "fst (snd ?a)" and wa = "snd (snd ?a)"]
  from t yv have ev: "\<exists>q ws w'. ?v = (Inr q, ws, w')
      \<and> vtkh_create_host_config (ex_pkg [''+mpi'']) (ex_spec [''+mpi'']) ''/prefix'' w'
          = (Inr q, ws, w')"
    by blast
  from t ya c have ea: "\<exists>qa wsa wa. ?a = (Inr qa, wsa, wa)
      \<and> ascent_create_host_config (ex_pkg [''+mpi'']) (ex_spec [''+mpi'']) ''/prefix'' None wa
          = (Inr qa, wsa, wa)"
    by blast
  from t si have d1: "fst (vtkh_create_host_config (ex_pkg [''+mpi'']) (ex_spec [''+mpi''])
        ''/elsewhere'' ?w2) = fst ?v"
    and d2: "fst (snd (vtkh_create_host_config (ex_pkg [''+mpi'']) (ex_spec [''+mpi''])
        ''/elsewhere'' ?w2)) = fst (snd ?v)"
    and d3: "fst (snd (ascent_create_host_config (ex_pkg [''+mpi'']) (ex_spec [''+mpi''])
        ''/elsewhere'' None ?w2)) = fst (snd ?a)"
    by blast+
  from t v' have r1: "vtkh_create_host_config (ex_pkg [''+mpi'']) (ex_spec [''+mpi''])
        ''/prefix'' (snd (snd ?v)) = (Inr ?pv, fst (snd ?v), snd (snd ?v))"
    by blast
  from t a' c have fc: "ascent_f_compiler (ex_pkg [''+mpi'']) (snd (snd ?a))
              = ascent_f_compiler (ex_pkg [''+mpi'']) ex_world"
    by blast
  from t a' fc have r2: "ascent_create_host_config (ex_pkg [''+mpi'']) (ex_spec [''+mpi''])
        ''/prefix'' None (snd (snd ?a)) = (Inr ?pa, fst (snd ?a), snd (snd ?a))"
    by blast
  from d1 v have d1': "fst (vtkh_create_host_config (ex_pkg [''+mpi'']) (ex_spec [''+mpi''])
        ''/elsewhere'' ?w2) = Inr ?pv"
    by simp
  from yv ya e l r1 fc r2 si d1' d2 d3 show ?thesis
    by (intro conjI)
qed


end
